theory Spec2Isabelle
  imports Complex_Main "HOL-Library.Sublist"
begin

section \<open>JavaScript values\<close>

text \<open>
  The values the library inspects (thrown errors, log metadata, request and response
  bodies) are JavaScript values of static type \<^verbatim>\<open>unknown\<close>. They are modelled as trees:
  the primitives, arrays, plain objects as association lists in property order
  (\<^verbatim>\<open>Object.entries\<close> order), and functions. Numbers are restricted to integers; a string
  is a list of code units. A JavaScript object never holds one key twice; the operations
  below read the first binding of a key and overwrite it in place, so they agree with
  JavaScript on every list with distinct keys. A function is given by the text \<^verbatim>\<open>String\<close>
  returns for it; it has no enumerable property, and the model never calls one: a property
  that holds a function is data like any other.
\<close>

datatype jsval =
    JUndefined
  | JNull
  | JBool bool
  | JNum int
  | JBigInt int
  | JStr string
  | JArr "jsval list"
  | JObj "(string \<times> jsval) list"
  | JFunction string

text \<open>Decimal rendering of a number, as \<^verbatim>\<open>String(n)\<close> gives for an integer.\<close>

definition digit_char :: "nat \<Rightarrow> char" where
  "digit_char d = ''0123456789'' ! d"

fun dec_nat :: "nat \<Rightarrow> string" where
  "dec_nat n = (if n < 10 then [digit_char n] else dec_nat (n div 10) @ [digit_char (n mod 10)])"

declare dec_nat.simps [simp del]

definition dec_int :: "int \<Rightarrow> string" where
  "dec_int i = (if i < 0 then CHR ''-'' # dec_nat (nat (- i)) else dec_nat (nat i))"

text \<open>Truthiness, \<^verbatim>\<open>typeof\<close>, \<^verbatim>\<open>Array.isArray\<close>, the \<^verbatim>\<open>in\<close> operator and property reads.\<close>

fun truthy :: "jsval \<Rightarrow> bool" where
  "truthy JUndefined = False"
| "truthy JNull = False"
| "truthy (JBool b) = b"
| "truthy (JNum n) = (n \<noteq> 0)"
| "truthy (JBigInt n) = (n \<noteq> 0)"
| "truthy (JStr s) = (s \<noteq> [])"
| "truthy (JArr xs) = True"
| "truthy (JObj kvs) = True"
| "truthy (JFunction src) = True"

fun typeof :: "jsval \<Rightarrow> string" where
  "typeof JUndefined = ''undefined''"
| "typeof JNull = ''object''"
| "typeof (JBool b) = ''boolean''"
| "typeof (JNum n) = ''number''"
| "typeof (JBigInt n) = ''bigint''"
| "typeof (JStr s) = ''string''"
| "typeof (JArr xs) = ''object''"
| "typeof (JObj kvs) = ''object''"
| "typeof (JFunction src) = ''function''"

fun isArray :: "jsval \<Rightarrow> bool" where
  "isArray (JArr xs) = True"
| "isArray v = False"

text \<open>
  \<^verbatim>\<open>Object.entries\<close>, also what an object spread copies: the own enumerable properties. On an
  array these are the indices, written in decimal, with the elements; on a string, the
  indices with the code units; any other value has none.
\<close>

fun entries :: "jsval \<Rightarrow> (string \<times> jsval) list" where
  "entries (JObj kvs) = kvs"
| "entries (JArr xs) = zip (map dec_nat [0..<length xs]) xs"
| "entries (JStr s) = zip (map dec_nat [0..<length s]) (map (\<lambda>c. JStr [c]) s)"
| "entries v = []"

text \<open>
  \<^verbatim>\<open>key in v\<close> and \<^verbatim>\<open>v.key\<close> on an object or array. An array also has \<^verbatim>\<open>length\<close>. The
  inherited members of \<^verbatim>\<open>Object.prototype\<close> and \<^verbatim>\<open>Array.prototype\<close>, and the \<^verbatim>\<open>name\<close> and
  \<^verbatim>\<open>length\<close> of a function, are left out: the source asks for none of them by name on a
  value that can be one of these. Reading a property of a primitive gives \<^verbatim>\<open>undefined\<close>;
  reading one of \<^verbatim>\<open>undefined\<close> or \<^verbatim>\<open>null\<close> throws in JavaScript, and the functions below
  that do so without \<^verbatim>\<open>?.\<close> test for it before they call \<open>get_prop\<close>.
\<close>

fun has_prop :: "string \<Rightarrow> jsval \<Rightarrow> bool" where
  "has_prop k (JObj kvs) = (map_of kvs k \<noteq> None)"
| "has_prop k (JArr xs) = (k = ''length'' \<or> map_of (entries (JArr xs)) k \<noteq> None)"
| "has_prop k v = False"

fun get_prop :: "jsval \<Rightarrow> string \<Rightarrow> jsval" where
  "get_prop (JObj kvs) k = (case map_of kvs k of Some v \<Rightarrow> v | None \<Rightarrow> JUndefined)"
| "get_prop (JArr xs) k =
     (if k = ''length'' then JNum (int (length xs))
      else case map_of (entries (JArr xs)) k of Some v \<Rightarrow> v | None \<Rightarrow> JUndefined)"
| "get_prop v k = JUndefined"

text \<open>\<^verbatim>\<open>obj[key] = value\<close> on a plain object: overwrite in place, or append a new property.\<close>

fun obj_set :: "(string \<times> jsval) list \<Rightarrow> string \<Rightarrow> jsval \<Rightarrow> (string \<times> jsval) list" where
  "obj_set [] k v = [(k, v)]"
| "obj_set ((k', v') # kvs) k v = (if k' = k then (k, v) # kvs else (k', v') # obj_set kvs k v)"

text \<open>
  A thrown value is an instance of \<^verbatim>\<open>Error\<close>, given by its properties (\<^verbatim>\<open>name\<close>,
  \<^verbatim>\<open>message\<close>, \<^verbatim>\<open>stack\<close> and whatever the library that threw it added), or any other
  value. \<open>value_of\<close> is the value as the shape guards read it.
\<close>

datatype thrown = ErrorObject "(string \<times> jsval) list" | Thrown jsval

fun value_of :: "thrown \<Rightarrow> jsval" where
  "value_of (ErrorObject props) = JObj props"
| "value_of (Thrown v) = v"

fun instanceof_Error :: "thrown \<Rightarrow> bool" where
  "instanceof_Error (ErrorObject props) = True"
| "instanceof_Error (Thrown v) = False"

text \<open>
  The \<^verbatim>\<open>TypeError\<close> the engine throws, with the two messages met below: a property read
  of \<^verbatim>\<open>undefined\<close> or \<^verbatim>\<open>null\<close>, and a call of something that is not a function. The
  wording is that of the V8 engine on the expression as the source writes it.
\<close>

definition TypeError :: "string \<Rightarrow> thrown" where
  "TypeError msg = ErrorObject [(''name'', JStr ''TypeError''), (''message'', JStr msg)]"

definition cannot_read :: "jsval \<Rightarrow> string \<Rightarrow> thrown" where
  "cannot_read v prop =
     TypeError (''Cannot read properties of '' @ (if v = JNull then ''null'' else ''undefined'') @
       '' (reading '' @ [CHR 0x27] @ prop @ [CHR 0x27] @ '')'')"

definition not_a_function :: "string \<Rightarrow> thrown" where
  "not_a_function expr = TypeError (expr @ '' is not a function'')"

section \<open>Error classification (error-classifier.util)\<close>

datatype ErrorType =
    AXIOS | PRISMA_KNOWN | PRISMA_UNKNOWN | PRISMA_VALIDATION
  | HTTP | WEBSOCKET | RABBITMQ | GENERIC

definition isAxiosError :: "jsval \<Rightarrow> bool" where
  "isAxiosError error \<longleftrightarrow>
     truthy error \<and> typeof error = ''object'' \<and> has_prop ''isAxiosError'' error \<and>
     truthy (get_prop error ''isAxiosError'')"

definition isPrismaKnownRequestError :: "jsval \<Rightarrow> bool" where
  "isPrismaKnownRequestError error \<longleftrightarrow>
     truthy error \<and> typeof error = ''object'' \<and> has_prop ''code'' error \<and>
     has_prop ''clientVersion'' error \<and> has_prop ''name'' error \<and>
     get_prop error ''name'' = JStr ''PrismaClientKnownRequestError''"

definition isPrismaUnknownRequestError :: "jsval \<Rightarrow> bool" where
  "isPrismaUnknownRequestError error \<longleftrightarrow>
     truthy error \<and> typeof error = ''object'' \<and> has_prop ''clientVersion'' error \<and>
     has_prop ''name'' error \<and>
     get_prop error ''name'' = JStr ''PrismaClientUnknownRequestError''"

definition isPrismaValidationError :: "jsval \<Rightarrow> bool" where
  "isPrismaValidationError error \<longleftrightarrow>
     truthy error \<and> typeof error = ''object'' \<and> has_prop ''name'' error \<and>
     get_prop error ''name'' = JStr ''PrismaClientValidationError''"

definition classifyError :: "jsval \<Rightarrow> ErrorType" where
  "classifyError error =
     (if isAxiosError error then AXIOS
      else if isPrismaKnownRequestError error then PRISMA_KNOWN
      else if isPrismaUnknownRequestError error then PRISMA_UNKNOWN
      else if isPrismaValidationError error then PRISMA_VALIDATION
      else GENERIC)"

text \<open>Well-formed samples of the four specific shapes, and of values of no specific shape.\<close>

definition axios_sample :: jsval where
  "axios_sample = JObj [(''isAxiosError'', JBool True), (''message'', JStr ''timeout''),
     (''code'', JStr ''ECONNABORTED''), (''name'', JStr ''AxiosError'')]"

definition prisma_known_sample :: jsval where
  "prisma_known_sample = JObj [(''name'', JStr ''PrismaClientKnownRequestError''),
     (''code'', JStr ''P2002''), (''clientVersion'', JStr ''5.0.0''),
     (''message'', JStr ''Unique constraint failed'')]"

definition prisma_unknown_sample :: jsval where
  "prisma_unknown_sample = JObj [(''name'', JStr ''PrismaClientUnknownRequestError''),
     (''clientVersion'', JStr ''5.0.0''), (''message'', JStr ''unknown'')]"

definition prisma_validation_sample :: jsval where
  "prisma_validation_sample = JObj [(''name'', JStr ''PrismaClientValidationError''),
     (''message'', JStr ''Argument missing'')]"

definition generic_sample :: jsval where
  "generic_sample = JObj [(''name'', JStr ''TypeError''), (''message'', JStr ''x is undefined'')]"

text \<open>A value with both the HTTP-client shape and the known-request shape.\<close>

definition axios_and_prisma_sample :: jsval where
  "axios_and_prisma_sample = JObj [(''isAxiosError'', JBool True),
     (''name'', JStr ''PrismaClientKnownRequestError''), (''code'', JStr ''P2002''),
     (''clientVersion'', JStr ''5.0.0'')]"

section \<open>Metric aggregation (metrics.service)\<close>

text \<open>
  The two regular expressions of the label normalisers, as left-to-right scanners: at each
  position a match is replaced and scanning resumes after it, otherwise one code unit is
  copied (the semantics of \<^verbatim>\<open>String.prototype.replace\<close> with a global pattern).
\<close>

definition is_digit :: "char \<Rightarrow> bool" where
  "is_digit c \<longleftrightarrow> 48 \<le> (of_char c :: nat) \<and> (of_char c :: nat) \<le> 57"

definition is_hex :: "char \<Rightarrow> bool" where
  "is_hex c \<longleftrightarrow> is_digit c \<or> (97 \<le> (of_char c :: nat) \<and> (of_char c :: nat) \<le> 102) \<or>
     (65 \<le> (of_char c :: nat) \<and> (of_char c :: nat) \<le> 70)"

text \<open>
  \<^verbatim>\<open>/[0-9a-f]{8}-[0-9a-f]{4}-[0-9a-f]{4}-[0-9a-f]{4}-[0-9a-f]{12}/gi\<close>: the pattern as a
  list of positions, \<open>True\<close> for a hexadecimal digit and \<open>False\<close> for the dash.
\<close>

definition uuid_pattern :: "bool list" where
  "uuid_pattern = replicate 8 True @ [False] @ replicate 4 True @ [False] @
     replicate 4 True @ [False] @ replicate 4 True @ [False] @ replicate 12 True"

fun matches_pattern :: "bool list \<Rightarrow> string \<Rightarrow> bool" where
  "matches_pattern [] s = True"
| "matches_pattern (p # ps) [] = False"
| "matches_pattern (p # ps) (c # cs) =
     ((if p then is_hex c else c = CHR ''-'') \<and> matches_pattern ps cs)"

fun replace_uuid :: "string \<Rightarrow> string \<Rightarrow> string" where
  "replace_uuid rep [] = []"
| "replace_uuid rep (c # cs) =
     (if matches_pattern uuid_pattern (c # cs) then rep @ replace_uuid rep (drop 35 cs)
      else c # replace_uuid rep cs)"

text \<open>\<^verbatim>\<open>/\/\d+/g\<close> replaced by \<^verbatim>\<open>/:id\<close>: a slash and the longest run of digits after it.\<close>

function replace_numeric_ids :: "string \<Rightarrow> string" where
  "replace_numeric_ids [] = []"
| "replace_numeric_ids (c # cs) =
     (if c = CHR ''/'' \<and> takeWhile is_digit cs \<noteq> []
      then ''/:id'' @ replace_numeric_ids (dropWhile is_digit cs)
      else c # replace_numeric_ids cs)"
  by pat_completeness auto
termination
  by (relation "measure length") (auto simp: length_dropWhile_le less_Suc_eq_le)

text \<open>
  \<^verbatim>\<open>/\.\d{10,}\./g\<close> replaced by \<^verbatim>\<open>.*.\<close>: a dot, a run of at least ten digits, a dot.
  The run is the whole run of digits: the pattern needs a dot right after it.
\<close>

function replace_long_numeric :: "string \<Rightarrow> string" where
  "replace_long_numeric [] = []"
| "replace_long_numeric (c # cs) =
     (if c = CHR ''.'' \<and> 10 \<le> length (takeWhile is_digit cs) \<and>
         take 1 (dropWhile is_digit cs) = ''.''
      then ''.*.'' @ replace_long_numeric (drop 1 (dropWhile is_digit cs))
      else c # replace_long_numeric cs)"
  by pat_completeness auto
termination
  by (relation "measure length")
    (auto intro!: le_imp_less_Suc order_trans [OF diff_le_self length_dropWhile_le])

definition normalizeRoute :: "string \<Rightarrow> string" where
  "normalizeRoute route = take 100 (replace_numeric_ids (replace_uuid '':id'' route))"

definition normalizeRoutingKey :: "string \<Rightarrow> string" where
  "normalizeRoutingKey routingKey = take 100 (replace_long_numeric (replace_uuid ''*'' routingKey))"

text \<open>
  The instruments. A counter of the metrics API keeps one sum per attribute set, so it is
  a function from the label record to the sum; a histogram is the list of what was recorded.
\<close>

text \<open>The label \<^verbatim>\<open>method\<close> is the field \<open>http_method\<close>, and \<^verbatim>\<open>context\<close> is \<open>error_context\<close>.\<close>

record http_labels =
  http_method :: string
  route :: string
  status_code :: string

datatype rabbit_operation = publish | consume

record rabbit_labels =
  exchange :: string
  routing_key :: string
  operation :: rabbit_operation

record ws_labels =
  event :: string

record error_labels =
  error_type :: ErrorType
  error_context :: string
  error_code :: string

record metrics =
  httpRequestsTotal :: "http_labels \<Rightarrow> nat"
  httpErrorsTotal :: "http_labels \<Rightarrow> nat"
  httpRequestDuration :: "(rat \<times> http_labels) list"
  rabbitMessagesTotal :: "rabbit_labels \<Rightarrow> nat"
  rabbitErrorsTotal :: "rabbit_labels \<Rightarrow> nat"
  rabbitProcessingDuration :: "(rat \<times> rabbit_labels) list"
  wsEventsTotal :: "ws_labels \<Rightarrow> nat"
  wsErrorsTotal :: "ws_labels \<Rightarrow> nat"
  wsEventDuration :: "(rat \<times> ws_labels) list"
  errorsTotal :: "error_labels \<Rightarrow> nat"

definition add :: "('l \<Rightarrow> nat) \<Rightarrow> nat \<Rightarrow> 'l \<Rightarrow> ('l \<Rightarrow> nat)" where
  "add counter n labels = counter(labels := counter labels + n)"

definition record_value :: "(rat \<times> 'l) list \<Rightarrow> rat \<Rightarrow> 'l \<Rightarrow> (rat \<times> 'l) list" where
  "record_value histogram v labels = histogram @ [(v, labels)]"

definition initializeMetrics :: metrics where
  "initializeMetrics = \<lparr>httpRequestsTotal = (\<lambda>l. 0), httpErrorsTotal = (\<lambda>l. 0),
     httpRequestDuration = [], rabbitMessagesTotal = (\<lambda>l. 0), rabbitErrorsTotal = (\<lambda>l. 0),
     rabbitProcessingDuration = [], wsEventsTotal = (\<lambda>l. 0), wsErrorsTotal = (\<lambda>l. 0),
     wsEventDuration = [], errorsTotal = (\<lambda>l. 0)\<rparr>"

definition recordHttpRequest :: "string \<Rightarrow> string \<Rightarrow> int \<Rightarrow> int \<Rightarrow> metrics \<Rightarrow> metrics" where
  "recordHttpRequest meth rt statusCode durationMs m =
     (let labels = \<lparr>http_method = meth, route = normalizeRoute rt, status_code = dec_int statusCode\<rparr>;
          m1 = m\<lparr>httpRequestsTotal := add (httpRequestsTotal m) 1 labels\<rparr>;
          m2 = m1\<lparr>httpRequestDuration :=
                 record_value (httpRequestDuration m1) (of_int durationMs / 1000) labels\<rparr>
      in if statusCode \<ge> 400 then m2\<lparr>httpErrorsTotal := add (httpErrorsTotal m2) 1 labels\<rparr>
         else m2)"

definition recordRabbitMessage ::
  "string \<Rightarrow> string \<Rightarrow> rabbit_operation \<Rightarrow> bool \<Rightarrow> int option \<Rightarrow> metrics \<Rightarrow> metrics" where
  "recordRabbitMessage exch routingKey oper success durationMs m =
     (let labels = \<lparr>exchange = exch, routing_key = normalizeRoutingKey routingKey,
                     operation = oper\<rparr>;
          m1 = m\<lparr>rabbitMessagesTotal := add (rabbitMessagesTotal m) 1 labels\<rparr>;
          m2 = (if \<not> success then m1\<lparr>rabbitErrorsTotal := add (rabbitErrorsTotal m1) 1 labels\<rparr>
                else m1)
      in case durationMs of
           Some d \<Rightarrow> m2\<lparr>rabbitProcessingDuration :=
                        record_value (rabbitProcessingDuration m2) (of_int d / 1000) labels\<rparr>
         | None \<Rightarrow> m2)"

definition recordWsEvent :: "string \<Rightarrow> bool \<Rightarrow> int option \<Rightarrow> metrics \<Rightarrow> metrics" where
  "recordWsEvent ev success durationMs m =
     (let labels = \<lparr>event = ev\<rparr>;
          m1 = m\<lparr>wsEventsTotal := add (wsEventsTotal m) 1 labels\<rparr>;
          m2 = (if \<not> success then m1\<lparr>wsErrorsTotal := add (wsErrorsTotal m1) 1 labels\<rparr>
                else m1)
      in case durationMs of
           Some d \<Rightarrow> m2\<lparr>wsEventDuration :=
                        record_value (wsEventDuration m2) (of_int d / 1000) labels\<rparr>
         | None \<Rightarrow> m2)"

text \<open>\<^verbatim>\<open>attributes.code || 'unknown'\<close>: an absent or empty code becomes \<^verbatim>\<open>unknown\<close>.\<close>

definition recordError :: "ErrorType \<Rightarrow> string \<Rightarrow> string option \<Rightarrow> metrics \<Rightarrow> metrics" where
  "recordError ty ctx code m =
     m\<lparr>errorsTotal := add (errorsTotal m) 1
          \<lparr>error_type = ty, error_context = ctx,
           error_code = (case code of Some c \<Rightarrow> (if c = [] then ''unknown'' else c)
                                     | None \<Rightarrow> ''unknown'')\<rparr>\<rparr>"

text \<open>
  The words of the route rule, for comparison with \<open>normalizeRoute\<close>: a path is a
  sequence of segments, each written after a slash; a segment is UUID-shaped when it is
  exactly one match of the UUID pattern, purely numeric when it is a non-empty run of
  digits, and static when it holds no slash, does not begin with a digit and no UUID match
  begins inside it. The rule puts the placeholder in place of the UUID-shaped and the
  purely numeric segments and keeps the others.
\<close>

definition join_segments :: "string list \<Rightarrow> string" where
  "join_segments segs = concat (map (\<lambda>s. CHR ''/'' # s) segs)"

definition uuid_shaped :: "string \<Rightarrow> bool" where
  "uuid_shaped s \<longleftrightarrow> length s = 36 \<and> matches_pattern uuid_pattern s"

definition numeric_segment :: "string \<Rightarrow> bool" where
  "numeric_segment s \<longleftrightarrow> s \<noteq> [] \<and> list_all is_digit s"

fun uuid_free :: "string \<Rightarrow> bool" where
  "uuid_free [] = True"
| "uuid_free (c # cs) = (\<not> matches_pattern uuid_pattern (c # cs) \<and> uuid_free cs)"

definition static_segment :: "string \<Rightarrow> bool" where
  "static_segment s \<longleftrightarrow> CHR ''/'' \<notin> set s \<and> takeWhile is_digit s = [] \<and> uuid_free s"

definition normalize_segment :: "string \<Rightarrow> string" where
  "normalize_segment s = (if uuid_shaped s \<or> numeric_segment s then '':id'' else s)"

definition uuid_pass_segment :: "string \<Rightarrow> string" where
  "uuid_pass_segment s = (if uuid_shaped s then '':id'' else s)"

section \<open>Masking of sensitive data (structured-logger.service)\<close>

text \<open>
  \<^verbatim>\<open>toLowerCase\<close> on the ASCII letters (other code units are kept): a code unit from 65
  to 90, \<^verbatim>\<open>A\<close> to \<^verbatim>\<open>Z\<close>, gets bit 5 set, which adds 32. \<^verbatim>\<open>String.prototype.includes\<close>
  is a search for the argument at every position.
\<close>

definition lower_char :: "char \<Rightarrow> char" where
  "lower_char c =
     (if 65 \<le> (of_char c :: nat) \<and> (of_char c :: nat) \<le> 90
      then (case c of Char b0 b1 b2 b3 b4 b5 b6 b7 \<Rightarrow> Char b0 b1 b2 b3 b4 True b6 b7)
      else c)"

definition toLowerCase :: "string \<Rightarrow> string" where
  "toLowerCase s = map lower_char s"

fun startsWith :: "string \<Rightarrow> string \<Rightarrow> bool" where
  "startsWith s [] = True"
| "startsWith [] (d # t) = False"
| "startsWith (c # s) (d # t) = (c = d \<and> startsWith s t)"

fun str_includes :: "string \<Rightarrow> string \<Rightarrow> bool" where
  "str_includes [] t = (t = [])"
| "str_includes (c # s) t = (startsWith (c # s) t \<or> str_includes s t)"

definition isSensitive :: "string list \<Rightarrow> string \<Rightarrow> bool" where
  "isSensitive sensitiveFields key =
     (let lowerKey = toLowerCase key
      in list_ex (\<lambda>field. str_includes lowerKey (toLowerCase field)) sensitiveFields)"

text \<open>
  \<^verbatim>\<open>maskSensitiveData\<close>. The loop over \<^verbatim>\<open>Object.entries(data)\<close> is \<open>mask_entries\<close>,
  with the object under construction as its last argument; \<open>mask_value\<close> is the loop
  body's choice of the value stored under a key and \<open>mask_item\<close> the function mapped over
  an array. The measure below counts, for a list of entries, twice the size of each value
  plus one.
\<close>

fun elements :: "jsval \<Rightarrow> jsval list" where
  "elements (JArr xs) = xs"
| "elements v = []"

fun entries_weight :: "(string \<times> jsval) list \<Rightarrow> nat" where
  "entries_weight [] = 0"
| "entries_weight ((k, v) # kvs) = 2 * size v + 1 + entries_weight kvs"

lemma entries_weight_zip: "entries_weight (zip ks xs) \<le> 2 * size_list size xs"
proof (induction xs arbitrary: ks)
  case Nil
  then show ?case by simp
next
  case (Cons x xs)
  show ?case
  proof (cases ks)
    case Nil
    then show ?thesis by simp
  next
    case (Cons k ks')
    with Cons.IH [of ks'] show ?thesis by simp
  qed
qed

lemma entries_weight_size: "entries_weight kvs \<le> 2 * size_list (size_prod (\<lambda>x. 0) size) kvs"
  by (induction kvs rule: entries_weight.induct) auto

lemma entries_weight_entries: "typeof v = ''object'' \<Longrightarrow> v \<noteq> JNull \<Longrightarrow> Suc (entries_weight (entries v)) < 2 * size v"
  using entries_weight_zip entries_weight_size
  by (cases v) (auto simp: le_imp_less_Suc)

lemma size_elements: "x \<in> set (elements v) \<Longrightarrow> size x < size v"
  by (cases v) (auto simp: less_Suc_eq_le size_list_estimation')

function maskSensitiveData :: "string list \<Rightarrow> (string \<times> jsval) list \<Rightarrow> (string \<times> jsval) list"
  and mask_entries :: "string list \<Rightarrow> (string \<times> jsval) list \<Rightarrow> (string \<times> jsval) list \<Rightarrow> (string \<times> jsval) list"
  and mask_value :: "string list \<Rightarrow> string \<Rightarrow> jsval \<Rightarrow> jsval"
  and mask_item :: "string list \<Rightarrow> jsval \<Rightarrow> jsval"
where
  "maskSensitiveData sensitiveFields data = mask_entries sensitiveFields data []"
| "mask_entries sensitiveFields [] masked = masked"
| "mask_entries sensitiveFields ((key, value) # rest) masked =
     mask_entries sensitiveFields rest (obj_set masked key (mask_value sensitiveFields key value))"
| "mask_value sensitiveFields key value =
     (if isSensitive sensitiveFields key then JStr ''[REDACTED]''
      else if truthy value \<and> typeof value = ''object'' \<and> \<not> isArray value
        then JObj (maskSensitiveData sensitiveFields (entries value))
      else if isArray value then JArr (map (\<lambda>item. mask_item sensitiveFields item) (elements value))
      else value)"
| "mask_item sensitiveFields item =
     (if typeof item = ''object'' \<and> item \<noteq> JNull
      then JObj (maskSensitiveData sensitiveFields (entries item)) else item)"
  by pat_completeness auto
termination
  by (relation "measure (\<lambda>x. case x of
        Inl (Inl (sensitiveFields, data)) \<Rightarrow> entries_weight data + 1
      | Inl (Inr (sensitiveFields, rest, masked)) \<Rightarrow> entries_weight rest
      | Inr (Inl (sensitiveFields, key, value)) \<Rightarrow> 2 * size value
      | Inr (Inr (sensitiveFields, item)) \<Rightarrow> 2 * size item)")
    (auto intro!: entries_weight_entries dest: size_elements)

declare maskSensitiveData.simps [simp del] mask_entries.simps [simp del] mask_value.simps [simp del] mask_item.simps [simp del]

definition DEFAULT_SENSITIVE_FIELDS :: "string list" where
  "DEFAULT_SENSITIVE_FIELDS = [''password'', ''token'', ''authorization'', ''secret'', ''key'',
     ''apikey'', ''api_key'', ''api-key'', ''bearer'', ''credential'', ''private'', ''cpf'',
     ''cnpj'', ''ssn'', ''credit_card'', ''card_number'']"

definition contains_key :: "string \<Rightarrow> bool" where
  "contains_key k \<longleftrightarrow> str_includes (toLowerCase k) ''key''"

fun key_values_redacted :: "jsval \<Rightarrow> bool" where
  "key_values_redacted (JObj kvs) =
     list_all (\<lambda>(k, v). if contains_key k then v = JStr ''[REDACTED]'' else key_values_redacted v) kvs"
| "key_values_redacted (JArr xs) = list_all key_values_redacted xs"
| "key_values_redacted v = True"

section \<open>The JSON built-ins\<close>

text \<open>
  \<^verbatim>\<open>JSON.stringify\<close> and \<^verbatim>\<open>JSON.parse\<close> belong to the platform, not to the library. The
  functions that call them take them as a parameter: \<open>stringify\<close> gives the text, or
  nothing when the result is \<^verbatim>\<open>undefined\<close>, or the value it throws; \<open>parse\<close> gives the value
  or the value it throws. Every theorem below that names no instance holds for any pair of
  such functions.
\<close>

record json_builtins =
  stringify :: "jsval \<Rightarrow> thrown + string option"
  parse :: "string \<Rightarrow> thrown + jsval"

text \<open>
  The serializer of the language standard on the tree model. \<^verbatim>\<open>undefined\<close> and a function
  have no serialization: alone they give \<^verbatim>\<open>undefined\<close>, as an array element they are
  written \<^verbatim>\<open>null\<close>, and a property holding one is left out. A BigInt throws a TypeError.
\<close>

definition hex_digit :: "nat \<Rightarrow> char" where
  "hex_digit d = ''0123456789abcdef'' ! d"

definition quote_char :: "char \<Rightarrow> string" where
  "quote_char c =
     (if c = CHR 0x22 then [CHR 0x5C, CHR 0x22]
      else if c = CHR 0x5C then [CHR 0x5C, CHR 0x5C]
      else if c = CHR 0x08 then [CHR 0x5C, CHR ''b'']
      else if c = CHR 0x0C then [CHR 0x5C, CHR ''f'']
      else if c = CHR 0x0A then [CHR 0x5C, CHR ''n'']
      else if c = CHR 0x0D then [CHR 0x5C, CHR ''r'']
      else if c = CHR 0x09 then [CHR 0x5C, CHR ''t'']
      else if (of_char c :: nat) < 32
        then [CHR 0x5C, CHR ''u'', CHR ''0'', CHR ''0'',
              hex_digit ((of_char c :: nat) div 16), hex_digit ((of_char c :: nat) mod 16)]
      else [c])"

definition quote_string :: "string \<Rightarrow> string" where
  "quote_string s = CHR 0x22 # concat (map quote_char s) @ [CHR 0x22]"

fun join :: "string \<Rightarrow> string list \<Rightarrow> string" where
  "join sep [] = []"
| "join sep [s] = s"
| "join sep (s # t # ss) = s @ sep @ join sep (t # ss)"

function JSON_stringify :: "jsval \<Rightarrow> thrown + string option"
  and stringify_elements :: "jsval list \<Rightarrow> thrown + string list"
  and stringify_properties :: "(string \<times> jsval) list \<Rightarrow> thrown + string list"
where
  "JSON_stringify JUndefined = Inr None"
| "JSON_stringify (JFunction src) = Inr None"
| "JSON_stringify JNull = Inr (Some ''null'')"
| "JSON_stringify (JBool b) = Inr (Some (if b then ''true'' else ''false''))"
| "JSON_stringify (JNum n) = Inr (Some (dec_int n))"
| "JSON_stringify (JBigInt n) = Inl (TypeError ''Do not know how to serialize a BigInt'')"
| "JSON_stringify (JStr s) = Inr (Some (quote_string s))"
| "JSON_stringify (JArr xs) =
     (case stringify_elements xs of Inl e \<Rightarrow> Inl e
      | Inr parts \<Rightarrow> Inr (Some (''['' @ join '','' parts @ '']'')))"
| "JSON_stringify (JObj kvs) =
     (case stringify_properties kvs of Inl e \<Rightarrow> Inl e
      | Inr parts \<Rightarrow> Inr (Some (''{'' @ join '','' parts @ ''}'')))"
| "stringify_elements [] = Inr []"
| "stringify_elements (x # xs) =
     (case JSON_stringify x of Inl e \<Rightarrow> Inl e
      | Inr r \<Rightarrow> (case stringify_elements xs of Inl e \<Rightarrow> Inl e
                  | Inr parts \<Rightarrow> Inr ((case r of None \<Rightarrow> ''null'' | Some t \<Rightarrow> t) # parts)))"
| "stringify_properties [] = Inr []"
| "stringify_properties ((k, v) # kvs) =
     (case JSON_stringify v of Inl e \<Rightarrow> Inl e
      | Inr None \<Rightarrow> stringify_properties kvs
      | Inr (Some t) \<Rightarrow> (case stringify_properties kvs of Inl e \<Rightarrow> Inl e
                  | Inr parts \<Rightarrow> Inr ((quote_string k @ '':'' @ t) # parts)))"
  by pat_completeness auto
termination
  by (relation "measure (\<lambda>x. case x of
        Inl v \<Rightarrow> 2 * size v
      | Inr (Inl xs) \<Rightarrow> 2 * size_list size xs + 1
      | Inr (Inr kvs) \<Rightarrow> 2 * size_list (size_prod (\<lambda>x. 0) size) kvs + 1)") auto

text \<open>
  The parser of the language standard, on the texts that denote a value of the tree model:
  the JSON grammar with white space, the literals, integers without fraction or exponent,
  strings with their escapes (a \<^verbatim>\<open>\u\<close> escape, \<open>hex4\<close> its four digits, for a code unit
  below 256), arrays and
  objects; a key written twice keeps its first place and its last value. Any other text is
  refused with a \<^verbatim>\<open>SyntaxError\<close>, whose message is left out. The library parses only what
  it has just serialized (in \<^verbatim>\<open>truncateBody\<close>), and the serializer above writes no fraction,
  no exponent and no other \<^verbatim>\<open>\u\<close> escape. \<open>parse_chars\<close> reads a string
  after its opening quote. The first argument of \<open>parse_value\<close> bounds the calls still
  allowed; every call but the first follows at least one character read, so the length of
  the text and one more is enough, and \<open>JSON_parse\<close> gives that.
\<close>

definition is_ws :: "char \<Rightarrow> bool" where
  "is_ws c \<longleftrightarrow> c = CHR 0x20 \<or> c = CHR 0x09 \<or> c = CHR 0x0A \<or> c = CHR 0x0D"

definition skip_ws :: "string \<Rightarrow> string" where
  "skip_ws s = dropWhile is_ws s"

definition hex_value :: "char \<Rightarrow> nat option" where
  "hex_value c =
     (let n = (of_char c :: nat)
      in if 48 \<le> n \<and> n \<le> 57 then Some (n - 48)
         else if 97 \<le> n \<and> n \<le> 102 then Some (n - 87)
         else if 65 \<le> n \<and> n \<le> 70 then Some (n - 55)
         else None)"

definition hex4 :: "string \<Rightarrow> nat option" where
  "hex4 r =
     (case those (map hex_value (take 4 r)) of
        None \<Rightarrow> None
      | Some ds \<Rightarrow> if length ds = 4 then Some (foldl (\<lambda>n d. 16 * n + d) 0 ds) else None)"

definition char_of_code :: "nat \<Rightarrow> char" where
  "char_of_code n =
     Char (odd n) (odd (n div 2)) (odd (n div 4)) (odd (n div 8))
          (odd (n div 16)) (odd (n div 32)) (odd (n div 64)) (odd (n div 128))"

definition escape_char :: "char \<Rightarrow> char option" where
  "escape_char e =
     (if e = CHR 0x22 \<or> e = CHR 0x5C \<or> e = CHR ''/'' then Some e
      else if e = CHR ''b'' then Some (CHR 0x08)
      else if e = CHR ''f'' then Some (CHR 0x0C)
      else if e = CHR ''n'' then Some (CHR 0x0A)
      else if e = CHR ''r'' then Some (CHR 0x0D)
      else if e = CHR ''t'' then Some (CHR 0x09)
      else None)"

definition cons_char :: "char \<Rightarrow> (string \<times> string) option \<Rightarrow> (string \<times> string) option" where
  "cons_char c r = (case r of None \<Rightarrow> None | Some (t, rest) \<Rightarrow> Some (c # t, rest))"

function parse_chars :: "string \<Rightarrow> (string \<times> string) option" where
  "parse_chars [] = None"
| "parse_chars (c # cs) =
     (if c = CHR 0x22 then Some ([], cs)
      else if c = CHR 0x5C then
        (if cs = [] then None
         else if hd cs = CHR ''u'' then
           (case hex4 (tl cs) of
              None \<Rightarrow> None
            | Some n \<Rightarrow>
                if n < 256 then cons_char (char_of_code n) (parse_chars (drop 5 cs)) else None)
         else (case escape_char (hd cs) of
                 None \<Rightarrow> None
               | Some x \<Rightarrow> cons_char x (parse_chars (tl cs))))
      else if (of_char c :: nat) < 32 then None
      else cons_char c (parse_chars cs))"
  by pat_completeness auto
termination
  by (relation "measure length") (auto simp: less_Suc_eq_le)

definition nat_of_digits :: "string \<Rightarrow> nat" where
  "nat_of_digits ds = foldl (\<lambda>n c. 10 * n + ((of_char c :: nat) - 48)) 0 ds"

definition parse_number :: "string \<Rightarrow> (jsval \<times> string) option" where
  "parse_number s =
     (let neg = (take 1 s = ''-'');
          t = (if neg then drop 1 s else s);
          ds = takeWhile is_digit t;
          rest = dropWhile is_digit t
      in if ds = [] \<or> (hd ds = CHR ''0'' \<and> length ds > 1) then None
         else if take 1 rest = ''.'' \<or> take 1 rest = ''e'' \<or> take 1 rest = ''E'' then None
         else Some (JNum (if neg then - int (nat_of_digits ds) else int (nat_of_digits ds)), rest))"

definition cons_value :: "'a \<Rightarrow> ('a list \<times> string) option \<Rightarrow> ('a list \<times> string) option" where
  "cons_value v r = (case r of None \<Rightarrow> None | Some (vs, rest) \<Rightarrow> Some (v # vs, rest))"

fun parse_value :: "nat \<Rightarrow> string \<Rightarrow> (jsval \<times> string) option"
  and parse_elements :: "nat \<Rightarrow> string \<Rightarrow> (jsval list \<times> string) option"
  and parse_members :: "nat \<Rightarrow> string \<Rightarrow> ((string \<times> jsval) list \<times> string) option"
where
  "parse_value 0 s = None"
| "parse_value (Suc n) s =
     (let t = skip_ws s
      in if take 4 t = ''null'' then Some (JNull, drop 4 t)
         else if take 4 t = ''true'' then Some (JBool True, drop 4 t)
         else if take 5 t = ''false'' then Some (JBool False, drop 5 t)
         else if take 1 t = [CHR 0x22] then
           (case parse_chars (drop 1 t) of
              None \<Rightarrow> None
            | Some (str, rest) \<Rightarrow> Some (JStr str, rest))
         else if take 1 t = ''['' then
           (if take 1 (skip_ws (drop 1 t)) = '']'' then Some (JArr [], drop 1 (skip_ws (drop 1 t)))
            else case parse_elements n (drop 1 t) of
                   None \<Rightarrow> None
                 | Some (vs, rest) \<Rightarrow> Some (JArr vs, rest))
         else if take 1 t = ''{'' then
           (if take 1 (skip_ws (drop 1 t)) = ''}'' then Some (JObj [], drop 1 (skip_ws (drop 1 t)))
            else case parse_members n (drop 1 t) of
                   None \<Rightarrow> None
                 | Some (kvs, rest) \<Rightarrow>
                     Some (JObj (foldl (\<lambda>obj (k, v). obj_set obj k v) [] kvs), rest))
         else parse_number t)"
| "parse_elements 0 s = None"
| "parse_elements (Suc n) s =
     (case parse_value n s of
        None \<Rightarrow> None
      | Some (v, rest) \<Rightarrow>
          let t = skip_ws rest
          in if take 1 t = '','' then cons_value v (parse_elements n (drop 1 t))
             else if take 1 t = '']'' then Some ([v], drop 1 t)
             else None)"
| "parse_members 0 s = None"
| "parse_members (Suc n) s =
     (let t = skip_ws s
      in if take 1 t \<noteq> [CHR 0x22] then None
         else case parse_chars (drop 1 t) of
                None \<Rightarrow> None
              | Some (k, rest) \<Rightarrow>
                  let u = skip_ws rest
                  in if take 1 u \<noteq> '':'' then None
                     else case parse_value n (drop 1 u) of
                            None \<Rightarrow> None
                          | Some (v, rest2) \<Rightarrow>
                              let x = skip_ws rest2
                              in if take 1 x = '','' then cons_value (k, v) (parse_members n (drop 1 x))
                                 else if take 1 x = ''}'' then Some ([(k, v)], drop 1 x)
                                 else None)"

definition SyntaxError :: thrown where
  "SyntaxError = ErrorObject [(''name'', JStr ''SyntaxError'')]"

definition JSON_parse :: "string \<Rightarrow> thrown + jsval" where
  "JSON_parse s =
     (case parse_value (Suc (length s)) s of
        None \<Rightarrow> Inl SyntaxError
      | Some (v, rest) \<Rightarrow> if skip_ws rest = [] then Inr v else Inl SyntaxError)"

definition JSON_model :: json_builtins where
  "JSON_model = \<lparr>stringify = JSON_stringify, parse = JSON_parse\<rparr>"

section \<open>Body truncation (error-classifier.util)\<close>

text \<open>
  \<^verbatim>\<open>truncateBody(body, maxSize)\<close>. The size is the \<^verbatim>\<open>length\<close> of the serialization in code
  units; \<open>maxSize\<close> is an integer, and \<^verbatim>\<open>substring(0, maxSize)\<close> takes nothing when it is
  negative. \<open>serialize\<close> is the choice \<^verbatim>\<open>typeof body === 'string' ? body : JSON.stringify(body)\<close>
  inside the first \<^verbatim>\<open>try\<close>. The test \<^verbatim>\<open>stringified.length <= maxSize\<close> stands outside it: when
  \<^verbatim>\<open>JSON.stringify\<close> returned \<^verbatim>\<open>undefined\<close>, reading \<^verbatim>\<open>length\<close> throws a TypeError, which
  leaves the function.
\<close>

definition substring :: "string \<Rightarrow> int \<Rightarrow> string" where
  "substring s n = take (nat n) s"

fun string_of :: "jsval \<Rightarrow> string" where
  "string_of (JStr s) = s"
| "string_of v = []"

definition serialize :: "json_builtins \<Rightarrow> jsval \<Rightarrow> thrown + string option" where
  "serialize J body =
     (if typeof body = ''string'' then Inr (Some (string_of body)) else stringify J body)"

definition truncateBody :: "json_builtins \<Rightarrow> jsval \<Rightarrow> int \<Rightarrow> thrown + jsval" where
  "truncateBody J body maxSize =
     (if body = JUndefined \<or> body = JNull then Inr JUndefined
      else case serialize J body of
        Inl e \<Rightarrow> Inr (JStr ''[SERIALIZATION_ERROR]'')
      | Inr None \<Rightarrow> Inl (cannot_read JUndefined ''length'')
      | Inr (Some stringified) \<Rightarrow>
          if int (length stringified) \<le> maxSize
          then (if typeof body = ''string'' then Inr body
                else case parse J stringified of Inr v \<Rightarrow> Inr v | Inl e \<Rightarrow> Inr (JStr stringified))
          else Inr (JStr (substring stringified maxSize @ ''... [TRUNCATED - total: '' @
                     dec_nat (length stringified) @ '' bytes]'')))"

section \<open>The remote log sink (otel-logger.provider)\<close>

text \<open>
  The module keeps \<^verbatim>\<open>otelLogger\<close> and \<^verbatim>\<open>isOtlpAvailable\<close>. The logger of the logs API is
  a function from the record to emit to the value it throws, if it throws. The state also
  keeps every record handed to \<^verbatim>\<open>otelLogger.emit\<close> and every call of the console: a
  method, the text, and the second argument where there is one. The severity numbers are
  those of the logs API.
\<close>

datatype LogLevel = LDebug | LInfo | LWarn | LError

fun level_name :: "LogLevel \<Rightarrow> string" where
  "level_name LDebug = ''debug''"
| "level_name LInfo = ''info''"
| "level_name LWarn = ''warn''"
| "level_name LError = ''error''"

fun LOG_LEVEL_PRIORITY :: "LogLevel \<Rightarrow> nat" where
  "LOG_LEVEL_PRIORITY LDebug = 0"
| "LOG_LEVEL_PRIORITY LInfo = 1"
| "LOG_LEVEL_PRIORITY LWarn = 2"
| "LOG_LEVEL_PRIORITY LError = 3"

fun LOG_SEVERITY_MAP :: "LogLevel \<Rightarrow> nat" where
  "LOG_SEVERITY_MAP LDebug = 5"
| "LOG_SEVERITY_MAP LInfo = 9"
| "LOG_SEVERITY_MAP LWarn = 13"
| "LOG_SEVERITY_MAP LError = 17"

definition upper_char :: "char \<Rightarrow> char" where
  "upper_char c =
     (if 97 \<le> (of_char c :: nat) \<and> (of_char c :: nat) \<le> 122
      then (case c of Char b0 b1 b2 b3 b4 b5 b6 b7 \<Rightarrow> Char b0 b1 b2 b3 b4 False b6 b7)
      else c)"

definition toUpperCase :: "string \<Rightarrow> string" where
  "toUpperCase s = map upper_char s"

definition padEnd :: "nat \<Rightarrow> string \<Rightarrow> string" where
  "padEnd n s = s @ replicate (n - length s) CHR '' ''"

record log_record =
  severityNumber :: nat
  severityText :: string
  body :: string
  attributes :: "(string \<times> jsval) list"

datatype console_method = console_error | console_warn | console_debug | console_log

record world =
  isOtlpAvailable :: bool
  otelLogger :: "(log_record \<Rightarrow> thrown option) option"
  emit_calls :: "log_record list"
  console :: "(console_method \<times> string \<times> thrown option) list"

definition isOtelLoggerAvailable :: "world \<Rightarrow> bool" where
  "isOtelLoggerAvailable w \<longleftrightarrow> isOtlpAvailable w \<and> otelLogger w \<noteq> None"

definition markOtlpUnavailable :: "world \<Rightarrow> world" where
  "markOtlpUnavailable w = w\<lparr>isOtlpAvailable := False\<rparr>"

definition markOtlpAvailable :: "world \<Rightarrow> world" where
  "markOtlpAvailable w = w\<lparr>isOtlpAvailable := True\<rparr>"

text \<open>
  \<^verbatim>\<open>String(value)\<close>, also the conversion inside a template literal, and
  \<^verbatim>\<open>sanitizeAttributes\<close> with its loop \<open>sanitize_entries\<close>.
\<close>

fun ToString :: "jsval \<Rightarrow> string" where
  "ToString JUndefined = ''undefined''"
| "ToString JNull = ''null''"
| "ToString (JBool b) = (if b then ''true'' else ''false'')"
| "ToString (JNum n) = dec_int n"
| "ToString (JBigInt n) = dec_int n"
| "ToString (JStr s) = s"
| "ToString (JArr xs) =
     join '','' (map (\<lambda>x. if x = JUndefined \<or> x = JNull then [] else ToString x) xs)"
| "ToString (JObj kvs) = ''[object Object]''"
| "ToString (JFunction src) = src"

fun sanitize_entries ::
  "json_builtins \<Rightarrow> (string \<times> jsval) list \<Rightarrow> (string \<times> jsval) list \<Rightarrow> (string \<times> jsval) list" where
  "sanitize_entries J [] result = result"
| "sanitize_entries J ((key, val) # rest) result =
     (if val = JNull \<or> val = JUndefined then sanitize_entries J rest result
      else if typeof val = ''string'' \<or> typeof val = ''number'' \<or> typeof val = ''boolean''
        then sanitize_entries J rest (obj_set result key val)
      else if typeof val = ''object''
        then sanitize_entries J rest (obj_set result key
               (case stringify J val of
                  Inr (Some t) \<Rightarrow> JStr t
                | Inr None \<Rightarrow> JUndefined
                | Inl e \<Rightarrow> JStr ''[SERIALIZATION_ERROR]''))
      else sanitize_entries J rest (obj_set result key (JStr (ToString val))))"


definition sanitizeAttributes :: "json_builtins \<Rightarrow> (string \<times> jsval) list \<Rightarrow> (string \<times> jsval) list" where
  "sanitizeAttributes J obj = sanitize_entries J obj []"

text \<open>
  \<^verbatim>\<open>emitOtelLog\<close> returns whether the record was emitted. The \<^verbatim>\<open>catch\<close> branch writes to
  the console and returns \<^verbatim>\<open>false\<close>; it assigns nothing.
\<close>

definition emitOtelLog ::
  "json_builtins \<Rightarrow> LogLevel \<Rightarrow> string \<Rightarrow> (string \<times> jsval) list \<Rightarrow> world \<Rightarrow> bool \<times> world" where
  "emitOtelLog J level message attrs w =
     (case otelLogger w of
        None \<Rightarrow> (False, w)
      | Some logger \<Rightarrow>
          if \<not> isOtlpAvailable w then (False, w)
          else
            let r = \<lparr>severityNumber = LOG_SEVERITY_MAP level,
                     severityText = toUpperCase (level_name level),
                     body = message, attributes = sanitizeAttributes J attrs\<rparr>;
                w1 = w\<lparr>emit_calls := emit_calls w @ [r]\<rparr>
            in (case logger r of
                  None \<Rightarrow> (True, w1)
                | Some err \<Rightarrow>
                    (False, w1\<lparr>console := console w1 @
                       [(console_error, ''[Observability] Error emitting OTLP log:'', Some err)]\<rparr>)))"

section \<open>The structured logger (structured-logger.service)\<close>

text \<open>
  The fields of \<^verbatim>\<open>StructuredLoggerService\<close> (\<^verbatim>\<open>context\<close> is \<open>logger_context\<close>). A log call
  reads the clock and the active span; both are arguments: \<open>now\<close> is
  \<^verbatim>\<open>new Date().toISOString()\<close> and \<open>traceContext\<close> is \<^verbatim>\<open>getTraceContextInfo()\<close>. An
  entry is an object in insertion order; \<^verbatim>\<open>Object.assign\<close> writes the source's properties
  over the target's.
\<close>

record logger_service =
  logger_context :: "string option"
  serviceName :: string
  environment :: string
  logLevel :: LogLevel
  sensitiveFields :: "string list"
  enableOtlpLogs :: bool
  enableConsoleLogs :: bool

record TraceContextInfo =
  traceId :: "string option"
  spanId :: "string option"

definition Object_assign :: "(string \<times> jsval) list \<Rightarrow> (string \<times> jsval) list \<Rightarrow> (string \<times> jsval) list" where
  "Object_assign target source = foldl (\<lambda>t (k, v). obj_set t k v) target source"

definition set_if_nonempty ::
  "(string \<times> jsval) list \<Rightarrow> string \<Rightarrow> string option \<Rightarrow> (string \<times> jsval) list" where
  "set_if_nonempty entry key val =
     (case val of None \<Rightarrow> entry | Some s \<Rightarrow> if s = [] then entry else obj_set entry key (JStr s))"

definition createLogEntry ::
  "logger_service \<Rightarrow> LogLevel \<Rightarrow> string \<Rightarrow> (string \<times> jsval) list option \<Rightarrow> string \<Rightarrow>
   TraceContextInfo \<Rightarrow> (string \<times> jsval) list" where
  "createLogEntry lg level message meta now traceContext =
     (let entry = [(''timestamp'', JStr now), (''level'', JStr (level_name level)),
                   (''message'', JStr message), (''service'', JStr (serviceName lg)),
                   (''environment'', JStr (environment lg))];
          entry = set_if_nonempty entry ''trace_id'' (traceId traceContext);
          entry = set_if_nonempty entry ''span_id'' (spanId traceContext);
          entry = set_if_nonempty entry ''context'' (logger_context lg)
      in case meta of
           None \<Rightarrow> entry
         | Some m \<Rightarrow> Object_assign entry (maskSensitiveData (sensitiveFields lg) m))"

text \<open>
  \<^verbatim>\<open>writeToConsole\<close>. In development the line is the template literal
  \<^verbatim>\<open>${timestamp} ${logLevel.toUpperCase().padEnd(5)} ${contextStr}${message}${traceStr}${metaStr}\<close>
  over the fields destructured from the entry, the concatenation of its parts, computed in
  the order of the source: the trace part, the serialization of the remaining fields, then
  the template. Calling \<^verbatim>\<open>substring\<close> or \<^verbatim>\<open>toUpperCase\<close> on a value that is not a string
  throws a TypeError (reading \<^verbatim>\<open>toUpperCase\<close> of \<^verbatim>\<open>undefined\<close> or \<^verbatim>\<open>null\<close> does too); a
  serialization that is \<^verbatim>\<open>undefined\<close> is written \<^verbatim>\<open>undefined\<close>. Elsewhere the line is the
  serialization of the entry. Nothing in \<^verbatim>\<open>writeToConsole\<close> or \<^verbatim>\<open>writeLog\<close> catches: a thrown
  value leaves both, with the state as it is.
\<close>

fun console_method_of :: "LogLevel \<Rightarrow> console_method" where
  "console_method_of LError = console_error"
| "console_method_of LWarn = console_warn"
| "console_method_of LDebug = console_debug"
| "console_method_of LInfo = console_log"

definition write_line :: "LogLevel \<Rightarrow> string \<Rightarrow> world \<Rightarrow> world" where
  "write_line level text w = w\<lparr>console := console w @ [(console_method_of level, text, None)]\<rparr>"

definition rest_of_entry :: "(string \<times> jsval) list \<Rightarrow> (string \<times> jsval) list" where
  "rest_of_entry entry =
     filter (\<lambda>(k, v). k \<notin> set [''timestamp'', ''level'', ''message'', ''context'', ''trace_id'']) entry"

definition formatDevelopment :: "json_builtins \<Rightarrow> (string \<times> jsval) list \<Rightarrow> thrown + string" where
  "formatDevelopment J entry =
     (let timestamp = get_prop (JObj entry) ''timestamp'';
          logLevel = get_prop (JObj entry) ''level'';
          message = get_prop (JObj entry) ''message'';
          ctx = get_prop (JObj entry) ''context'';
          trace_id = get_prop (JObj entry) ''trace_id'';
          rest = rest_of_entry entry;
          contextStr = (if truthy ctx then ''['' @ ToString ctx @ ''] '' else [])
      in if truthy trace_id \<and> typeof trace_id \<noteq> ''string''
         then Inl (not_a_function ''trace_id.substring'')
         else
           let traceStr = (if truthy trace_id
                           then '' (trace: '' @ substring (string_of trace_id) 8 @ ''...)''
                           else [])
           in case (if rest \<noteq> [] then stringify J (JObj rest) else Inr (Some [])) of
                Inl e \<Rightarrow> Inl e
              | Inr json \<Rightarrow>
                  let metaStr = (if rest \<noteq> []
                                 then '' '' @ (case json of None \<Rightarrow> ''undefined'' | Some t \<Rightarrow> t)
                                 else [])
                  in if logLevel = JUndefined \<or> logLevel = JNull
                     then Inl (cannot_read logLevel ''toUpperCase'')
                     else if typeof logLevel \<noteq> ''string''
                     then Inl (not_a_function ''logLevel.toUpperCase'')
                     else Inr (concat [ToString timestamp, '' '',
                               padEnd 5 (toUpperCase (string_of logLevel)), '' '',
                               contextStr, ToString message, traceStr, metaStr]))"

definition writeToConsole ::
  "json_builtins \<Rightarrow> logger_service \<Rightarrow> LogLevel \<Rightarrow> (string \<times> jsval) list \<Rightarrow> world \<Rightarrow>
   thrown option \<times> world" where
  "writeToConsole J lg level entry w =
     (if environment lg = ''development''
      then (case formatDevelopment J entry of
              Inl e \<Rightarrow> (Some e, w)
            | Inr formattedMessage \<Rightarrow> (None, write_line level formattedMessage w))
      else (case stringify J (JObj entry) of
              Inl e \<Rightarrow> (Some e, w)
            | Inr output \<Rightarrow>
                (None, write_line level (case output of None \<Rightarrow> ''undefined'' | Some t \<Rightarrow> t) w)))"

text \<open>
  \<^verbatim>\<open>writeLog\<close>. \<open>otlp_attributes\<close> is the object
  \<^verbatim>\<open>{...entry, timestamp: undefined, level: undefined, message: undefined}\<close>.
\<close>

definition otlp_attributes :: "(string \<times> jsval) list \<Rightarrow> (string \<times> jsval) list" where
  "otlp_attributes entry =
     obj_set (obj_set (obj_set entry ''timestamp'' JUndefined) ''level'' JUndefined)
       ''message'' JUndefined"

definition writeLog ::
  "json_builtins \<Rightarrow> logger_service \<Rightarrow> LogLevel \<Rightarrow> string \<Rightarrow> (string \<times> jsval) list option \<Rightarrow>
   string \<Rightarrow> TraceContextInfo \<Rightarrow> world \<Rightarrow> thrown option \<times> world" where
  "writeLog J lg level message meta now traceContext w =
     (if LOG_LEVEL_PRIORITY level < LOG_LEVEL_PRIORITY (logLevel lg) then (None, w)
      else
        let entry = createLogEntry lg level message meta now traceContext;
            (otlpSuccess, w1) =
              (if enableOtlpLogs lg \<and> isOtelLoggerAvailable w
               then emitOtelLog J level message (otlp_attributes entry) w
               else (False, w))
        in if enableConsoleLogs lg \<or> (\<not> otlpSuccess \<and> enableOtlpLogs lg)
           then writeToConsole J lg level entry w1
           else (None, w1))"

text \<open>Concrete loggers and states for the examples.\<close>

definition dev_logger :: logger_service where
  "dev_logger = \<lparr>logger_context = None, serviceName = ''svc'', environment = ''development'',
     logLevel = LInfo, sensitiveFields = DEFAULT_SENSITIVE_FIELDS, enableOtlpLogs = True,
     enableConsoleLogs = False\<rparr>"

definition export_error :: thrown where
  "export_error = ErrorObject [(''name'', JStr ''Error''), (''message'', JStr ''export failed'')]"

definition failing_logger :: "log_record \<Rightarrow> thrown option" where
  "failing_logger r = Some export_error"

definition working_logger :: "log_record \<Rightarrow> thrown option" where
  "working_logger r = None"

definition world0 :: world where
  "world0 = \<lparr>isOtlpAvailable = True, otelLogger = Some failing_logger, emit_calls = [], console = []\<rparr>"

definition no_trace :: TraceContextInfo where
  "no_trace = \<lparr>traceId = None, spanId = None\<rparr>"


text \<open>
  Names for parts of \<^verbatim>\<open>writeLog\<close> used in the statements: the remote attempt (its result
  and the state after it), the line \<^verbatim>\<open>writeToConsole\<close> builds, the fields the development
  format destructures, the keys of the metadata, and the lines on the console that carry
  no second argument.
\<close>

definition remote_attempt ::
  "json_builtins \<Rightarrow> logger_service \<Rightarrow> LogLevel \<Rightarrow> string \<Rightarrow> (string \<times> jsval) list \<Rightarrow> world \<Rightarrow>
   bool \<times> world" where
  "remote_attempt J lg level message entry w =
     (if enableOtlpLogs lg \<and> isOtelLoggerAvailable w
      then emitOtelLog J level message (otlp_attributes entry) w
      else (False, w))"

definition format_entry :: "json_builtins \<Rightarrow> logger_service \<Rightarrow> (string \<times> jsval) list \<Rightarrow> thrown + string" where
  "format_entry J lg entry =
     (if environment lg = ''development'' then formatDevelopment J entry
      else case stringify J (JObj entry) of
             Inl e \<Rightarrow> Inl e
           | Inr output \<Rightarrow> Inr (case output of None \<Rightarrow> ''undefined'' | Some t \<Rightarrow> t))"

definition reserved_keys :: "string list" where
  "reserved_keys = [''timestamp'', ''level'', ''message'', ''context'', ''trace_id'']"

definition meta_keys :: "(string \<times> jsval) list option \<Rightarrow> string list" where
  "meta_keys meta = (case meta of None \<Rightarrow> [] | Some m \<Rightarrow> map fst m)"

definition log_lines :: "world \<Rightarrow> string list" where
  "log_lines w = map (fst \<circ> snd) (filter (\<lambda>c. snd (snd c) = None) (console w))"

definition mentions :: "string \<Rightarrow> string list \<Rightarrow> bool" where
  "mentions m lines = list_ex (\<lambda>t. str_includes t m) lines"

definition sample_now :: string where
  "sample_now = ''2026-01-01T00:00:00.000Z''"

definition sample_line :: string where
  "sample_line = sample_now @ '' INFO  hello '' @
     CHR ''{'' # quote_string ''service'' @ '':'' @ quote_string ''svc'' @ '','' @
     quote_string ''environment'' @ '':'' @ quote_string ''development'' @ '','' @
     quote_string ''user'' @ '':'' @ quote_string ''u1'' @ ''}''"

text \<open>The text \<^verbatim>\<open>truncateBody\<close> returns for a serialization over the limit.\<close>

definition truncated_text :: "string \<Rightarrow> int \<Rightarrow> string" where
  "truncated_text s maxSize =
     take (nat maxSize) s @ ''... [TRUNCATED - total: '' @ dec_nat (length s) @ '' bytes]''"

section \<open>Spans and the process state (tracing API)\<close>

text \<open>
  A span as the hooks use it: a name, a kind, attributes, the parent context it was started
  under, a status, the exceptions recorded on it and whether it was ended. The process state
  holds every span started (a span is its index), the span of the active context, the
  instruments of the metrics service, the state of the log sink, and the calls the original
  \<^verbatim>\<open>publish\<close> of the broker connection received: exchange, routing key, message, options.
\<close>

datatype SpanKind = INTERNAL | SERVER | CLIENT | PRODUCER | CONSUMER

datatype SpanStatus = UNSET | OK | ERROR jsval

record span =
  span_name :: string
  span_kind :: SpanKind
  span_attributes :: "(string \<times> jsval) list"
  span_parent :: "(string \<times> jsval) list"
  span_status :: SpanStatus
  span_exceptions :: "thrown list"
  span_ended :: bool

type_synonym publish_call = "string \<times> string \<times> jsval \<times> (string \<times> jsval) list"

record runtime =
  spans :: "span list"
  active_span :: "nat option"
  meters :: metrics
  logs :: world
  published :: "publish_call list"

definition startSpan ::
  "string \<Rightarrow> SpanKind \<Rightarrow> (string \<times> jsval) list \<Rightarrow> (string \<times> jsval) list \<Rightarrow> runtime \<Rightarrow> nat \<times> runtime" where
  "startSpan name kind attrs parent rt =
     (length (spans rt),
      rt\<lparr>spans := spans rt @
         [\<lparr>span_name = name, span_kind = kind, span_attributes = attrs, span_parent = parent,
           span_status = UNSET, span_exceptions = [], span_ended = False\<rparr>]\<rparr>)"

definition update_span :: "nat \<Rightarrow> (span \<Rightarrow> span) \<Rightarrow> runtime \<Rightarrow> runtime" where
  "update_span i f rt = rt\<lparr>spans := (spans rt)[i := f (spans rt ! i)]\<rparr>"

definition setStatus :: "nat \<Rightarrow> SpanStatus \<Rightarrow> runtime \<Rightarrow> runtime" where
  "setStatus i st rt = update_span i (\<lambda>sp. sp\<lparr>span_status := st\<rparr>) rt"

definition recordException :: "nat \<Rightarrow> thrown \<Rightarrow> runtime \<Rightarrow> runtime" where
  "recordException i e rt = update_span i (\<lambda>sp. sp\<lparr>span_exceptions := span_exceptions sp @ [e]\<rparr>) rt"

definition setAttribute :: "nat \<Rightarrow> string \<Rightarrow> jsval \<Rightarrow> runtime \<Rightarrow> runtime" where
  "setAttribute i k v rt = update_span i (\<lambda>sp. sp\<lparr>span_attributes := obj_set (span_attributes sp) k v\<rparr>) rt"

definition span_end :: "nat \<Rightarrow> runtime \<Rightarrow> runtime" where
  "span_end i rt = update_span i (\<lambda>sp. sp\<lparr>span_ended := True\<rparr>) rt"

text \<open>\<^verbatim>\<open>a?.k\<close> and \<^verbatim>\<open>a || b\<close>.\<close>

definition opt_prop :: "jsval \<Rightarrow> string \<Rightarrow> jsval" where
  "opt_prop v k = (if v = JUndefined \<or> v = JNull then JUndefined else get_prop v k)"

definition js_or :: "jsval \<Rightarrow> jsval \<Rightarrow> jsval" where
  "js_or a b = (if truthy a then a else b)"

section \<open>The publish wrapper (rabbitmq-publish.interceptor)\<close>

text \<open>
  The function \<^verbatim>\<open>interceptPublish\<close> installs in place of \<^verbatim>\<open>publish\<close>; both versions of the
  file have the same body. \<open>publish_headers\<close> is \<^verbatim>\<open>{ ...(options?.headers || {}) }\<close>, the
  options being absent or an object whose \<^verbatim>\<open>headers\<close>, when present, is an object. The
  propagator of the tracing API is a parameter: the fields it writes into a carrier for a
  span, as strings, in order. \<^verbatim>\<open>propagation.inject\<close> sets each of them on the carrier. The
  original \<^verbatim>\<open>publish\<close> is a parameter too: it returns a boolean or throws. The catch block
  is \<open>endSpanError\<close> without the final \<^verbatim>\<open>span.end()\<close>, which the \<^verbatim>\<open>finally\<close> block does on both
  paths.
\<close>

definition publish_headers :: "(string \<times> jsval) list option \<Rightarrow> (string \<times> jsval) list" where
  "publish_headers options =
     (let existingHeaders =
            js_or (case options of None \<Rightarrow> JUndefined | Some opts \<Rightarrow> get_prop (JObj opts) ''headers'')
                  (JObj [])
      in entries existingHeaders)"

definition inject :: "(nat \<Rightarrow> (string \<times> string) list) \<Rightarrow> nat \<Rightarrow> (string \<times> jsval) list \<Rightarrow> (string \<times> jsval) list" where
  "inject propagator sp carrier = foldl (\<lambda>c (k, v). obj_set c k (JStr v)) carrier (propagator sp)"

definition endSpanError :: "nat \<Rightarrow> thrown \<Rightarrow> runtime \<Rightarrow> runtime" where
  "endSpanError sp err rt =
     span_end sp
       (if instanceof_Error err
        then setStatus sp (ERROR (get_prop (value_of err) ''message'')) (recordException sp err rt)
        else setStatus sp (ERROR (JStr (ToString (value_of err)))) rt)"

definition patched_publish ::
  "(nat \<Rightarrow> (string \<times> string) list) \<Rightarrow> string \<Rightarrow> (publish_call \<Rightarrow> thrown + bool) \<Rightarrow>
   string \<Rightarrow> string \<Rightarrow> jsval \<Rightarrow> (string \<times> jsval) list option \<Rightarrow> runtime \<Rightarrow> (thrown + bool) \<times> runtime" where
  "patched_publish propagator service originalPublish exch routingKey message options rt =
     (let headers = publish_headers options;
          (sp, rt1) = startSpan (exch @ '' publish'') PRODUCER
            [(''messaging.system'', JStr ''rabbitmq''),
             (''messaging.operation'', JStr ''publish''),
             (''messaging.destination'', JStr exch),
             (''messaging.rabbitmq.exchange'', JStr exch),
             (''messaging.rabbitmq.routing_key'', JStr routingKey),
             (''service.name'', JStr service)] [] rt;
          headers = inject propagator sp headers;
          call = (exch, routingKey, message,
                  obj_set (case options of None \<Rightarrow> [] | Some opts \<Rightarrow> opts) ''headers'' (JObj headers));
          rt2 = rt1\<lparr>published := published rt1 @ [call]\<rparr>
      in case originalPublish call of
           Inr result \<Rightarrow> (Inr result, span_end sp (setStatus sp OK rt2))
         | Inl err \<Rightarrow> (Inl err, endSpanError sp err rt2))"


section \<open>The execution context\<close>

text \<open>
  What the interceptors read of the framework's \<^verbatim>\<open>ExecutionContext\<close>: its type, the names of
  the handler and of its class, and the request, the message data and context, and the socket
  client and data the three \<^verbatim>\<open>switchTo\<close> accessors return.
\<close>

record exec_context =
  ctx_type :: string
  handler_name :: string
  class_name :: string
  http_request :: jsval
  rpc_data :: jsval
  rpc_context :: jsval
  ws_client :: jsval
  ws_data :: jsval

section \<open>The socket trace hook (websocket-trace.interceptor)\<close>

text \<open>
  \<^verbatim>\<open>getHeader\<close> and \<^verbatim>\<open>getQueryParam\<close> have the same body, so \<open>getHeader\<close> stands for both.
  The parent context \<^verbatim>\<open>propagation.extract\<close> builds is kept as the carrier it is given. The
  handler is a function of the process state that returns a value or throws; it runs with
  the new span active, and the active span of the caller is restored after it.
  \<open>ws_start\<close> is the part of \<^verbatim>\<open>intercept\<close> before the handler is subscribed to. The duration
  \<^verbatim>\<open>Date.now() - startTime\<close> is a parameter.
\<close>

definition getHeader :: "jsval \<Rightarrow> string \<Rightarrow> jsval" where
  "getHeader headers key =
     (if \<not> truthy headers then JUndefined
      else let v = get_prop headers key
           in if typeof v = ''string'' then v
              else if isArray v \<and> elements v \<noteq> [] then hd (elements v)
              else JUndefined)"

fun headers_to_carrier :: "(string \<times> jsval) list \<Rightarrow> (string \<times> jsval) list \<Rightarrow> (string \<times> jsval) list" where
  "headers_to_carrier [] carrier = carrier"
| "headers_to_carrier ((key, v) # rest) carrier =
     (if typeof v = ''string'' then headers_to_carrier rest (obj_set carrier (toLowerCase key) v)
      else if isArray v \<and> elements v \<noteq> []
        then headers_to_carrier rest (obj_set carrier (toLowerCase key) (hd (elements v)))
      else headers_to_carrier rest carrier)"

definition headersToCarrier :: "jsval \<Rightarrow> (string \<times> jsval) list" where
  "headersToCarrier headers = headers_to_carrier (entries headers) []"

definition extractTraceContext :: "jsval \<Rightarrow> jsval \<Rightarrow> (string \<times> jsval) list" where
  "extractTraceContext client data =
     (let handshake = opt_prop client ''handshake'';
          carrier = (if truthy (opt_prop handshake ''headers'')
                     then headersToCarrier (opt_prop handshake ''headers'') else []);
          carrier = (if truthy data \<and> typeof data = ''object'' \<and> has_prop ''_trace'' data
                     then Object_assign carrier (entries (get_prop data ''_trace'')) else carrier);
          traceparent = getHeader (opt_prop handshake ''query'') ''traceparent'';
          carrier = (if truthy traceparent then obj_set carrier ''traceparent'' traceparent
                     else carrier);
          tracestate = getHeader (opt_prop handshake ''query'') ''tracestate''
      in if truthy tracestate then obj_set carrier ''tracestate'' tracestate else carrier)"

definition endSpanSuccess :: "nat \<Rightarrow> runtime \<Rightarrow> runtime" where
  "endSpanSuccess sp rt = span_end sp (setStatus sp OK rt)"

definition ws_endSpanSuccess :: "nat \<Rightarrow> jsval \<Rightarrow> runtime \<Rightarrow> runtime" where
  "ws_endSpanSuccess sp result rt =
     span_end sp (setStatus sp OK
       (if truthy result \<and> typeof result = ''object''
        then setAttribute sp ''ws.response.type''
               (JStr (if isArray result then ''array'' else ''object'')) rt
        else rt))"

definition with_meters :: "(metrics \<Rightarrow> metrics) \<Rightarrow> runtime \<Rightarrow> runtime" where
  "with_meters f rt = rt\<lparr>meters := f (meters rt)\<rparr>"

definition ws_start :: "string \<Rightarrow> exec_context \<Rightarrow> runtime \<Rightarrow> nat \<times> runtime" where
  "ws_start service ctx rt =
     (let client = ws_client ctx; data = ws_data ctx;
          handlerName = handler_name ctx; controllerName = class_name ctx;
          parentContext = extractTraceContext client data;
          (sp, rt1) = startSpan (''ws.'' @ handlerName) SERVER
            [(''messaging.system'', JStr ''socket.io''),
             (''messaging.operation.type'', JStr ''receive''),
             (''ws.event.name'', JStr handlerName),
             (''ws.client.id'', get_prop client ''id''),
             (''code.function'', JStr handlerName),
             (''code.namespace'', JStr controllerName),
             (''service.name'', JStr service),
             (''network.transport'', JStr ''websocket''),
             (''client.address'', opt_prop (opt_prop client ''handshake'') ''address''),
             (''user_agent.original'',
                getHeader (opt_prop (opt_prop client ''handshake'') ''headers'') ''user-agent'')]
            parentContext rt;
          user = opt_prop (opt_prop client ''data'') ''user'';
          rt2 = (if truthy user
                 then setAttribute sp ''enduser.id''
                        (js_or (get_prop user ''id'') (js_or (get_prop user ''sub'') (JStr ''unknown'')))
                        rt1
                 else rt1)
      in (sp, rt2\<lparr>active_span := Some sp\<rparr>))"

definition ws_intercept ::
  "string \<Rightarrow> exec_context \<Rightarrow> (runtime \<Rightarrow> (thrown + jsval) \<times> runtime) \<Rightarrow> int \<Rightarrow> runtime \<Rightarrow>
   (thrown + jsval) \<times> runtime" where
  "ws_intercept service ctx next elapsed rt =
     (if ctx_type ctx \<noteq> ''ws'' then next rt
      else
        let (sp, rt2) = ws_start service ctx rt;
            (outcome, rt3) = next rt2;
            rt4 = rt3\<lparr>active_span := active_span rt\<rparr>
        in case outcome of
             Inr result \<Rightarrow>
               (Inr result,
                with_meters (recordWsEvent (handler_name ctx) True (Some elapsed))
                  (ws_endSpanSuccess sp result rt4))
           | Inl err \<Rightarrow>
               (Inl err,
                with_meters (recordWsEvent (handler_name ctx) False (Some elapsed))
                  (endSpanError sp err rt4)))"

section \<open>The error interceptor (observability-error.interceptor)\<close>

text \<open>
  The values of the enum \<^verbatim>\<open>ErrorType\<close>, the extraction functions of the classifier module,
  and the interceptor. A function that can throw returns the value thrown or its result:
  \<^verbatim>\<open>config?.method?.toUpperCase()\<close> (\<open>upper_opt\<close>) throws on a method that is neither absent
  nor a string, \<^verbatim>\<open>message.replace\<close> in \<^verbatim>\<open>sanitizePrismaMessage\<close> on a message that is not a
  string, \<^verbatim>\<open>truncateBody\<close> as above, and \<^verbatim>\<open>request.method\<close> in \<^verbatim>\<open>extractHttpContext\<close> on a
  request that is \<^verbatim>\<open>undefined\<close> or \<^verbatim>\<open>null\<close>. \<^verbatim>\<open>extractRmqContext\<close> and \<^verbatim>\<open>extractWsContext\<close>
  run inside a \<^verbatim>\<open>try\<close>: the first cannot throw on the tree model, the second gives its
  error object when the client is \<^verbatim>\<open>undefined\<close> or \<^verbatim>\<open>null\<close>. \<open>replace_backticked\<close> and
  \<open>replace_long_quoted\<close> are the two global replacements of \<^verbatim>\<open>sanitizePrismaMessage\<close>,
  scanning from the left. An interceptor is its logger, its sensitive-field list and its
  body limit. \<^verbatim>\<open>handleError\<close> returns the value it throws, if any, and the state, in the order
  of the source: the context, the error information, the span, the metric, the log. Nothing
  there catches, so what a step throws leaves \<^verbatim>\<open>handleError\<close> with the later steps not done.
  \<open>error_log_meta\<close> is the object literal passed to the logger. In \<^verbatim>\<open>intercept\<close>, the
  callback of \<^verbatim>\<open>catchError\<close> calls \<^verbatim>\<open>handleError\<close> and then returns \<^verbatim>\<open>throwError(() => error)\<close>;
  a value thrown inside the callback is the error of the resulting stream.
\<close>

fun ErrorType_value :: "ErrorType \<Rightarrow> string" where
  "ErrorType_value AXIOS = ''AxiosError''"
| "ErrorType_value PRISMA_KNOWN = ''PrismaClientKnownRequestError''"
| "ErrorType_value PRISMA_UNKNOWN = ''PrismaClientUnknownRequestError''"
| "ErrorType_value PRISMA_VALIDATION = ''PrismaClientValidationError''"
| "ErrorType_value HTTP = ''HttpError''"
| "ErrorType_value WEBSOCKET = ''WebSocketError''"
| "ErrorType_value RABBITMQ = ''RabbitMQError''"
| "ErrorType_value GENERIC = ''Error''"

fun mask_header_entries ::
  "string list \<Rightarrow> (string \<times> jsval) list \<Rightarrow> (string \<times> jsval) list \<Rightarrow> (string \<times> jsval) list" where
  "mask_header_entries sens [] masked = masked"
| "mask_header_entries sens ((key, v) # rest) masked =
     mask_header_entries sens rest
       (obj_set masked key (if isSensitive sens key then JStr ''[REDACTED]'' else v))"

definition maskHeaders :: "jsval \<Rightarrow> string list \<Rightarrow> jsval" where
  "maskHeaders headers sens =
     (if \<not> truthy headers then JUndefined
      else JObj (mask_header_entries sens (entries headers) []))"

function replace_backticked :: "string \<Rightarrow> string" where
  "replace_backticked [] = []"
| "replace_backticked (c # cs) =
     (if c = CHR 0x60 \<and> takeWhile (\<lambda>x. x \<noteq> CHR 0x60) cs \<noteq> [] \<and>
         take 1 (dropWhile (\<lambda>x. x \<noteq> CHR 0x60) cs) = [CHR 0x60]
      then [CHR 0x60] @ ''[VALUE]'' @ [CHR 0x60] @
           replace_backticked (drop 1 (dropWhile (\<lambda>x. x \<noteq> CHR 0x60) cs))
      else c # replace_backticked cs)"
  by pat_completeness auto
termination
  by (relation "measure length")
    (auto intro!: le_imp_less_Suc order_trans [OF diff_le_self length_dropWhile_le])

function replace_long_quoted :: "string \<Rightarrow> string" where
  "replace_long_quoted [] = []"
| "replace_long_quoted (c # cs) =
     (if c = CHR 0x22 \<and> 50 \<le> length (takeWhile (\<lambda>x. x \<noteq> CHR 0x22) cs) \<and>
         take 1 (dropWhile (\<lambda>x. x \<noteq> CHR 0x22) cs) = [CHR 0x22]
      then [CHR 0x22] @ ''[LONG_VALUE]'' @ [CHR 0x22] @
           replace_long_quoted (drop 1 (dropWhile (\<lambda>x. x \<noteq> CHR 0x22) cs))
      else c # replace_long_quoted cs)"
  by pat_completeness auto
termination
  by (relation "measure length")
    (auto intro!: le_imp_less_Suc order_trans [OF diff_le_self length_dropWhile_le])

definition sanitizePrismaMessage :: "jsval \<Rightarrow> thrown + jsval" where
  "sanitizePrismaMessage message =
     (if message = JUndefined \<or> message = JNull then Inl (cannot_read message ''replace'')
      else if typeof message \<noteq> ''string'' then Inl (not_a_function ''message.replace'')
      else Inr (JStr (replace_long_quoted (replace_backticked (string_of message)))))"

definition upper_opt :: "string \<Rightarrow> jsval \<Rightarrow> thrown + jsval" where
  "upper_opt expr v =
     (if v = JUndefined \<or> v = JNull then Inr JUndefined
      else if typeof v \<noteq> ''string'' then Inl (not_a_function expr)
      else Inr (JStr (toUpperCase (string_of v))))"

definition extractAxiosErrorInfo ::
  "json_builtins \<Rightarrow> jsval \<Rightarrow> string list \<Rightarrow> int \<Rightarrow> thrown + (string \<times> jsval) list" where
  "extractAxiosErrorInfo J err sens maxBodySize =
     (let config = get_prop err ''config''; response = get_prop err ''response'';
          code = get_prop err ''code''; message = get_prop err ''message''
      in case upper_opt ''config?.method?.toUpperCase'' (opt_prop config ''method'') of
           Inl e \<Rightarrow> Inl e
         | Inr meth \<Rightarrow>
        (case truncateBody J (opt_prop config ''data'') maxBodySize of
           Inl e \<Rightarrow> Inl e
         | Inr requestBody \<Rightarrow>
        (case truncateBody J (opt_prop response ''data'') maxBodySize of
           Inl e \<Rightarrow> Inl e
         | Inr responseBody \<Rightarrow>
             Inr [(''error_type'', JStr (ErrorType_value AXIOS)),
                  (''error_code'', code),
                  (''error_message'', message),
                  (''http'', JObj
                     [(''method'', meth),
                      (''url'', opt_prop config ''url''),
                      (''base_url'', opt_prop config ''baseURL''),
                      (''timeout'', opt_prop config ''timeout''),
                      (''status_code'', opt_prop response ''status''),
                      (''status_text'', opt_prop response ''statusText'')]),
                  (''request'', JObj
                     [(''headers'', maskHeaders (opt_prop config ''headers'') sens),
                      (''body'', requestBody)]),
                  (''response'', JObj
                     [(''headers'', maskHeaders (opt_prop response ''headers'') sens),
                      (''body'', responseBody)])])))"

definition extractPrismaKnownErrorInfo :: "jsval \<Rightarrow> thrown + (string \<times> jsval) list" where
  "extractPrismaKnownErrorInfo err =
     (let meta = js_or (get_prop err ''meta'') (JObj []);
          safeMeta = [];
          safeMeta = (if truthy (get_prop meta ''modelName'')
                      then obj_set safeMeta ''model'' (get_prop meta ''modelName'') else safeMeta);
          safeMeta = (if truthy (get_prop meta ''target'')
                      then obj_set safeMeta ''field'' (get_prop meta ''target'') else safeMeta);
          safeMeta = (if truthy (get_prop meta ''constraint'')
                      then obj_set safeMeta ''constraint'' (get_prop meta ''constraint'')
                      else safeMeta)
      in case sanitizePrismaMessage (get_prop err ''message'') of
           Inl e \<Rightarrow> Inl e
         | Inr message \<Rightarrow>
             Inr [(''error_type'', JStr (ErrorType_value PRISMA_KNOWN)),
                  (''error_code'', get_prop err ''code''),
                  (''error_message'', message),
                  (''prisma'', JObj safeMeta)])"

definition extractPrismaUnknownErrorInfo :: "jsval \<Rightarrow> thrown + (string \<times> jsval) list" where
  "extractPrismaUnknownErrorInfo err =
     (case sanitizePrismaMessage (get_prop err ''message'') of
        Inl e \<Rightarrow> Inl e
      | Inr message \<Rightarrow>
          Inr [(''error_type'', JStr (ErrorType_value PRISMA_UNKNOWN)),
               (''error_message'', message)])"

definition extractGenericErrorInfo :: "thrown \<Rightarrow> (string \<times> jsval) list" where
  "extractGenericErrorInfo err =
     (if instanceof_Error err
      then [(''error_type'', JStr (ErrorType_value GENERIC)),
            (''error_name'', get_prop (value_of err) ''name''),
            (''error_message'', get_prop (value_of err) ''message''),
            (''stack_trace'', get_prop (value_of err) ''stack'')]
      else [(''error_type'', JStr (ErrorType_value GENERIC)),
            (''error_message'', JStr (ToString (value_of err)))])"

record error_interceptor =
  interceptor_logger :: logger_service
  interceptor_sensitiveFields :: "string list"
  maxBodySize :: int

definition extractErrorInfo ::
  "json_builtins \<Rightarrow> error_interceptor \<Rightarrow> thrown \<Rightarrow> thrown + (string \<times> jsval) list" where
  "extractErrorInfo J ic err =
     (let errorType = classifyError (value_of err)
      in if errorType = AXIOS \<and> isAxiosError (value_of err)
         then extractAxiosErrorInfo J (value_of err) (interceptor_sensitiveFields ic) (maxBodySize ic)
         else if errorType = PRISMA_KNOWN \<and> isPrismaKnownRequestError (value_of err)
         then extractPrismaKnownErrorInfo (value_of err)
         else if errorType = PRISMA_UNKNOWN \<and> isPrismaUnknownRequestError (value_of err)
         then extractPrismaUnknownErrorInfo (value_of err)
         else Inr (extractGenericErrorInfo err))"

definition object_keys :: "jsval \<Rightarrow> jsval" where
  "object_keys data = (if truthy data then JArr (map (JStr \<circ> fst) (entries data)) else JArr [])"

definition extractHttpContext :: "exec_context \<Rightarrow> thrown + (string \<times> jsval) list" where
  "extractHttpContext ctx =
     (let request = http_request ctx
      in if request = JUndefined \<or> request = JNull then Inl (cannot_read request ''method'')
         else
           let user = get_prop request ''user''
           in Inr [(''http'', JObj
                [(''method'', get_prop request ''method''),
                 (''url'', get_prop request ''url''),
                 (''path'', get_prop request ''path''),
                 (''query'', get_prop request ''query''),
                 (''params'', get_prop request ''params''),
                 (''user_id'', js_or (opt_prop user ''id'') (opt_prop user ''sub''))])])"

definition extractRmqContext :: "exec_context \<Rightarrow> (string \<times> jsval) list" where
  "extractRmqContext ctx =
     (let data = rpc_data ctx; fields = opt_prop (rpc_context ctx) ''fields''
      in [(''rabbitmq'', JObj
            [(''exchange'', opt_prop fields ''exchange''),
             (''routing_key'', opt_prop fields ''routingKey''),
             (''consumer_tag'', opt_prop fields ''consumerTag''),
             (''delivery_tag'', opt_prop fields ''deliveryTag''),
             (''message_keys'', object_keys data)])])"

definition extractWsContext :: "exec_context \<Rightarrow> (string \<times> jsval) list" where
  "extractWsContext ctx =
     (if ws_client ctx = JUndefined \<or> ws_client ctx = JNull
      then [(''websocket'', JObj [(''error'', JStr ''Failed to extract WS context'')])]
      else [(''websocket'', JObj
              [(''client_id'', get_prop (ws_client ctx) ''id''),
               (''event'', JStr (handler_name ctx)),
               (''data_keys'', object_keys (ws_data ctx))])])"

definition extractContextInfo :: "exec_context \<Rightarrow> thrown + (string \<times> jsval) list" where
  "extractContextInfo ctx =
     (if ctx_type ctx = ''http'' then extractHttpContext ctx
      else if ctx_type ctx = ''rmq'' then Inr (extractRmqContext ctx)
      else if ctx_type ctx = ''ws'' then Inr (extractWsContext ctx)
      else Inr [(''context'', JStr ''unknown'')])"

definition recordSpanError :: "thrown \<Rightarrow> runtime \<Rightarrow> thrown option \<times> runtime" where
  "recordSpanError err rt =
     (case active_span rt of
        None \<Rightarrow> (None, rt)
      | Some sp \<Rightarrow>
          let rt1 = (if instanceof_Error err then recordException sp err rt
                     else recordException sp
                            (ErrorObject [(''name'', JStr ''Error''),
                                          (''message'', JStr (ToString (value_of err)))]) rt);
              rt2 = setStatus sp
                      (ERROR (if instanceof_Error err then get_prop (value_of err) ''message''
                              else JStr (ToString (value_of err)))) rt1;
              rt3 = setAttribute sp ''error.type''
                      (JStr (ErrorType_value (classifyError (value_of err)))) rt2
          in if isAxiosError (value_of err)
             then
               let rt4 = setAttribute sp ''http.status_code''
                           (js_or (opt_prop (get_prop (value_of err) ''response'') ''status'') (JNum 0))
                           rt3
               in case upper_opt ''error.config?.method?.toUpperCase''
                         (opt_prop (get_prop (value_of err) ''config'') ''method'') of
                    Inl e \<Rightarrow> (Some e, rt4)
                  | Inr meth \<Rightarrow>
                      let rt5 = setAttribute sp ''http.method'' (js_or meth (JStr ''UNKNOWN'')) rt4
                      in (None,
                          if isPrismaKnownRequestError (value_of err)
                          then setAttribute sp ''db.prisma.error_code''
                                 (get_prop (value_of err) ''code'') rt5
                          else rt5)
             else (None,
                   if isPrismaKnownRequestError (value_of err)
                   then setAttribute sp ''db.prisma.error_code'' (get_prop (value_of err) ''code'') rt3
                   else rt3))"

definition metrics_context :: "string \<Rightarrow> string" where
  "metrics_context contextType =
     (if contextType = ''http'' then ''http''
      else if contextType = ''rmq'' \<or> contextType = ''rpc'' then ''rabbitmq''
      else if contextType = ''ws'' then ''websocket''
      else ''other'')"

definition error_code_of :: "jsval \<Rightarrow> string option" where
  "error_code_of err =
     (if isPrismaKnownRequestError err
      then (if truthy (get_prop err ''code'') then Some (ToString (get_prop err ''code'')) else None)
      else if isAxiosError err
        then Some (ToString (js_or (opt_prop (get_prop err ''response'') ''status'')
                               (js_or (get_prop err ''code'') (JStr ''unknown''))))
      else None)"

definition recordErrorMetric :: "thrown \<Rightarrow> string \<Rightarrow> ErrorType \<Rightarrow> runtime \<Rightarrow> runtime" where
  "recordErrorMetric err contextType errorType rt =
     with_meters (recordError errorType (metrics_context contextType) (error_code_of (value_of err))) rt"

definition logger_error ::
  "json_builtins \<Rightarrow> logger_service \<Rightarrow> string \<Rightarrow> jsval \<Rightarrow> (string \<times> jsval) list \<Rightarrow> string \<Rightarrow>
   TraceContextInfo \<Rightarrow> world \<Rightarrow> thrown option \<times> world" where
  "logger_error J lg message trace meta now tc w =
     writeLog J lg LError message (Some (obj_set meta ''stack_trace'' trace)) now tc w"

definition error_log_meta ::
  "exec_context \<Rightarrow> (string \<times> jsval) list \<Rightarrow> (string \<times> jsval) list \<Rightarrow> (string \<times> jsval) list" where
  "error_log_meta ctx contextInfo errorInfo =
     Object_assign (Object_assign
       [(''context_type'', JStr (ctx_type ctx)), (''handler'', JStr (handler_name ctx)),
        (''controller'', JStr (class_name ctx))] contextInfo) errorInfo"

definition handleError ::
  "json_builtins \<Rightarrow> error_interceptor \<Rightarrow> thrown \<Rightarrow> exec_context \<Rightarrow> string \<Rightarrow> TraceContextInfo \<Rightarrow>
   runtime \<Rightarrow> thrown option \<times> runtime" where
  "handleError J ic err ctx now tc rt =
     (let handler = handler_name ctx; controller = class_name ctx; contextType = ctx_type ctx
      in case extractContextInfo ctx of
           Inl e \<Rightarrow> (Some e, rt)
         | Inr contextInfo \<Rightarrow>
        (let errorType = classifyError (value_of err)
         in case extractErrorInfo J ic err of
              Inl e \<Rightarrow> (Some e, rt)
            | Inr errorInfo \<Rightarrow>
           (case recordSpanError err rt of
              (Some e, rt1) \<Rightarrow> (Some e, rt1)
            | (None, rt1) \<Rightarrow>
                let rt2 = recordErrorMetric err contextType errorType rt1;
                    (thrown, w) = logger_error J (interceptor_logger ic)
                       (''Error in '' @ controller @ ''/'' @ handler) JUndefined
                       (error_log_meta ctx contextInfo errorInfo) now tc (logs rt2)
                in (thrown, rt2\<lparr>logs := w\<rparr>))))"

definition error_intercept ::
  "json_builtins \<Rightarrow> error_interceptor \<Rightarrow> exec_context \<Rightarrow> (runtime \<Rightarrow> (thrown + jsval) \<times> runtime) \<Rightarrow>
   string \<Rightarrow> TraceContextInfo \<Rightarrow> runtime \<Rightarrow> (thrown + jsval) \<times> runtime" where
  "error_intercept J ic ctx next now tc rt =
     (case next rt of
        (Inr v, rt1) \<Rightarrow> (Inr v, rt1)
      | (Inl err, rt1) \<Rightarrow>
          (case handleError J ic err ctx now tc rt1 of
             (None, rt2) \<Rightarrow> (Inl err, rt2)
           | (Some e, rt2) \<Rightarrow> (Inl e, rt2)))"

text \<open>
  Names used in the statements: the four arguments of a recorded call of the original
  \<^verbatim>\<open>publish\<close>, and the options of the caller as an object.
\<close>

definition call_exchange :: "publish_call \<Rightarrow> string" where
  "call_exchange c = fst c"

definition call_routingKey :: "publish_call \<Rightarrow> string" where
  "call_routingKey c = fst (snd c)"

definition call_message :: "publish_call \<Rightarrow> jsval" where
  "call_message c = fst (snd (snd c))"

definition call_options :: "publish_call \<Rightarrow> jsval" where
  "call_options c = JObj (snd (snd (snd c)))"

definition caller_options :: "(string \<times> jsval) list option \<Rightarrow> jsval" where
  "caller_options options = (case options of None \<Rightarrow> JObj [] | Some opts \<Rightarrow> JObj opts)"

text \<open>
  Samples: a propagator writing a \<^verbatim>\<open>traceparent\<close> field that carries the span, an original
  \<^verbatim>\<open>publish\<close> that succeeds and one that throws, a state with no span and no remote logger,
  an interceptor logging to the console, a handler that throws, a request whose user has
  the given id, and a socket context.
\<close>

definition w3c_sample :: "nat \<Rightarrow> (string \<times> string) list" where
  "w3c_sample sp = [(''traceparent'', ''00-0af7651916cd43dd8448eb211c80319c-'' @ dec_nat sp @ ''-01'')]"

definition publish_ok :: "publish_call \<Rightarrow> thrown + bool" where
  "publish_ok c = Inr True"

definition broker_error :: thrown where
  "broker_error = ErrorObject [(''name'', JStr ''Error''), (''message'', JStr ''channel closed'')]"

definition publish_fails :: "publish_call \<Rightarrow> thrown + bool" where
  "publish_fails c = Inl broker_error"

definition world_idle :: world where
  "world_idle = \<lparr>isOtlpAvailable = True, otelLogger = None, emit_calls = [], console = []\<rparr>"

definition runtime0 :: runtime where
  "runtime0 = \<lparr>spans = [], active_span = None, meters = initializeMetrics, logs = world_idle,
     published = []\<rparr>"

definition sample_interceptor :: error_interceptor where
  "sample_interceptor =
     \<lparr>interceptor_logger = dev_logger\<lparr>logger_context := Some ''ObservabilityErrorInterceptor'',
        enableOtlpLogs := False, enableConsoleLogs := True\<rparr>,
      interceptor_sensitiveFields = DEFAULT_SENSITIVE_FIELDS, maxBodySize = 10000\<rparr>"

definition app_error :: thrown where
  "app_error = ErrorObject [(''name'', JStr ''Error''), (''message'', JStr ''boom'')]"

definition handler_fails :: "runtime \<Rightarrow> (thrown + jsval) \<times> runtime" where
  "handler_fails rt = (Inl app_error, rt)"

definition request_ctx :: "jsval \<Rightarrow> exec_context" where
  "request_ctx uid =
     \<lparr>ctx_type = ''http'', handler_name = ''findOne'', class_name = ''UsersController'',
      http_request = JObj [(''method'', JStr ''GET''), (''url'', JStr ''/users/7''),
        (''path'', JStr ''/users/7''), (''query'', JObj []), (''params'', JObj [(''id'', JStr ''7'')]),
        (''user'', JObj [(''id'', uid)])],
      rpc_data = JUndefined, rpc_context = JUndefined, ws_client = JUndefined,
      ws_data = JUndefined\<rparr>"

definition socket_ctx :: exec_context where
  "socket_ctx =
     \<lparr>ctx_type = ''ws'', handler_name = ''onMessage'', class_name = ''ChatGateway'',
      http_request = JUndefined, rpc_data = JUndefined, rpc_context = JUndefined,
      ws_client = JObj [(''id'', JStr ''c1'')], ws_data = JObj []\<rparr>"

section \<open>Further names used in the statements\<close>

text \<open>
  What the two replacements of \<^verbatim>\<open>normalizeRoute\<close> make of one segment written after its
  slash, and the parts of a route: the text before its first slash and the segments, each
  the text between two slashes or after the last.
\<close>

definition normalizeRoute_segment :: "string \<Rightarrow> string" where
  "normalizeRoute_segment s = drop 1 (replace_numeric_ids (CHR ''/'' # replace_uuid '':id'' s))"

fun leading_text :: "string \<Rightarrow> string" where
  "leading_text [] = []"
| "leading_text (c # cs) = (if c = CHR ''/'' then [] else c # leading_text cs)"

fun path_segments :: "string \<Rightarrow> string list" where
  "path_segments [] = []"
| "path_segments (c # cs) =
     (if c = CHR ''/'' then leading_text cs # path_segments cs else path_segments cs)"

text \<open>
  \<^verbatim>\<open>truncateBody\<close> applied again to its own result, when it returned one; and a function
  value for the examples.
\<close>

definition truncateBody_twice :: "json_builtins \<Rightarrow> jsval \<Rightarrow> int \<Rightarrow> thrown + jsval" where
  "truncateBody_twice J b maxSize =
     (case truncateBody J b maxSize of Inl e \<Rightarrow> Inl e | Inr v \<Rightarrow> truncateBody J v maxSize)"

definition sample_function :: jsval where
  "sample_function = JFunction ''() => 1''"

text \<open>
  The headers the caller passed, \<^verbatim>\<open>options.headers\<close> (\<^verbatim>\<open>undefined\<close> when there are no options
  or no headers), and \<^verbatim>\<open>Object.keys\<close>.
\<close>

definition caller_headers :: "(string \<times> jsval) list option \<Rightarrow> jsval" where
  "caller_headers options = get_prop (caller_options options) ''headers''"

definition own_keys :: "jsval \<Rightarrow> string list" where
  "own_keys v = map fst (entries v)"

text \<open>A known-request error of the database client that carries no message.\<close>

definition prisma_no_message :: thrown where
  "prisma_no_message =
     ErrorObject [(''name'', JStr ''PrismaClientKnownRequestError''), (''code'', JStr ''P2002''),
       (''clientVersion'', JStr ''5.0.0'')]"

section \<open>Properties\<close>

subsection \<open>Error classification\<close>

lemma samples_classified:
  "classifyError axios_sample = AXIOS"
  "classifyError prisma_known_sample = PRISMA_KNOWN"
  "classifyError prisma_unknown_sample = PRISMA_UNKNOWN"
  "classifyError prisma_validation_sample = PRISMA_VALIDATION"
  "classifyError generic_sample = GENERIC"
  "classifyError (JStr ''boom'') = GENERIC"
  "classifyError JUndefined = GENERIC"
  by (simp_all add: classifyError_def isAxiosError_def isPrismaKnownRequestError_def
      isPrismaUnknownRequestError_def isPrismaValidationError_def axios_sample_def
      prisma_known_sample_def prisma_unknown_sample_def prisma_validation_sample_def
      generic_sample_def)

text \<open>
  C6. Classification tries the four shape guards in the order HTTP-client (Axios), DB
  known-request, DB unknown-request, DB validation, and answers with the kind of the first
  guard that holds: a matching earlier guard decides whatever the later ones say, and a
  value matching no guard is GENERIC. A well-formed sample of each of the four shapes gets
  its own kind, and samples of no specific shape (a plain error object, a thrown string,
  \<^verbatim>\<open>undefined\<close>) are GENERIC.
\<close>

theorem classifyError_first_match_wins:
  "(isAxiosError e \<longrightarrow> classifyError e = AXIOS) \<and>
   (\<not> isAxiosError e \<and> isPrismaKnownRequestError e \<longrightarrow> classifyError e = PRISMA_KNOWN) \<and>
   (\<not> isAxiosError e \<and> \<not> isPrismaKnownRequestError e \<and> isPrismaUnknownRequestError e
      \<longrightarrow> classifyError e = PRISMA_UNKNOWN) \<and>
   (\<not> isAxiosError e \<and> \<not> isPrismaKnownRequestError e \<and> \<not> isPrismaUnknownRequestError e \<and>
      isPrismaValidationError e \<longrightarrow> classifyError e = PRISMA_VALIDATION) \<and>
   (\<not> isAxiosError e \<and> \<not> isPrismaKnownRequestError e \<and> \<not> isPrismaUnknownRequestError e \<and>
      \<not> isPrismaValidationError e \<longrightarrow> classifyError e = GENERIC) \<and>
   classifyError axios_sample = AXIOS \<and>
   classifyError prisma_known_sample = PRISMA_KNOWN \<and>
   classifyError prisma_unknown_sample = PRISMA_UNKNOWN \<and>
   classifyError prisma_validation_sample = PRISMA_VALIDATION \<and>
   classifyError generic_sample = GENERIC \<and>
   classifyError (JStr ''boom'') = GENERIC \<and>
   classifyError JUndefined = GENERIC"
  by (simp add: samples_classified) (simp add: classifyError_def)

text \<open>
  The guards at concrete values: a value of both the Axios and the known-request shape is
  AXIOS; the known-request sample fails the first guard and passes the second; the plain
  error object fails all four.
\<close>

theorem classifyError_first_match_wins_witness:
  "isAxiosError axios_and_prisma_sample \<and> isPrismaKnownRequestError axios_and_prisma_sample \<and>
   classifyError axios_and_prisma_sample = AXIOS \<and>
   \<not> isAxiosError prisma_known_sample \<and> isPrismaKnownRequestError prisma_known_sample \<and>
   classifyError prisma_known_sample = PRISMA_KNOWN \<and>
   \<not> isAxiosError prisma_unknown_sample \<and> \<not> isPrismaKnownRequestError prisma_unknown_sample \<and>
   isPrismaUnknownRequestError prisma_unknown_sample \<and>
   classifyError prisma_unknown_sample = PRISMA_UNKNOWN \<and>
   \<not> isAxiosError prisma_validation_sample \<and>
   \<not> isPrismaKnownRequestError prisma_validation_sample \<and>
   \<not> isPrismaUnknownRequestError prisma_validation_sample \<and>
   isPrismaValidationError prisma_validation_sample \<and>
   classifyError prisma_validation_sample = PRISMA_VALIDATION \<and>
   \<not> isAxiosError generic_sample \<and> \<not> isPrismaKnownRequestError generic_sample \<and>
   \<not> isPrismaUnknownRequestError generic_sample \<and> \<not> isPrismaValidationError generic_sample \<and>
   classifyError generic_sample = GENERIC"
proof -
  have both: "isAxiosError axios_and_prisma_sample"
    "isPrismaKnownRequestError axios_and_prisma_sample"
    by (simp_all add: isAxiosError_def isPrismaKnownRequestError_def axios_and_prisma_sample_def)
  have known: "\<not> isAxiosError prisma_known_sample"
    "isPrismaKnownRequestError prisma_known_sample"
    by (simp_all add: isAxiosError_def isPrismaKnownRequestError_def prisma_known_sample_def)
  have unknown: "\<not> isAxiosError prisma_unknown_sample"
    "\<not> isPrismaKnownRequestError prisma_unknown_sample"
    "isPrismaUnknownRequestError prisma_unknown_sample"
    by (simp_all add: isAxiosError_def isPrismaKnownRequestError_def
        isPrismaUnknownRequestError_def prisma_unknown_sample_def)
  have validation: "\<not> isAxiosError prisma_validation_sample"
    "\<not> isPrismaKnownRequestError prisma_validation_sample"
    "\<not> isPrismaUnknownRequestError prisma_validation_sample"
    "isPrismaValidationError prisma_validation_sample"
    by (simp_all add: isAxiosError_def isPrismaKnownRequestError_def
        isPrismaUnknownRequestError_def isPrismaValidationError_def
        prisma_validation_sample_def)
  have generic: "\<not> isAxiosError generic_sample"
    "\<not> isPrismaKnownRequestError generic_sample"
    "\<not> isPrismaUnknownRequestError generic_sample"
    "\<not> isPrismaValidationError generic_sample"
    by (simp_all add: isAxiosError_def isPrismaKnownRequestError_def
        isPrismaUnknownRequestError_def isPrismaValidationError_def generic_sample_def)
  show ?thesis
    using both known unknown validation generic
      classifyError_first_match_wins [of axios_and_prisma_sample]
      classifyError_first_match_wins [of prisma_known_sample]
      classifyError_first_match_wins [of prisma_unknown_sample]
      classifyError_first_match_wins [of prisma_validation_sample]
      classifyError_first_match_wins [of generic_sample]
    by simp
qed

subsection \<open>Error counters\<close>

text \<open>
  C8. Recording a request, a broker message or a socket event adds one to the domain's
  main counter at the event's label set, and adds one to the domain's errors counter, at
  the same label set, exactly when the event failed: a status code of 400 or more for a
  request, a false success flag for a broker message or a socket event. Every other sum of
  the errors counter keeps its value, and a successful event leaves the errors counter as
  it was.
\<close>

theorem errors_counter_iff_failure:
  "httpRequestsTotal (recordHttpRequest meth rt statusCode d m) l =
     httpRequestsTotal m l +
     (if l = \<lparr>http_method = meth, route = normalizeRoute rt, status_code = dec_int statusCode\<rparr>
      then 1 else 0) \<and>
   httpErrorsTotal (recordHttpRequest meth rt statusCode d m) l =
     httpErrorsTotal m l +
     (if 400 \<le> statusCode \<and>
         l = \<lparr>http_method = meth, route = normalizeRoute rt, status_code = dec_int statusCode\<rparr>
      then 1 else 0) \<and>
   rabbitMessagesTotal (recordRabbitMessage exch rk oper success dur m) lr =
     rabbitMessagesTotal m lr +
     (if lr = \<lparr>exchange = exch, routing_key = normalizeRoutingKey rk, operation = oper\<rparr>
      then 1 else 0) \<and>
   rabbitErrorsTotal (recordRabbitMessage exch rk oper success dur m) lr =
     rabbitErrorsTotal m lr +
     (if \<not> success \<and>
         lr = \<lparr>exchange = exch, routing_key = normalizeRoutingKey rk, operation = oper\<rparr>
      then 1 else 0) \<and>
   wsEventsTotal (recordWsEvent ev success dur m) lw =
     wsEventsTotal m lw + (if lw = \<lparr>event = ev\<rparr> then 1 else 0) \<and>
   wsErrorsTotal (recordWsEvent ev success dur m) lw =
     wsErrorsTotal m lw + (if \<not> success \<and> lw = \<lparr>event = ev\<rparr> then 1 else 0)"
  by (simp add: recordHttpRequest_def recordRabbitMessage_def recordWsEvent_def add_def
      Let_def split: option.splits)

subsection \<open>Route normalisation\<close>

lemma uuid_pattern_unfold: "uuid_pattern = [True,True,True,True,True,True,True,True,False,True,True,True,True,False,True,True,True,True,False,True,True,True,True,False,True,True,True,True,True,True,True,True,True,True,True,True]"
  by (simp add: uuid_pattern_def numeral_eq_Suc)

lemma length_uuid_pattern: "length uuid_pattern = 36"
  by (simp add: uuid_pattern_def)

lemma slash_not_hex: "\<not> is_hex CHR ''/''" "\<not> is_digit CHR ''/''"
  by (simp_all add: is_hex_def is_digit_def)

lemma digit_not_dash: "is_digit c \<Longrightarrow> c \<noteq> CHR ''-''"
  by (auto simp: is_digit_def)

lemma digit_is_hex: "is_digit c \<Longrightarrow> is_hex c"
  by (simp add: is_hex_def)


lemma matches_pattern_append_slash:
  "matches_pattern p (a @ CHR ''/'' # b) = matches_pattern p a"
proof (induction p arbitrary: a)
  case Nil
  then show ?case by simp
next
  case (Cons x p)
  then show ?case by (cases a) (simp_all add: slash_not_hex)
qed

lemma matches_pattern_length: "matches_pattern p s \<Longrightarrow> length p \<le> length s"
  by (induction p s rule: matches_pattern.induct) auto

lemma matches_pattern_nth:
  "matches_pattern p s \<Longrightarrow> i < length p \<Longrightarrow> (if p ! i then is_hex (s ! i) else s ! i = CHR ''-'')"
proof (induction p s arbitrary: i rule: matches_pattern.induct)
  case (3 p ps c cs)
  then show ?case by (cases i) (auto split: if_splits)
qed auto

lemma matches_pattern_no_slash:
  "matches_pattern p s \<Longrightarrow> CHR ''/'' \<notin> set (take (length p) s)"
  by (induction p s rule: matches_pattern.induct) (auto simp: slash_not_hex split: if_splits)

lemma digits_no_uuid:
  assumes "list_all is_digit s" shows "\<not> matches_pattern uuid_pattern s"
proof
  assume m: "matches_pattern uuid_pattern s"
  from matches_pattern_length [OF m] have len: "36 \<le> length s" by (simp add: length_uuid_pattern)
  from matches_pattern_nth [OF m, of 8] have "s ! 8 = CHR ''-''"
    by (simp add: uuid_pattern_unfold)
  moreover from assms len have "is_digit (s ! 8)" by (simp add: list_all_length)
  ultimately show False using digit_not_dash by blast
qed

lemma digits_uuid_free: "list_all is_digit s \<Longrightarrow> uuid_free s"
proof (induction s)
  case Nil
  then show ?case by simp
next
  case (Cons c cs)
  from Cons.prems have "\<not> matches_pattern uuid_pattern (c # cs)" by (rule digits_no_uuid)
  with Cons show ?case by simp
qed

text \<open>The UUID pass over one segment followed by the rest of the path.\<close>

lemma replace_uuid_shaped:
  assumes "uuid_shaped s"
  shows "replace_uuid rep (s @ t) = rep @ replace_uuid rep t"
proof -
  from assms have len: "length s = 36" and m: "matches_pattern uuid_pattern s"
    by (simp_all add: uuid_shaped_def)
  then obtain c cs where s: "s = c # cs" by (cases s) auto
  have "matches_pattern p (a @ b) " if "matches_pattern p a" for p a b
    using that by (induction p a rule: matches_pattern.induct) auto
  with m have "matches_pattern uuid_pattern (s @ t)" by blast
  moreover have "drop 35 (cs @ t) = t" using len s by simp
  ultimately show ?thesis using s by simp
qed

lemma replace_uuid_free:
  assumes "uuid_free s" and "t = [] \<or> hd t = CHR ''/''"
  shows "replace_uuid rep (s @ t) = s @ replace_uuid rep t"
  using assms
proof (induction s)
  case Nil
  then show ?case by simp
next
  case (Cons c cs)
  have "matches_pattern uuid_pattern ((c # cs) @ t) = matches_pattern uuid_pattern (c # cs)"
  proof (cases t)
    case Nil
    then show ?thesis by simp
  next
    case (Cons d ds)
    with Cons.prems(2) have "t = CHR ''/'' # ds" by simp
    then show ?thesis using matches_pattern_append_slash [of uuid_pattern "c # cs" ds] by simp
  qed
  with Cons show ?case by simp
qed

lemma replace_uuid_slash: "replace_uuid rep (CHR ''/'' # t) = CHR ''/'' # replace_uuid rep t"
  by (simp add: uuid_pattern_unfold slash_not_hex)

lemma join_segments_Cons: "join_segments (s # segs) = CHR ''/'' # s @ join_segments segs"
  by (simp add: join_segments_def)

lemma join_segments_hd: "join_segments segs = [] \<or> hd (join_segments segs) = CHR ''/''"
  by (cases segs) (simp_all add: join_segments_def)

lemma replace_uuid_join:
  assumes "list_all (\<lambda>s. uuid_shaped s \<or> uuid_free s) segs"
  shows "replace_uuid '':id'' (join_segments segs) = join_segments (map uuid_pass_segment segs)"
  using assms
proof (induction segs)
  case Nil
  then show ?case by (simp add: join_segments_def)
next
  case (Cons s segs)
  show ?case
  proof (cases "uuid_shaped s")
    case True
    then show ?thesis using Cons
      by (simp add: join_segments_Cons replace_uuid_slash replace_uuid_shaped
          uuid_pass_segment_def del: replace_uuid.simps)
  next
    case False
    with Cons.prems have "uuid_free s" by simp
    from replace_uuid_free [OF this join_segments_hd] False Cons show ?thesis
      by (simp add: join_segments_Cons replace_uuid_slash uuid_pass_segment_def
          del: replace_uuid.simps)
  qed
qed


lemma replace_numeric_ids_no_slash:
  "CHR ''/'' \<notin> set s \<Longrightarrow> replace_numeric_ids (s @ t) = s @ replace_numeric_ids t"
  by (induction s) auto

lemma takeWhile_digit_boundary:
  assumes "t = [] \<or> hd t = CHR ''/''"
  shows "takeWhile is_digit t = []" and "dropWhile is_digit t = t"
  using assms by (cases t; auto simp: slash_not_hex)+

lemma replace_numeric_ids_numeric:
  assumes "numeric_segment s" and "t = [] \<or> hd t = CHR ''/''"
  shows "replace_numeric_ids (CHR ''/'' # s @ t) = ''/:id'' @ replace_numeric_ids t"
proof -
  from assms(1) have ne: "s \<noteq> []" and dig: "\<And>x. x \<in> set s \<Longrightarrow> is_digit x"
    by (auto simp: numeric_segment_def list_all_iff)
  from ne dig have "takeWhile is_digit (s @ t) \<noteq> []" by (cases s) auto
  moreover have "dropWhile is_digit (s @ t) = t"
    using dig takeWhile_digit_boundary(2) [OF assms(2)] by simp
  ultimately show ?thesis by simp
qed

lemma replace_numeric_ids_static:
  assumes "CHR ''/'' \<notin> set s" and "takeWhile is_digit s = []" and "t = [] \<or> hd t = CHR ''/''"
  shows "replace_numeric_ids (CHR ''/'' # s @ t) = CHR ''/'' # s @ replace_numeric_ids t"
proof -
  have "takeWhile is_digit (s @ t) = []"
  proof (cases s)
    case Nil
    then show ?thesis using takeWhile_digit_boundary(1) [OF assms(3)] by simp
  next
    case (Cons c cs)
    with assms(2) show ?thesis by (simp split: if_splits)
  qed
  then show ?thesis using replace_numeric_ids_no_slash [OF assms(1)] by simp
qed

lemma replace_numeric_ids_join:
  assumes "list_all (\<lambda>s. uuid_shaped s \<or> numeric_segment s \<or> static_segment s) segs"
  shows "replace_numeric_ids (join_segments (map uuid_pass_segment segs)) =
         join_segments (map normalize_segment segs)"
  using assms
proof (induction segs)
  case Nil
  then show ?case by (simp add: join_segments_def)
next
  case (Cons s segs)
  let ?t = "join_segments (map uuid_pass_segment segs)"
  have bd: "?t = [] \<or> hd ?t = CHR ''/''" by (rule join_segments_hd)
  from Cons have IH: "replace_numeric_ids ?t = join_segments (map normalize_segment segs)"
    by simp
  consider (u) "uuid_shaped s" | (n) "\<not> uuid_shaped s" "numeric_segment s"
    | (st) "\<not> uuid_shaped s" "\<not> numeric_segment s" "static_segment s"
    using Cons.prems by auto
  then show ?case
  proof cases
    case u
    have "replace_numeric_ids (CHR ''/'' # '':id'' @ ?t) = CHR ''/'' # '':id'' @ replace_numeric_ids ?t"
      by (rule replace_numeric_ids_static [OF _ _ bd]) (simp_all add: is_digit_def)
    moreover from u have "uuid_pass_segment s = '':id''" "normalize_segment s = '':id''"
      by (simp_all add: uuid_pass_segment_def normalize_segment_def)
    ultimately show ?thesis using IH
      by (simp add: join_segments_Cons del: replace_numeric_ids.simps)
  next
    case n
    from n have "uuid_pass_segment s = s" "normalize_segment s = '':id''"
      by (simp_all add: uuid_pass_segment_def normalize_segment_def)
    with replace_numeric_ids_numeric [OF n(2) bd] IH show ?thesis
      by (simp add: join_segments_Cons del: replace_numeric_ids.simps)
  next
    case st
    from st(3) have "CHR ''/'' \<notin> set s" "takeWhile is_digit s = []"
      by (simp_all add: static_segment_def)
    from replace_numeric_ids_static [OF this bd] have
      "replace_numeric_ids (CHR ''/'' # s @ ?t) = CHR ''/'' # s @ replace_numeric_ids ?t" .
    moreover from st have "uuid_pass_segment s = s" "normalize_segment s = s"
      by (simp_all add: uuid_pass_segment_def normalize_segment_def)
    ultimately show ?thesis using IH
      by (simp add: join_segments_Cons del: replace_numeric_ids.simps)
  qed
qed

lemma normalizeRoute_segments:
  assumes "list_all (\<lambda>s. uuid_shaped s \<or> numeric_segment s \<or> static_segment s) segs"
  shows "normalizeRoute (join_segments segs) = take 100 (join_segments (map normalize_segment segs))"
proof -
  have "list_all (\<lambda>s. uuid_shaped s \<or> uuid_free s) segs"
    using assms
    by (auto simp: list_all_iff numeric_segment_def static_segment_def
        intro: digits_uuid_free [unfolded list_all_iff])
  from replace_uuid_join [OF this] replace_numeric_ids_join [OF assms]
  show ?thesis by (simp add: normalizeRoute_def)
qed

lemma dec_int_200: "dec_int 200 = ''200''"
  by (simp add: dec_int_def dec_nat.simps digit_char_def)

lemma sample_route_segments:
  "list_all (\<lambda>s. uuid_shaped s \<or> numeric_segment s \<or> static_segment s)
     [''users'', ''123e4567-e89b-12d3-a456-426614174000'']"
  "join_segments [''users'', ''123e4567-e89b-12d3-a456-426614174000''] =
     ''/users/123e4567-e89b-12d3-a456-426614174000''"
  "join_segments (map normalize_segment [''users'', ''123e4567-e89b-12d3-a456-426614174000'']) =
     ''/users/:id''"
  by (simp_all add: join_segments_def normalize_segment_def numeric_segment_def
      static_segment_def uuid_shaped_def uuid_pattern_unfold is_hex_def is_digit_def)

lemma normalizeRoute_sample:
  "normalizeRoute ''/users/123e4567-e89b-12d3-a456-426614174000'' = ''/users/:id''"
  using normalizeRoute_segments [OF sample_route_segments(1)]
  by (simp only: sample_route_segments) simp

text \<open>Every route is its leading text followed by its segments, and no segment holds a slash.\<close>

lemma split_slash_join:
  "leading_text r @ join_segments (path_segments r) = r"
  by (induction r) (simp_all add: join_segments_def)

lemma leading_text_no_slash: "CHR ''/'' \<notin> set (leading_text r)"
  by (induction r) simp_all

lemma path_segments_no_slash: "s \<in> set (path_segments r) \<Longrightarrow> CHR ''/'' \<notin> set s"
  by (induction r) (auto simp: leading_text_no_slash split: if_splits)

text \<open>The UUID pass works inside each segment: no match holds a slash.\<close>

lemma replace_uuid_before_slash:
  "CHR ''/'' \<notin> set s \<Longrightarrow>
   replace_uuid rep (s @ CHR ''/'' # t) = replace_uuid rep s @ CHR ''/'' # replace_uuid rep t"
proof (induction rep s rule: replace_uuid.induct)
  case (1 rep)
  then show ?case by (simp add: replace_uuid_slash del: replace_uuid.simps(2))
next
  case (2 rep c cs)
  have m: "matches_pattern uuid_pattern ((c # cs) @ CHR ''/'' # t) =
      matches_pattern uuid_pattern (c # cs)"
    by (rule matches_pattern_append_slash)
  show ?case
  proof (cases "matches_pattern uuid_pattern (c # cs)")
    case True
    from matches_pattern_length [OF True] have "35 \<le> length cs"
      by (simp add: length_uuid_pattern)
    then have d: "drop 35 (cs @ CHR ''/'' # t) = drop 35 cs @ CHR ''/'' # t" by simp
    have "CHR ''/'' \<notin> set (drop 35 cs)" using 2(3) by (auto dest: in_set_dropD)
    from 2(1) [OF True this] True m d show ?thesis by simp
  next
    case False
    from 2(3) have "CHR ''/'' \<notin> set cs" by simp
    from 2(2) [OF False this] False m show ?thesis by simp
  qed
qed

lemma replace_uuid_no_slash:
  "CHR ''/'' \<notin> set rep \<Longrightarrow> CHR ''/'' \<notin> set s \<Longrightarrow> CHR ''/'' \<notin> set (replace_uuid rep s)"
proof (induction rep s rule: replace_uuid.induct)
  case (1 rep)
  then show ?case by simp
next
  case (2 rep c cs)
  have "CHR ''/'' \<notin> set (drop 35 cs)" using 2(4) by (auto dest: in_set_dropD)
  with 2 show ?case by auto
qed

lemma replace_uuid_join_segments:
  "(\<And>s. s \<in> set segs \<Longrightarrow> CHR ''/'' \<notin> set s) \<Longrightarrow>
   replace_uuid rep (join_segments segs) = join_segments (map (replace_uuid rep) segs)"
proof (induction segs)
  case Nil
  then show ?case by (simp add: join_segments_def)
next
  case (Cons s segs)
  have s: "CHR ''/'' \<notin> set s" using Cons.prems by simp
  have IH: "replace_uuid rep (join_segments segs) = join_segments (map (replace_uuid rep) segs)"
    using Cons by simp
  show ?case
  proof (cases segs)
    case Nil
    then show ?thesis
      by (simp add: join_segments_def replace_uuid_slash del: replace_uuid.simps)
  next
    case (Cons s' segs')
    then have j: "join_segments segs = CHR ''/'' # s' @ join_segments segs'"
      by (simp add: join_segments_Cons)
    have "replace_uuid rep (s @ join_segments segs) =
        replace_uuid rep s @ replace_uuid rep (join_segments segs)"
      unfolding j using replace_uuid_before_slash [OF s] replace_uuid_slash by simp
    with IH show ?thesis
      by (simp add: join_segments_Cons replace_uuid_slash del: replace_uuid.simps)
  qed
qed

lemma replace_uuid_leading:
  "CHR ''/'' \<notin> set pre \<Longrightarrow>
   replace_uuid rep (pre @ join_segments segs) = replace_uuid rep pre @ replace_uuid rep (join_segments segs)"
proof (cases segs)
  case Nil
  then show ?thesis by (simp add: join_segments_def)
next
  case (Cons s' segs')
  assume "CHR ''/'' \<notin> set pre"
  from replace_uuid_before_slash [OF this] Cons show ?thesis
    by (simp add: join_segments_Cons replace_uuid_slash del: replace_uuid.simps)
qed

text \<open>The numeric pass works on each segment with its slash.\<close>

lemma takeWhile_before_slash:
  assumes "t = [] \<or> hd t = CHR ''/''"
  shows "takeWhile is_digit (s @ t) = takeWhile is_digit s"
    and "dropWhile is_digit (s @ t) = dropWhile is_digit s @ t"
  using assms by (induction s) (cases t; auto simp: slash_not_hex)+

lemma replace_numeric_ids_segment:
  assumes "CHR ''/'' \<notin> set s" and "t = [] \<or> hd t = CHR ''/''"
  shows "replace_numeric_ids (CHR ''/'' # s @ t) =
         replace_numeric_ids (CHR ''/'' # s) @ replace_numeric_ids t"
proof -
  have d: "CHR ''/'' \<notin> set (dropWhile is_digit s)"
    using assms(1) by (auto dest: set_dropWhileD)
  have a: "replace_numeric_ids (s @ t) = s @ replace_numeric_ids t"
    "replace_numeric_ids (dropWhile is_digit s @ t) = dropWhile is_digit s @ replace_numeric_ids t"
    using replace_numeric_ids_no_slash [OF assms(1)] replace_numeric_ids_no_slash [OF d] by simp_all
  have b: "replace_numeric_ids s = s"
    "replace_numeric_ids (dropWhile is_digit s) = dropWhile is_digit s"
    using replace_numeric_ids_no_slash [OF assms(1), of "[]"]
      replace_numeric_ids_no_slash [OF d, of "[]"] by simp_all
  show ?thesis
    by (simp add: takeWhile_before_slash [OF assms(2)] a b)
qed

lemma replace_numeric_ids_starts:
  "replace_numeric_ids (CHR ''/'' # s) = CHR ''/'' # drop 1 (replace_numeric_ids (CHR ''/'' # s))"
  by simp

lemma replace_numeric_ids_join_segments:
  "(\<And>s. s \<in> set segs \<Longrightarrow> CHR ''/'' \<notin> set s) \<Longrightarrow>
   replace_numeric_ids (join_segments segs) =
     join_segments (map (\<lambda>s. drop 1 (replace_numeric_ids (CHR ''/'' # s))) segs)"
proof (induction segs)
  case Nil
  then show ?case by (simp add: join_segments_def)
next
  case (Cons s segs)
  have s: "CHR ''/'' \<notin> set s" using Cons.prems by simp
  have "replace_numeric_ids (CHR ''/'' # s @ join_segments segs) =
      replace_numeric_ids (CHR ''/'' # s) @ replace_numeric_ids (join_segments segs)"
    by (rule replace_numeric_ids_segment [OF s join_segments_hd])
  also have "\<dots> = CHR ''/'' # drop 1 (replace_numeric_ids (CHR ''/'' # s)) @
      replace_numeric_ids (join_segments segs)"
    using replace_numeric_ids_starts [of s] by (simp del: replace_numeric_ids.simps)
  finally show ?case using Cons
    by (simp add: join_segments_Cons del: replace_numeric_ids.simps)
qed

lemma normalizeRoute_by_segments:
  "normalizeRoute r =
     take 100 (replace_uuid '':id'' (leading_text r) @
               join_segments (map normalizeRoute_segment (path_segments r)))"
proof -
  let ?pre = "leading_text r" and ?segs = "path_segments r"
  have ns: "\<And>s. s \<in> set ?segs \<Longrightarrow> CHR ''/'' \<notin> set s" by (rule path_segments_no_slash)
  have pre: "CHR ''/'' \<notin> set ?pre" by (rule leading_text_no_slash)
  have u: "replace_uuid '':id'' (?pre @ join_segments ?segs) =
      replace_uuid '':id'' ?pre @ join_segments (map (replace_uuid '':id'') ?segs)"
    using replace_uuid_leading [OF pre] replace_uuid_join_segments [OF ns] by simp
  have pre': "CHR ''/'' \<notin> set (replace_uuid '':id'' ?pre)"
    by (rule replace_uuid_no_slash [OF _ pre]) simp
  have ns': "\<And>s. s \<in> set (map (replace_uuid '':id'') ?segs) \<Longrightarrow> CHR ''/'' \<notin> set s"
    using ns replace_uuid_no_slash [of "'':id''"] by auto
  have "replace_numeric_ids (join_segments (map (replace_uuid '':id'') ?segs)) =
      join_segments (map normalizeRoute_segment ?segs)"
    using replace_numeric_ids_join_segments [of "map (replace_uuid '':id'') ?segs", OF ns']
    by (simp add: normalizeRoute_segment_def [abs_def] comp_def del: replace_numeric_ids.simps)
  then have "replace_numeric_ids (replace_uuid '':id'' ?pre @
        join_segments (map (replace_uuid '':id'') ?segs)) =
      replace_uuid '':id'' ?pre @ join_segments (map normalizeRoute_segment ?segs)"
    using replace_numeric_ids_no_slash [OF pre'] by simp
  with u show ?thesis
    using split_slash_join [of r] by (simp add: normalizeRoute_def)
qed

lemma normalizeRoute_segment_uuid:
  assumes "uuid_shaped s" shows "normalizeRoute_segment s = '':id''"
proof -
  from replace_uuid_shaped [OF assms, of "'':id''" "[]"] have "replace_uuid '':id'' s = '':id''"
    by simp
  then show ?thesis by (simp add: normalizeRoute_segment_def is_digit_def)
qed

lemma normalizeRoute_segment_numeric:
  assumes "numeric_segment s" shows "normalizeRoute_segment s = '':id''"
proof -
  from assms have "uuid_free s" by (simp add: numeric_segment_def digits_uuid_free)
  from replace_uuid_free [OF this, of "[]" "'':id''"] have u: "replace_uuid '':id'' s = s" by simp
  from replace_numeric_ids_numeric [OF assms, of "[]"]
  have "replace_numeric_ids (CHR ''/'' # s) = ''/:id''" by simp
  with u show ?thesis by (simp add: normalizeRoute_segment_def del: replace_numeric_ids.simps)
qed

lemma normalizeRoute_segment_static:
  assumes "static_segment s" shows "normalizeRoute_segment s = s"
proof -
  from assms have f: "uuid_free s" and ns: "CHR ''/'' \<notin> set s" and d: "takeWhile is_digit s = []"
    by (simp_all add: static_segment_def)
  from replace_uuid_free [OF f, of "[]" "'':id''"] have u: "replace_uuid '':id'' s = s" by simp
  from replace_numeric_ids_static [OF ns d, of "[]"]
  have "replace_numeric_ids (CHR ''/'' # s) = CHR ''/'' # s" by simp
  with u show ?thesis by (simp add: normalizeRoute_segment_def del: replace_numeric_ids.simps)
qed

text \<open>
  C7. Every route is the text before its first slash followed by its segments, each written
  after a slash and holding none. Route normalisation rewrites the segments one by one and
  cuts the result to its first 100 characters: a UUID-shaped segment and a purely numeric
  segment become the placeholder \<^verbatim>\<open>:id\<close>, and a static segment (no UUID match inside, no
  digit in front) stays as it is; so in a path whose segments are each of these three kinds
  exactly the UUID-shaped and the numeric ones are replaced. Whatever the route, the label
  is at most 100 characters long. Recording a GET request to
  \<^verbatim>\<open>/users/123e4567-e89b-12d3-a456-426614174000\<close> with status 200 adds exactly 1 to the
  request counter at the labels method GET, route \<^verbatim>\<open>/users/:id\<close>, status code 200, and
  leaves every other sum of that counter as it was.
\<close>

theorem normalizeRoute_placeholder_and_cap:
  "normalizeRoute r =
     take 100 (replace_uuid '':id'' (leading_text r) @
               join_segments (map normalizeRoute_segment (path_segments r))) \<and>
   r = leading_text r @ join_segments (path_segments r) \<and>
   CHR ''/'' \<notin> set (leading_text r) \<and>
   (x \<in> set (path_segments r) \<longrightarrow> CHR ''/'' \<notin> set x) \<and>
   (uuid_shaped s \<or> numeric_segment s \<longrightarrow> normalizeRoute_segment s = '':id'') \<and>
   (static_segment s \<longrightarrow> normalizeRoute_segment s = s) \<and>
   (list_all (\<lambda>s. uuid_shaped s \<or> numeric_segment s \<or> static_segment s) segs \<longrightarrow>
      normalizeRoute (join_segments segs) =
        take 100 (join_segments (map normalize_segment segs))) \<and>
   length (normalizeRoute r) \<le> 100 \<and>
   httpRequestsTotal
     (recordHttpRequest ''GET'' ''/users/123e4567-e89b-12d3-a456-426614174000'' 200 d m) l =
     httpRequestsTotal m l +
     (if l = \<lparr>http_method = ''GET'', route = ''/users/:id'', status_code = ''200''\<rparr>
      then 1 else 0)"
proof (intro conjI impI)
  show "normalizeRoute r =
     take 100 (replace_uuid '':id'' (leading_text r) @
               join_segments (map normalizeRoute_segment (path_segments r)))"
    by (rule normalizeRoute_by_segments)
next
  show "r = leading_text r @ join_segments (path_segments r)"
    by (rule split_slash_join [symmetric])
next
  show "CHR ''/'' \<notin> set (leading_text r)" by (rule leading_text_no_slash)
next
  assume "x \<in> set (path_segments r)"
  then show "CHR ''/'' \<notin> set x" by (rule path_segments_no_slash)
next
  assume "uuid_shaped s \<or> numeric_segment s"
  then show "normalizeRoute_segment s = '':id''"
    using normalizeRoute_segment_uuid normalizeRoute_segment_numeric by blast
next
  assume "static_segment s"
  then show "normalizeRoute_segment s = s" by (rule normalizeRoute_segment_static)
next
  assume "list_all (\<lambda>s. uuid_shaped s \<or> numeric_segment s \<or> static_segment s) segs"
  then show "normalizeRoute (join_segments segs) =
      take 100 (join_segments (map normalize_segment segs))"
    by (rule normalizeRoute_segments)
next
  show "length (normalizeRoute r) \<le> 100" by (simp add: normalizeRoute_def)
next
  show "httpRequestsTotal
     (recordHttpRequest ''GET'' ''/users/123e4567-e89b-12d3-a456-426614174000'' 200 d m) l =
     httpRequestsTotal m l +
     (if l = \<lparr>http_method = ''GET'', route = ''/users/:id'', status_code = ''200''\<rparr>
      then 1 else 0)"
    by (simp add: recordHttpRequest_def Let_def add_def normalizeRoute_sample dec_int_200)
qed

lemma sample_path_segments:
  "path_segments ''/items/3d-models/17'' = [''items'', ''3d-models'', ''17'']"
  "leading_text ''/items/3d-models/17'' = []"
  by simp_all

lemma sample_segments:
  "normalizeRoute_segment ''items'' = ''items''"
  "normalizeRoute_segment ''3d-models'' = '':idd-models''"
  "normalizeRoute_segment ''17'' = '':id''"
  by (simp_all add: normalizeRoute_segment_def uuid_pattern_unfold is_hex_def is_digit_def)

text \<open>
  The path \<^verbatim>\<open>/items/3d-models/17\<close>, whose second segment begins with a digit and is rewritten
  too, and the path \<^verbatim>\<open>/orders/42/items/123e4567-e89b-12d3-a456-426614174000\<close>: a static, a
  numeric, a static and a UUID-shaped segment.
\<close>

theorem normalizeRoute_placeholder_and_cap_witness:
  "''17'' \<in> set (path_segments ''/items/3d-models/17'') \<and>
   numeric_segment ''17'' \<and> normalizeRoute_segment ''17'' = '':id'' \<and>
   uuid_shaped ''123e4567-e89b-12d3-a456-426614174000'' \<and>
   normalizeRoute_segment ''123e4567-e89b-12d3-a456-426614174000'' = '':id'' \<and>
   static_segment ''items'' \<and> normalizeRoute_segment ''items'' = ''items'' \<and>
   normalizeRoute ''/items/3d-models/17'' = ''/items/:idd-models/:id'' \<and>
   list_all (\<lambda>s. uuid_shaped s \<or> numeric_segment s \<or> static_segment s)
     [''orders'', ''42'', ''items'', ''123e4567-e89b-12d3-a456-426614174000''] \<and>
   normalizeRoute ''/orders/42/items/123e4567-e89b-12d3-a456-426614174000'' =
     ''/orders/:id/items/:id''"
proof -
  have k: "numeric_segment ''17''" "uuid_shaped ''123e4567-e89b-12d3-a456-426614174000''"
    "static_segment ''items''"
    by (simp_all add: numeric_segment_def static_segment_def uuid_shaped_def uuid_pattern_unfold
        is_hex_def is_digit_def)
  have x: "''17'' \<in> set (path_segments ''/items/3d-models/17'')"
    by (simp add: sample_path_segments)
  have segs: "list_all (\<lambda>s. uuid_shaped s \<or> numeric_segment s \<or> static_segment s)
     [''orders'', ''42'', ''items'', ''123e4567-e89b-12d3-a456-426614174000'']"
    by (simp add: numeric_segment_def static_segment_def uuid_shaped_def uuid_pattern_unfold
        is_hex_def is_digit_def)
  have j: "join_segments [''orders'', ''42'', ''items'', ''123e4567-e89b-12d3-a456-426614174000'']
      = ''/orders/42/items/123e4567-e89b-12d3-a456-426614174000''"
    by (simp add: join_segments_def)
  have n: "join_segments (map normalize_segment
      [''orders'', ''42'', ''items'', ''123e4567-e89b-12d3-a456-426614174000'']) =
      ''/orders/:id/items/:id''"
    by (simp add: join_segments_def normalize_segment_def numeric_segment_def
        uuid_shaped_def uuid_pattern_unfold is_hex_def is_digit_def)
  note a = normalizeRoute_placeholder_and_cap [where r = "''/items/3d-models/17''"
      and x = "''17''" and s = "''17''"
      and segs = "[''orders'', ''42'', ''items'', ''123e4567-e89b-12d3-a456-426614174000'']"]
  note b = normalizeRoute_placeholder_and_cap
      [where s = "''123e4567-e89b-12d3-a456-426614174000''"]
  note c = normalizeRoute_placeholder_and_cap [where s = "''items''"]
  from a have r1: "normalizeRoute ''/items/3d-models/17'' = ''/items/:idd-models/:id''"
    by (simp add: sample_path_segments sample_segments join_segments_def)
  from a k(1) have s1: "normalizeRoute_segment ''17'' = '':id''" by blast
  from b k(2) have s2: "normalizeRoute_segment ''123e4567-e89b-12d3-a456-426614174000'' = '':id''"
    by blast
  from c k(3) have s3: "normalizeRoute_segment ''items'' = ''items''" by blast
  from a segs have r2: "normalizeRoute ''/orders/42/items/123e4567-e89b-12d3-a456-426614174000'' =
     ''/orders/:id/items/:id''"
    unfolding j n by simp
  from x k s1 s2 s3 r1 segs r2 show ?thesis by simp
qed

subsection \<open>Masking\<close>

lemma default_fields_lower: "map toLowerCase DEFAULT_SENSITIVE_FIELDS = DEFAULT_SENSITIVE_FIELDS"
  by (simp add: DEFAULT_SENSITIVE_FIELDS_def toLowerCase_def lower_char_def)

lemma isSensitive_default:
  "isSensitive DEFAULT_SENSITIVE_FIELDS key =
     list_ex (str_includes (toLowerCase key)) DEFAULT_SENSITIVE_FIELDS"
proof -
  have "list_ex (\<lambda>field. str_includes lk (toLowerCase field)) xs =
        list_ex (str_includes lk) (map toLowerCase xs)" for lk xs
    by (simp add: list_ex_iff)
  then show ?thesis by (simp add: isSensitive_def default_fields_lower)
qed

lemma default_sensitive_key: "contains_key k \<Longrightarrow> isSensitive DEFAULT_SENSITIVE_FIELDS k"
  unfolding isSensitive_default contains_key_def
  by (simp add: DEFAULT_SENSITIVE_FIELDS_def)

lemma key_values_redacted_JObj:
  "key_values_redacted (JObj kvs) \<longleftrightarrow>
     (\<forall>(k, v) \<in> set kvs. (contains_key k \<longrightarrow> v = JStr ''[REDACTED]'') \<and>
        (\<not> contains_key k \<longrightarrow> key_values_redacted v))"
  by (auto simp: list_all_iff split: if_splits)

lemma key_values_redacted_JArr:
  "key_values_redacted (JArr xs) \<longleftrightarrow> (\<forall>x \<in> set xs. key_values_redacted x)"
  by (simp add: list_all_iff)

lemma set_obj_set_subset: "set (obj_set m k v) \<subseteq> insert (k, v) (set m)"
  by (induction m) (auto split: if_splits)

lemma key_values_redacted_obj_set:
  assumes "key_values_redacted (JObj m)"
    and "contains_key k \<Longrightarrow> v = JStr ''[REDACTED]''"
    and "\<not> contains_key k \<Longrightarrow> key_values_redacted v"
  shows "key_values_redacted (JObj (obj_set m k v))"
  using assms set_obj_set_subset [of m k v]
  unfolding key_values_redacted_JObj by blast

lemma keys_obj_set:
  "map fst (obj_set m k v) = (if k \<in> set (map fst m) then map fst m else map fst m @ [k])"
  by (induction m) (auto split: if_splits)

lemma key_values_redacted_primitive:
  "\<not> isArray v \<Longrightarrow> \<not> (truthy v \<and> typeof v = ''object'') \<Longrightarrow> key_values_redacted v"
  "\<not> (typeof v = ''object'' \<and> v \<noteq> JNull) \<Longrightarrow> key_values_redacted v"
  by (cases v; simp)+

lemma mask_redacts_keys:
  "(\<And>k. contains_key k \<Longrightarrow> isSensitive sens k) \<Longrightarrow>
     key_values_redacted (JObj (maskSensitiveData sens data))"
  "(\<And>k. contains_key k \<Longrightarrow> isSensitive sens k) \<Longrightarrow> key_values_redacted (JObj masked) \<Longrightarrow>
     key_values_redacted (JObj (mask_entries sens rest masked))"
  "(\<And>k. contains_key k \<Longrightarrow> isSensitive sens k) \<Longrightarrow>
     (contains_key key \<longrightarrow> mask_value sens key val = JStr ''[REDACTED]'') \<and>
     key_values_redacted (mask_value sens key val)"
  "(\<And>k. contains_key k \<Longrightarrow> isSensitive sens k) \<Longrightarrow> key_values_redacted (mask_item sens item)"
proof (induction sens data and sens rest masked and sens key val and sens item
    rule: maskSensitiveData_mask_entries_mask_value_mask_item.induct)
  case (1 sensitiveFields data)
  then show ?case by (simp add: maskSensitiveData.simps key_values_redacted_JObj)
next
  case (2 sensitiveFields masked)
  then show ?case by (simp add: mask_entries.simps)
next
  case (3 sensitiveFields key "value" rest masked)
  from 3(1) [OF 3(3)] 3(4) have "key_values_redacted
      (JObj (obj_set masked key (mask_value sensitiveFields key value)))"
    by (intro key_values_redacted_obj_set) simp_all
  with 3(2) [OF 3(3)] show ?case by (simp add: mask_entries.simps)
next
  case (4 sensitiveFields key "value")
  show ?case
  proof (cases "isSensitive sensitiveFields key")
    case True
    then show ?thesis by (simp add: mask_value.simps [of sensitiveFields key "value"])
  next
    case False
    with 4(3) have nk: "\<not> contains_key key" by blast
    show ?thesis using False nk 4
      by (auto simp: mask_value.simps [of sensitiveFields key "value"] list_all_iff
          intro: key_values_redacted_primitive)
  qed
next
  case (5 sensitiveFields item)
  then show ?case
    by (auto simp: mask_item.simps [of sensitiveFields item]
        intro: key_values_redacted_primitive)
qed

lemma mask_entries_keys:
  "distinct (map fst masked @ map fst rest) \<Longrightarrow>
     map fst (mask_entries sens rest masked) = map fst masked @ map fst rest"
proof (induction rest arbitrary: masked)
  case Nil
  then show ?case by (simp add: mask_entries.simps)
next
  case (Cons p rest)
  obtain k v where p: "p = (k, v)" by (cases p)
  from Cons.prems have k: "k \<notin> set (map fst masked)" by (auto simp: p)
  have keys: "map fst (obj_set masked k (mask_value sens k v)) = map fst masked @ [k]"
    using k by (simp only: keys_obj_set if_False)
  from Cons.prems have "distinct (map fst (obj_set masked k (mask_value sens k v)) @ map fst rest)"
    unfolding keys by (simp add: p)
  from Cons.IH [OF this] show ?case
    unfolding keys by (simp add: p mask_entries.simps)
qed

lemma maskSensitiveData_keys:
  "distinct (map fst data) \<Longrightarrow> map fst (maskSensitiveData sens data) = map fst data"
  using mask_entries_keys [of "[]" data sens] by (simp add: maskSensitiveData.simps)

lemma maskSensitiveData_key_set:
  "set (map fst (maskSensitiveData sens data)) = set (map fst data)"
proof -
  have "set (map fst (mask_entries sens rest masked)) = set (map fst masked) \<union> set (map fst rest)"
    for rest masked
  proof (induction rest arbitrary: masked)
    case Nil
    then show ?case by (simp add: mask_entries.simps)
  next
    case (Cons p rest)
    obtain k v where p: "p = (k, v)" by (cases p)
    have "set (map fst (obj_set masked k (mask_value sens k v))) = insert k (set (map fst masked))"
      by (simp only: keys_obj_set) auto
    with Cons.IH [of "obj_set masked k (mask_value sens k v)"] show ?case
      by (simp only: p mask_entries.simps) auto
  qed
  from this [of data "[]"] show ?thesis by (simp add: maskSensitiveData.simps)
qed

lemma default_redacts_top_level:
  assumes "contains_key k" and "k \<in> set (map fst data)"
  shows "map_of (maskSensitiveData DEFAULT_SENSITIVE_FIELDS data) k = Some (JStr ''[REDACTED]'')"
proof -
  let ?r = "maskSensitiveData DEFAULT_SENSITIVE_FIELDS data"
  from assms(2) have "k \<in> set (map fst ?r)" by (simp only: maskSensitiveData_key_set)
  then obtain v where v: "map_of ?r k = Some v"
    by (metis map_of_eq_None_iff not_Some_eq set_map)
  then have "(k, v) \<in> set ?r" by (rule map_of_SomeD)
  moreover have "key_values_redacted (JObj ?r)"
    by (rule mask_redacts_keys(1)) (rule default_sensitive_key)
  ultimately have "v = JStr ''[REDACTED]''"
    using assms(1) unfolding key_values_redacted_JObj by blast
  with v show ?thesis by simp
qed

lemma mask_samples:
  "maskSensitiveData DEFAULT_SENSITIVE_FIELDS
     [(''rabbitmq'', JObj [(''exchange'', JStr ''orders''),
        (''message_keys'', JArr [JStr ''orderId'', JStr ''total''])])] =
     [(''rabbitmq'', JObj [(''exchange'', JStr ''orders''),
        (''message_keys'', JStr ''[REDACTED]'')])]"
  "maskSensitiveData DEFAULT_SENSITIVE_FIELDS
     [(''websocket'', JObj [(''client_id'', JStr ''c1''),
        (''data_keys'', JArr [JStr ''room''])])] =
     [(''websocket'', JObj [(''client_id'', JStr ''c1''),
        (''data_keys'', JStr ''[REDACTED]'')])]"
  "maskSensitiveData [] [(''matrix'', JArr [JArr [JNum 1, JNum 2]])] =
     [(''matrix'', JArr [JObj [(''0'', JNum 1), (''1'', JNum 2)]])]"
  "maskSensitiveData DEFAULT_SENSITIVE_FIELDS [(''matrix'', JArr [JArr [JNum 1, JNum 2]])] =
     [(''matrix'', JArr [JObj [(''0'', JNum 1), (''1'', JNum 2)]])]"
  unfolding isSensitive_default maskSensitiveData.simps
  by (simp_all add: mask_entries.simps mask_value.simps mask_item.simps maskSensitiveData.simps
      isSensitive_default isSensitive_def DEFAULT_SENSITIVE_FIELDS_def toLowerCase_def
      lower_char_def dec_nat.simps digit_char_def upt_rec)

text \<open>
  C10. With the default sensitive-field list, which holds the entry \<^verbatim>\<open>key\<close>, masking stores
  the marker under every key whose lower-cased name contains \<^verbatim>\<open>key\<close>: at the top level of
  the record, and at every depth of the result. The names \<^verbatim>\<open>message_keys\<close> and
  \<^verbatim>\<open>data_keys\<close>, under which the error interceptor logs the property names of a broker
  message and of a socket payload, are such keys, and their lists of names are replaced by
  the marker.
\<close>

theorem default_fields_redact_key_substring:
  "(contains_key k \<and> k \<in> set (map fst data) \<longrightarrow>
      map_of (maskSensitiveData DEFAULT_SENSITIVE_FIELDS data) k = Some (JStr ''[REDACTED]'')) \<and>
   key_values_redacted (JObj (maskSensitiveData DEFAULT_SENSITIVE_FIELDS data)) \<and>
   ''key'' \<in> set DEFAULT_SENSITIVE_FIELDS \<and>
   contains_key ''message_keys'' \<and> contains_key ''data_keys'' \<and>
   maskSensitiveData DEFAULT_SENSITIVE_FIELDS
     [(''rabbitmq'', JObj [(''exchange'', JStr ''orders''),
        (''message_keys'', JArr [JStr ''orderId'', JStr ''total''])])] =
     [(''rabbitmq'', JObj [(''exchange'', JStr ''orders''),
        (''message_keys'', JStr ''[REDACTED]'')])] \<and>
   maskSensitiveData DEFAULT_SENSITIVE_FIELDS
     [(''websocket'', JObj [(''client_id'', JStr ''c1''),
        (''data_keys'', JArr [JStr ''room''])])] =
     [(''websocket'', JObj [(''client_id'', JStr ''c1''),
        (''data_keys'', JStr ''[REDACTED]'')])]"
proof -
  have "key_values_redacted (JObj (maskSensitiveData DEFAULT_SENSITIVE_FIELDS data))"
    by (rule mask_redacts_keys(1)) (rule default_sensitive_key)
  moreover have "''key'' \<in> set DEFAULT_SENSITIVE_FIELDS"
    by (simp add: DEFAULT_SENSITIVE_FIELDS_def)
  moreover have "contains_key ''message_keys''" "contains_key ''data_keys''"
    by (simp_all add: contains_key_def toLowerCase_def lower_char_def)
  ultimately show ?thesis
    using default_redacts_top_level [of k data] mask_samples(1,2) by simp
qed

theorem default_fields_redact_key_substring_witness:
  "contains_key ''message_keys'' \<and>
   ''message_keys'' \<in> set (map fst [(''message_keys'', JArr [JStr ''orderId''])]) \<and>
   map_of (maskSensitiveData DEFAULT_SENSITIVE_FIELDS [(''message_keys'', JArr [JStr ''orderId''])])
     ''message_keys'' = Some (JStr ''[REDACTED]'')"
  using default_fields_redact_key_substring
    [of "''message_keys''" "[(''message_keys'', JArr [JStr ''orderId''])]"]
  by simp

text \<open>
  C2. A record with no sensitive key at all. The value under \<^verbatim>\<open>matrix\<close> is an array whose
  one element is again an array; the function mapped over the outer array takes the inner
  array for a map (\<^verbatim>\<open>typeof item === 'object' && item !== null\<close> holds of an array) and
  masks its entries, so the inner array comes back as an object keyed by its indices. The
  record does not pass through unchanged, under the empty list and under the default list.
\<close>

theorem maskSensitiveData_rekeys_nested_array:
  "maskSensitiveData [] [(''matrix'', JArr [JArr [JNum 1, JNum 2]])] =
     [(''matrix'', JArr [JObj [(''0'', JNum 1), (''1'', JNum 2)]])] \<and>
   maskSensitiveData DEFAULT_SENSITIVE_FIELDS [(''matrix'', JArr [JArr [JNum 1, JNum 2]])] =
     [(''matrix'', JArr [JObj [(''0'', JNum 1), (''1'', JNum 2)]])] \<and>
   maskSensitiveData [] [(''matrix'', JArr [JArr [JNum 1, JNum 2]])] \<noteq>
     [(''matrix'', JArr [JArr [JNum 1, JNum 2]])]"
  by (simp add: mask_samples(3,4))

subsection \<open>The log pipeline\<close>

lemma emitOtelLog_available:
  "isOtlpAvailable (snd (emitOtelLog J level message attrs w)) = isOtlpAvailable w"
  "otelLogger (snd (emitOtelLog J level message attrs w)) = otelLogger w"
  by (simp_all add: emitOtelLog_def Let_def split: option.splits)

lemma writeToConsole_available:
  "isOtlpAvailable (snd (writeToConsole J lg level entry w)) = isOtlpAvailable w"
  "otelLogger (snd (writeToConsole J lg level entry w)) = otelLogger w"
  "emit_calls (snd (writeToConsole J lg level entry w)) = emit_calls w"
  by (simp_all add: writeToConsole_def write_line_def split: sum.splits option.splits)

lemma writeLog_remote_attempt:
  "writeLog J lg level message meta now tc w =
     (if LOG_LEVEL_PRIORITY level < LOG_LEVEL_PRIORITY (logLevel lg) then (None, w)
      else let entry = createLogEntry lg level message meta now tc;
               r = remote_attempt J lg level message entry w
           in if enableConsoleLogs lg \<or> (\<not> fst r \<and> enableOtlpLogs lg)
              then writeToConsole J lg level entry (snd r) else (None, snd r))"
  by (simp add: writeLog_def remote_attempt_def Let_def split: prod.splits)

lemma writeToConsole_format:
  "writeToConsole J lg level entry w =
     (case format_entry J lg entry of
        Inl e \<Rightarrow> (Some e, w) | Inr line \<Rightarrow> (None, write_line level line w))"
  by (simp add: writeToConsole_def format_entry_def split: sum.splits)

lemma writeLog_available:
  "isOtlpAvailable (snd (writeLog J lg level message meta now tc w)) = isOtlpAvailable w"
  "otelLogger (snd (writeLog J lg level message meta now tc w)) = otelLogger w"
  by (simp_all add: writeLog_remote_attempt remote_attempt_def Let_def emitOtelLog_available
      writeToConsole_available)

lemma c1_eval:
  "fst (emitOtelLog JSON_model LInfo ''hello'' [] world0) = False"
  "isOtelLoggerAvailable (snd (emitOtelLog JSON_model LInfo ''hello'' [] world0))"
  "length (emit_calls (snd (emitOtelLog JSON_model LInfo ''again'' []
      (snd (emitOtelLog JSON_model LInfo ''hello'' [] world0))))) = 2"
  by (simp_all add: emitOtelLog_def world0_def failing_logger_def isOtelLoggerAvailable_def Let_def)

lemma degraded_skips:
  assumes "\<not> isOtlpAvailable w"
  shows "remote_attempt J lg level message entry w = (False, w)"
  using assms by (simp add: remote_attempt_def isOtelLoggerAvailable_def)

lemma map_of_obj_set: "map_of (obj_set m k v) k' = (if k' = k then Some v else map_of m k')"
  by (induction m) (auto split: if_splits)

lemma map_of_Object_assign:
  "k \<notin> set (map fst src) \<Longrightarrow> map_of (Object_assign entry src) k = map_of entry k"
  unfolding Object_assign_def
  by (induction src arbitrary: entry) (auto simp: map_of_obj_set)

lemma startsWith_append: "startsWith (m @ b) m"
  by (induction m) auto

lemma str_includes_self: "str_includes (m @ b) m"
  by (cases "m @ b") (auto simp: startsWith_append, metis startsWith_append)

lemma str_includes_append: "str_includes (a @ m @ b) m"
  by (induction a) (auto simp: str_includes_self)

lemma str_includes_concat: "m \<in> set parts \<Longrightarrow> str_includes (concat parts) m"
proof -
  assume "m \<in> set parts"
  then obtain xs ys where "parts = xs @ m # ys" by (auto dest: split_list)
  then show ?thesis using str_includes_append [of "concat xs" m "concat ys"] by simp
qed


lemma get_prop_createLogEntry:
  assumes "k \<notin> set (meta_keys meta)"
  shows "get_prop (JObj (createLogEntry lg level message meta now tc)) k =
         get_prop (JObj (createLogEntry lg level message None now tc)) k"
proof (cases meta)
  case None
  then show ?thesis by simp
next
  case (Some m)
  with assms have "k \<notin> set (map fst (maskSensitiveData (sensitiveFields lg) m))"
    by (simp add: maskSensitiveData_key_set meta_keys_def del: set_map)
  from map_of_Object_assign [OF this] Some show ?thesis
    by (simp add: createLogEntry_def Let_def)
qed

lemma map_of_set_if_nonempty:
  "map_of (set_if_nonempty entry key val) k =
     (if k = key \<and> val \<noteq> None \<and> val \<noteq> Some [] then Some (JStr (the val)) else map_of entry k)"
  by (cases val) (simp_all add: set_if_nonempty_def map_of_obj_set)

lemma entry_own_fields:
  "get_prop (JObj (createLogEntry lg level message None now tc)) ''timestamp'' = JStr now"
  "get_prop (JObj (createLogEntry lg level message None now tc)) ''level'' = JStr (level_name level)"
  "get_prop (JObj (createLogEntry lg level message None now tc)) ''message'' = JStr message"
  by (simp_all add: createLogEntry_def Let_def map_of_set_if_nonempty)

lemma entry_optional_fields:
  "get_prop (JObj (createLogEntry lg level message None now tc)) ''trace_id'' =
     (case traceId tc of None \<Rightarrow> JUndefined | Some s \<Rightarrow> if s = [] then JUndefined else JStr s)"
  "get_prop (JObj (createLogEntry lg level message None now tc)) ''context'' =
     (case logger_context lg of None \<Rightarrow> JUndefined
      | Some s \<Rightarrow> if s = [] then JUndefined else JStr s)"
  by (cases "traceId tc"; cases "logger_context lg";
      simp add: createLogEntry_def Let_def map_of_set_if_nonempty)+

lemma formatDevelopment_contains_message:
  assumes "''message'' \<notin> set (meta_keys meta)"
    and "formatDevelopment J (createLogEntry lg level message meta now tc) = Inr line"
  shows "str_includes line message"
proof -
  let ?e = "createLogEntry lg level message meta now tc"
  have f: "get_prop (JObj ?e) ''message'' = JStr message"
    using assms(1) by (simp add: get_prop_createLogEntry entry_own_fields del: get_prop.simps)
  from assms(2) have "\<exists>parts. line = concat parts \<and> message \<in> set parts"
    unfolding formatDevelopment_def Let_def f
    by (auto split: if_splits sum.splits simp del: get_prop.simps concat.simps)
  then show ?thesis by (auto simp: str_includes_concat simp del: concat.simps)
qed

lemma emitOtelLog_console:
  "fst (emitOtelLog J level message attrs w) \<Longrightarrow>
     console (snd (emitOtelLog J level message attrs w)) = console w"
  by (auto simp: emitOtelLog_def Let_def split: option.splits if_splits)

lemma remote_attempt_console:
  "fst (remote_attempt J lg level message entry w) \<or> \<not> enableOtlpLogs lg \<Longrightarrow>
     console (snd (remote_attempt J lg level message entry w)) = console w"
  by (auto simp: remote_attempt_def emitOtelLog_console)

text \<open>
  When the console is written. For a log call at or above the minimum level, with \<open>entry\<close>
  the entry built for it and \<open>r\<close> the remote attempt: when neither the console sink is
  enabled nor the remote sink is enabled with a failed emit, the call writes nothing to the
  console; when the console sink is enabled, or the remote sink is enabled and the emit did
  not succeed, the call is the call of \<^verbatim>\<open>writeToConsole\<close> on the state the attempt left:
  when the entry formats to \<open>line\<close> it appends exactly that one line, after whatever the
  remote attempt wrote, and when formatting throws it writes no line and throws the same
  value. An unavailable remote logger means no emit at all and a failed attempt. When the
  metadata has no \<^verbatim>\<open>message\<close> key, the line of the development format contains the original
  message, and elsewhere the line is the serialization of the entry, whose \<^verbatim>\<open>message\<close> field
  is the original message.
\<close>

theorem writeLog_console_fallback:
  assumes "LOG_LEVEL_PRIORITY (logLevel lg) \<le> LOG_LEVEL_PRIORITY level"
    and "entry = createLogEntry lg level message meta now tc"
    and "r = remote_attempt J lg level message entry w"
  shows
    "(\<not> enableConsoleLogs lg \<and> (fst r \<or> \<not> enableOtlpLogs lg) \<longrightarrow>
        writeLog J lg level message meta now tc w = (None, snd r) \<and>
        console (snd r) = console w) \<and>
     ((enableConsoleLogs lg \<or> (enableOtlpLogs lg \<and> \<not> fst r)) \<and>
        format_entry J lg entry = Inr line \<longrightarrow>
        writeLog J lg level message meta now tc w =
          (None, (snd r)\<lparr>console := console (snd r) @ [(console_method_of level, line, None)]\<rparr>)) \<and>
     ((enableConsoleLogs lg \<or> (enableOtlpLogs lg \<and> \<not> fst r)) \<and>
        format_entry J lg entry = Inl e \<longrightarrow>
        writeLog J lg level message meta now tc w = (Some e, snd r)) \<and>
     (\<not> isOtelLoggerAvailable w \<longrightarrow> r = (False, w)) \<and>
     (''message'' \<notin> set (meta_keys meta) \<and> environment lg = ''development'' \<and>
        format_entry J lg entry = Inr line \<longrightarrow> str_includes line message) \<and>
     (''message'' \<notin> set (meta_keys meta) \<and> environment lg \<noteq> ''development'' \<and>
        format_entry J lg entry = Inr line \<longrightarrow>
        (stringify J (JObj entry) = Inr (Some line) \<or>
         stringify J (JObj entry) = Inr None \<and> line = ''undefined'') \<and>
        get_prop (JObj entry) ''message'' = JStr message)"
proof (intro conjI impI)
  assume "\<not> enableConsoleLogs lg \<and> (fst r \<or> \<not> enableOtlpLogs lg)"
  then show "writeLog J lg level message meta now tc w = (None, snd r)"
    using assms by (auto simp: writeLog_remote_attempt Let_def)
next
  assume "\<not> enableConsoleLogs lg \<and> (fst r \<or> \<not> enableOtlpLogs lg)"
  then show "console (snd r) = console w"
    unfolding assms(3) by (intro remote_attempt_console) simp
next
  assume "(enableConsoleLogs lg \<or> (enableOtlpLogs lg \<and> \<not> fst r)) \<and>
      format_entry J lg entry = Inr line"
  then show "writeLog J lg level message meta now tc w =
      (None, (snd r)\<lparr>console := console (snd r) @ [(console_method_of level, line, None)]\<rparr>)"
    using assms by (auto simp: writeLog_remote_attempt Let_def writeToConsole_format write_line_def)
next
  assume "(enableConsoleLogs lg \<or> (enableOtlpLogs lg \<and> \<not> fst r)) \<and>
      format_entry J lg entry = Inl e"
  then show "writeLog J lg level message meta now tc w = (Some e, snd r)"
    using assms by (auto simp: writeLog_remote_attempt Let_def writeToConsole_format)
next
  assume "\<not> isOtelLoggerAvailable w"
  then show "r = (False, w)" by (simp add: assms(3) remote_attempt_def)
next
  assume "''message'' \<notin> set (meta_keys meta) \<and> environment lg = ''development'' \<and>
      format_entry J lg entry = Inr line"
  then show "str_includes line message"
    using formatDevelopment_contains_message [of meta J lg level message now tc line]
    by (auto simp: format_entry_def assms(2))
next
  assume a: "''message'' \<notin> set (meta_keys meta) \<and> environment lg \<noteq> ''development'' \<and>
      format_entry J lg entry = Inr line"
  then show "stringify J (JObj entry) = Inr (Some line) \<or>
      stringify J (JObj entry) = Inr None \<and> line = ''undefined''"
    by (auto simp: format_entry_def split: sum.splits option.splits)
  from a show "get_prop (JObj entry) ''message'' = JStr message"
    unfolding assms(2)
    by (simp add: get_prop_createLogEntry entry_own_fields del: get_prop.simps)
qed

lemma mask_samples_message:
  "maskSensitiveData DEFAULT_SENSITIVE_FIELDS [(''message'', JStr ''bye'')] =
     [(''message'', JStr ''bye'')]"
  "maskSensitiveData DEFAULT_SENSITIVE_FIELDS [(''user'', JStr ''u1'')] = [(''user'', JStr ''u1'')]"
proof -
  have "\<not> isSensitive DEFAULT_SENSITIVE_FIELDS ''message''"
    "\<not> isSensitive DEFAULT_SENSITIVE_FIELDS ''user''"
    unfolding isSensitive_default
    by (simp_all add: DEFAULT_SENSITIVE_FIELDS_def toLowerCase_def lower_char_def)
  then show
    "maskSensitiveData DEFAULT_SENSITIVE_FIELDS [(''message'', JStr ''bye'')] =
       [(''message'', JStr ''bye'')]"
    "maskSensitiveData DEFAULT_SENSITIVE_FIELDS [(''user'', JStr ''u1'')] = [(''user'', JStr ''u1'')]"
    by (simp_all add: maskSensitiveData.simps mask_entries.simps mask_value.simps)
qed

lemma sample_writeLog:
  "log_lines (snd (writeLog JSON_model dev_logger LInfo ''hello'' (Some [(''message'', JStr ''bye'')])
      sample_now no_trace world0)) =
     [sample_now @ '' INFO  bye '' @ 
      CHR ''{'' # quote_string ''service'' @ '':'' @ quote_string ''svc'' @ '','' @
      quote_string ''environment'' @ '':'' @ quote_string ''development'' @ ''}'']"
  by (simp add: writeLog_def createLogEntry_def Let_def dev_logger_def no_trace_def world0_def
    set_if_nonempty_def isOtelLoggerAvailable_def emitOtelLog_def failing_logger_def
    otlp_attributes_def sanitizeAttributes_def writeToConsole_def formatDevelopment_def
    rest_of_entry_def JSON_model_def quote_string_def quote_char_def write_line_def log_lines_def
    Object_assign_def mask_samples_message padEnd_def toUpperCase_def upper_char_def)

lemma sample_format:
  "format_entry JSON_model dev_logger
     (createLogEntry dev_logger LInfo ''hello'' (Some [(''user'', JStr ''u1'')]) sample_now no_trace) =
     Inr sample_line"
  by (simp add: format_entry_def createLogEntry_def Let_def dev_logger_def no_trace_def
    set_if_nonempty_def formatDevelopment_def rest_of_entry_def JSON_model_def quote_string_def
    quote_char_def Object_assign_def mask_samples_message padEnd_def toUpperCase_def
    upper_char_def sample_line_def)

lemma sample_remote_fails:
  "\<not> fst (remote_attempt JSON_model dev_logger LInfo ''hello'' entry world0)"
  "console (snd (remote_attempt JSON_model dev_logger LInfo ''hello'' entry world0)) =
     [(console_error, ''[Observability] Error emitting OTLP log:'', Some export_error)]"
  by (simp_all add: remote_attempt_def dev_logger_def world0_def isOtelLoggerAvailable_def
      emitOtelLog_def failing_logger_def Let_def)

text \<open>
  A development logger with the remote sink enabled, the console sink disabled and a remote
  logger that throws: the call writes one line, with the message in it.
\<close>

theorem writeLog_console_fallback_witness:
  "LOG_LEVEL_PRIORITY (logLevel dev_logger) \<le> LOG_LEVEL_PRIORITY LInfo \<and>
   enableOtlpLogs dev_logger \<and>
   \<not> fst (remote_attempt JSON_model dev_logger LInfo ''hello''
      (createLogEntry dev_logger LInfo ''hello'' (Some [(''user'', JStr ''u1'')]) sample_now no_trace)
      world0) \<and>
   ''message'' \<notin> set (meta_keys (Some [(''user'', JStr ''u1'')])) \<and>
   environment dev_logger = ''development'' \<and>
   format_entry JSON_model dev_logger
     (createLogEntry dev_logger LInfo ''hello'' (Some [(''user'', JStr ''u1'')]) sample_now no_trace) =
     Inr sample_line \<and>
   log_lines (snd (writeLog JSON_model dev_logger LInfo ''hello'' (Some [(''user'', JStr ''u1'')])
     sample_now no_trace world0)) = [sample_line] \<and>
   str_includes sample_line ''hello''"
proof -
  let ?meta = "Some [(''user'', JStr ''u1'')]"
  let ?entry = "createLogEntry dev_logger LInfo ''hello'' ?meta sample_now no_trace"
  let ?r = "remote_attempt JSON_model dev_logger LInfo ''hello'' ?entry world0"
  have lvl: "LOG_LEVEL_PRIORITY (logLevel dev_logger) \<le> LOG_LEVEL_PRIORITY LInfo"
    and cfg: "enableOtlpLogs dev_logger" "environment dev_logger = ''development''"
    by (simp_all add: dev_logger_def)
  have keys: "''message'' \<notin> set (meta_keys ?meta)"
    by (simp add: meta_keys_def)
  note inst = writeLog_console_fallback [where J = JSON_model and lg = dev_logger
      and level = LInfo and message = "''hello''" and meta = ?meta and now = sample_now
      and tc = no_trace and w = world0 and line = sample_line, OF lvl refl refl]
  from inst cfg keys sample_format sample_remote_fails(1) [of ?entry]
  have w: "writeLog JSON_model dev_logger LInfo ''hello'' ?meta sample_now no_trace world0 =
      (None, (snd ?r)\<lparr>console := console (snd ?r) @ [(console_method_of LInfo, sample_line, None)]\<rparr>)"
    and inc: "str_includes sample_line ''hello''"
    by blast+
  have "log_lines (snd (writeLog JSON_model dev_logger LInfo ''hello'' ?meta sample_now no_trace
      world0)) = [sample_line]"
    unfolding w by (simp add: log_lines_def sample_remote_fails(2))
  with lvl cfg keys sample_format sample_remote_fails(1) [of ?entry] inc show ?thesis by blast
qed

text \<open>
  The same call with the metadata \<^verbatim>\<open>{message: 'bye'}\<close>: \<^verbatim>\<open>Object.assign\<close> writes it over
  the entry's own message, and the one line written does not contain \<^verbatim>\<open>hello\<close>, while the
  record handed to the remote logger has \<^verbatim>\<open>hello\<close> as its body.
\<close>

theorem writeLog_metadata_replaces_message:
  "LOG_LEVEL_PRIORITY (logLevel dev_logger) \<le> LOG_LEVEL_PRIORITY LInfo \<and>
   enableOtlpLogs dev_logger \<and>
   \<not> fst (remote_attempt JSON_model dev_logger LInfo ''hello''
      (createLogEntry dev_logger LInfo ''hello'' (Some [(''message'', JStr ''bye'')]) sample_now
        no_trace) world0) \<and>
   length (log_lines (snd (writeLog JSON_model dev_logger LInfo ''hello''
      (Some [(''message'', JStr ''bye'')]) sample_now no_trace world0))) = 1 \<and>
   \<not> mentions ''hello'' (log_lines (snd (writeLog JSON_model dev_logger LInfo ''hello''
      (Some [(''message'', JStr ''bye'')]) sample_now no_trace world0))) \<and>
   map body (emit_calls (snd (writeLog JSON_model dev_logger LInfo ''hello''
      (Some [(''message'', JStr ''bye'')]) sample_now no_trace world0))) = [''hello'']"
proof -
  have "LOG_LEVEL_PRIORITY (logLevel dev_logger) \<le> LOG_LEVEL_PRIORITY LInfo"
    "enableOtlpLogs dev_logger"
    by (simp_all add: dev_logger_def)
  moreover have "\<not> mentions ''hello'' (log_lines (snd (writeLog JSON_model dev_logger LInfo
      ''hello'' (Some [(''message'', JStr ''bye'')]) sample_now no_trace world0)))"
    unfolding sample_writeLog
    by (simp add: mentions_def quote_string_def quote_char_def sample_now_def)
  moreover have "map body (emit_calls (snd (writeLog JSON_model dev_logger LInfo ''hello''
      (Some [(''message'', JStr ''bye'')]) sample_now no_trace world0))) = [''hello'']"
    by (simp add: writeLog_remote_attempt Let_def remote_attempt_def dev_logger_def world0_def
        isOtelLoggerAvailable_def emitOtelLog_def failing_logger_def writeToConsole_available
        split: prod.splits)
  ultimately show ?thesis by (simp add: sample_writeLog sample_remote_fails)
qed

lemma mask_sample_bigint:
  "maskSensitiveData DEFAULT_SENSITIVE_FIELDS [(''id'', JBigInt 7)] = [(''id'', JBigInt 7)]"
proof -
  have "\<not> isSensitive DEFAULT_SENSITIVE_FIELDS ''id''"
    unfolding isSensitive_default
    by (simp add: DEFAULT_SENSITIVE_FIELDS_def toLowerCase_def lower_char_def)
  then show ?thesis
    by (simp add: maskSensitiveData.simps mask_entries.simps mask_value.simps)
qed

lemma sample_format_bigint:
  "format_entry JSON_model dev_logger
     (createLogEntry dev_logger LInfo ''hello'' (Some [(''id'', JBigInt 7)]) sample_now no_trace) =
     Inl (TypeError ''Do not know how to serialize a BigInt'')"
  by (simp add: format_entry_def createLogEntry_def Let_def dev_logger_def no_trace_def
    set_if_nonempty_def formatDevelopment_def rest_of_entry_def JSON_model_def quote_string_def
    quote_char_def Object_assign_def mask_sample_bigint)

text \<open>
  C5. With the remote sink enabled and a failed emit, a log call at or above the minimum
  level writes exactly one console line containing the original message: this fails on the
  call \<^verbatim>\<open>log('hello', {id: 7n})\<close> of the development logger above, whose remote logger
  throws. The emit fails and writes its diagnostic; \<^verbatim>\<open>writeToConsole\<close> is called as the
  fallback; serializing the remaining fields of the entry throws a \<^verbatim>\<open>TypeError\<close> on the
  BigInt, which nothing catches: no line is written, and the log call throws.
\<close>

theorem writeLog_fallback_line_lost:
  "LOG_LEVEL_PRIORITY (logLevel dev_logger) \<le> LOG_LEVEL_PRIORITY LInfo \<and>
   enableOtlpLogs dev_logger \<and>
   fst (remote_attempt JSON_model dev_logger LInfo ''hello''
      (createLogEntry dev_logger LInfo ''hello'' (Some [(''id'', JBigInt 7)]) sample_now no_trace)
      world0) = False \<and>
   fst (writeLog JSON_model dev_logger LInfo ''hello'' (Some [(''id'', JBigInt 7)]) sample_now
      no_trace world0) = Some (TypeError ''Do not know how to serialize a BigInt'') \<and>
   log_lines (snd (writeLog JSON_model dev_logger LInfo ''hello'' (Some [(''id'', JBigInt 7)])
      sample_now no_trace world0)) = [] \<and>
   console (snd (writeLog JSON_model dev_logger LInfo ''hello'' (Some [(''id'', JBigInt 7)])
      sample_now no_trace world0)) =
     [(console_error, ''[Observability] Error emitting OTLP log:'', Some export_error)]"
proof -
  let ?meta = "Some [(''id'', JBigInt 7)]"
  let ?entry = "createLogEntry dev_logger LInfo ''hello'' ?meta sample_now no_trace"
  let ?r = "remote_attempt JSON_model dev_logger LInfo ''hello'' ?entry world0"
  have cfg: "LOG_LEVEL_PRIORITY (logLevel dev_logger) \<le> LOG_LEVEL_PRIORITY LInfo"
    "enableOtlpLogs dev_logger"
    by (simp_all add: dev_logger_def)
  have r: "fst ?r = False" using sample_remote_fails(1) [of ?entry] by simp
  have w: "writeLog JSON_model dev_logger LInfo ''hello'' ?meta sample_now no_trace world0 =
      (Some (TypeError ''Do not know how to serialize a BigInt''), snd ?r)"
    using cfg r sample_format_bigint
    by (simp add: writeLog_remote_attempt Let_def writeToConsole_format)
  show ?thesis
    unfolding w using cfg r by (simp add: log_lines_def sample_remote_fails(2))
qed

text \<open>
  C1. Neither \<^verbatim>\<open>emitOtelLog\<close> nor a whole log call ever changes \<^verbatim>\<open>isOtlpAvailable\<close>. With
  a remote logger that throws, in the available state: the emit returns \<^verbatim>\<open>false\<close> and
  writes its diagnostic to the console, the sink is still available afterwards, and the
  next call hands a second record to the remote logger.
\<close>

theorem export_failure_leaves_sink_available:
  "isOtlpAvailable (snd (emitOtelLog J level message attrs w)) = isOtlpAvailable w \<and>
   isOtlpAvailable (snd (writeLog J lg level message meta now tc w)) = isOtlpAvailable w \<and>
   isOtelLoggerAvailable world0 \<and>
   fst (emitOtelLog JSON_model LInfo ''hello'' [] world0) = False \<and>
   console (snd (emitOtelLog JSON_model LInfo ''hello'' [] world0)) =
     [(console_error, ''[Observability] Error emitting OTLP log:'', Some export_error)] \<and>
   isOtelLoggerAvailable (snd (emitOtelLog JSON_model LInfo ''hello'' [] world0)) \<and>
   length (emit_calls (snd (emitOtelLog JSON_model LInfo ''hello'' [] world0))) = 1 \<and>
   length (emit_calls (snd (emitOtelLog JSON_model LInfo ''again'' []
      (snd (emitOtelLog JSON_model LInfo ''hello'' [] world0))))) = 2"
  by (simp add: emitOtelLog_available writeLog_available)
    (simp add: emitOtelLog_def world0_def failing_logger_def isOtelLoggerAvailable_def Let_def)

subsection \<open>Body truncation\<close>


text \<open>
  Outside the cases of the theorem below: when parsing the serialization throws, the
  serialization is returned as a string; and when \<^verbatim>\<open>JSON.stringify\<close> returns \<^verbatim>\<open>undefined\<close>,
  as it does for a function, reading its \<^verbatim>\<open>length\<close> throws a TypeError that leaves
  \<^verbatim>\<open>truncateBody\<close>.
\<close>

lemma truncateBody_parse_throws:
  assumes "b \<noteq> JUndefined" and "b \<noteq> JNull" and "typeof b \<noteq> ''string''"
    and "stringify J b = Inr (Some s)" and "int (length s) \<le> maxSize" and "parse J s = Inl e"
  shows "truncateBody J b maxSize = Inr (JStr s)"
  using assms by (simp add: truncateBody_def serialize_def)

lemma truncateBody_undefined_serialization:
  assumes "b \<noteq> JUndefined" and "b \<noteq> JNull" and "serialize J b = Inr None"
  shows "truncateBody J b maxSize = Inl (cannot_read JUndefined ''length'')"
  using assms by (simp add: truncateBody_def)

lemma truncateBody_function:
  "truncateBody JSON_model sample_function 10000 = Inl (cannot_read JUndefined ''length'')"
  by (simp add: truncateBody_def serialize_def JSON_model_def sample_function_def)

text \<open>
  C3, as amended. \<^verbatim>\<open>null\<close> and \<^verbatim>\<open>undefined\<close> give \<^verbatim>\<open>undefined\<close>. For any other value: a
  string at or under the limit is returned as it is; a value that is not a string, whose
  serialization is a text at or under the limit, is returned as the result of parsing that
  text (the value itself when parsing gives it back, and then truncating again changes
  nothing); when the serialization is a text over the limit the result is its first
  \<open>maxSize\<close> code units followed by the suffix stating its length; when serializing throws
  the result is \<^verbatim>\<open>[SERIALIZATION_ERROR]\<close>.
\<close>

theorem truncateBody_cases:
  "(b = JUndefined \<or> b = JNull \<longrightarrow> truncateBody J b maxSize = Inr JUndefined) \<and>
   (b = JStr s \<and> int (length s) \<le> maxSize \<longrightarrow> truncateBody J b maxSize = Inr b) \<and>
   (b \<noteq> JUndefined \<and> b \<noteq> JNull \<and> typeof b \<noteq> ''string'' \<and> stringify J b = Inr (Some s) \<and>
      int (length s) \<le> maxSize \<and> parse J s = Inr v \<longrightarrow> truncateBody J b maxSize = Inr v) \<and>
   (b \<noteq> JUndefined \<and> b \<noteq> JNull \<and> typeof b \<noteq> ''string'' \<and> stringify J b = Inr (Some s) \<and>
      int (length s) \<le> maxSize \<and> parse J s = Inr b \<longrightarrow>
      truncateBody J b maxSize = Inr b \<and>
      truncateBody_twice J b maxSize = truncateBody J b maxSize) \<and>
   (b \<noteq> JUndefined \<and> b \<noteq> JNull \<and> serialize J b = Inr (Some s) \<and> maxSize < int (length s) \<longrightarrow>
      truncateBody J b maxSize = Inr (JStr (truncated_text s maxSize)) \<and>
      (0 \<le> maxSize \<longrightarrow> take (nat maxSize) (truncated_text s maxSize) = take (nat maxSize) s \<and>
         drop (nat maxSize) (truncated_text s maxSize) =
           ''... [TRUNCATED - total: '' @ dec_nat (length s) @ '' bytes]'')) \<and>
   (b \<noteq> JUndefined \<and> b \<noteq> JNull \<and> serialize J b = Inl e \<longrightarrow>
      truncateBody J b maxSize = Inr (JStr ''[SERIALIZATION_ERROR]''))"
  by (auto simp: truncateBody_def truncateBody_twice_def serialize_def substring_def
      truncated_text_def)

lemma sample_stringify:
  "stringify JSON_model (JArr [JNum 1, JNum 2]) = Inr (Some ''[1,2]'')"
  "stringify JSON_model (JObj [(''u'', JUndefined)]) = Inr (Some ''{}'')"
  "stringify JSON_model JNull = Inr (Some ''null'')"
  "stringify JSON_model (JBigInt 7) = Inl (TypeError ''Do not know how to serialize a BigInt'')"
  "stringify JSON_model (JObj [(''n'', JNum 1)]) = Inr (Some (CHR ''{'' # quote_string ''n'' @ '':1}''))"
  "stringify JSON_model (JArr [JUndefined, sample_function]) = Inr (Some ''[null,null]'')"
  by (simp_all add: JSON_model_def dec_int_def dec_nat.simps digit_char_def sample_function_def)

lemma sample_parses:
  "parse JSON_model ''[1,2]'' = Inr (JArr [JNum 1, JNum 2])"
  "parse JSON_model ''{}'' = Inr (JObj [])"
  "parse JSON_model (CHR ''{'' # quote_string ''n'' @ '':1}'') = Inr (JObj [(''n'', JNum 1)])"
  "parse JSON_model ''null'' = Inr JNull"
  "parse JSON_model ''[null,null]'' = Inr (JArr [JNull, JNull])"
  "parse JSON_model ''[1,'' = Inl SyntaxError"
  by (simp_all add: JSON_model_def JSON_parse_def skip_ws_def is_ws_def parse_number_def
      is_digit_def nat_of_digits_def cons_value_def cons_char_def quote_string_def quote_char_def
      escape_char_def eval_nat_numeral)

lemma sample_escapes:
  "parse JSON_model (quote_string [CHR ''a'', CHR 0x0A, CHR 0x01, CHR 0x22]) =
     Inr (JStr [CHR ''a'', CHR 0x0A, CHR 0x01, CHR 0x22])"
proof -
  have h: "hex4 (CHR ''0'' # CHR ''0'' # CHR ''0'' # CHR ''1'' # r) = Some 1" for r
    by (simp add: hex4_def hex_value_def)
  have c: "char_of_code (Suc 0) = CHR 0x01" by (simp add: char_of_code_def)
  show ?thesis
    by (simp add: JSON_model_def JSON_parse_def skip_ws_def is_ws_def cons_char_def
        quote_string_def quote_char_def escape_char_def hex_digit_def h c)
qed

text \<open>Each case at a concrete body.\<close>

theorem truncateBody_cases_witness:
  "truncateBody JSON_model JNull 10000 = Inr JUndefined \<and>
   int (length ''hello'') \<le> 5 \<and> truncateBody JSON_model (JStr ''hello'') 5 = Inr (JStr ''hello'') \<and>
   stringify JSON_model (JArr [JNum 1, JNum 2]) = Inr (Some ''[1,2]'') \<and>
   int (length ''[1,2]'') \<le> 5 \<and>
   parse JSON_model ''[1,2]'' = Inr (JArr [JNum 1, JNum 2]) \<and>
   truncateBody JSON_model (JArr [JNum 1, JNum 2]) 5 = Inr (JArr [JNum 1, JNum 2]) \<and>
   truncateBody_twice JSON_model (JArr [JNum 1, JNum 2]) 5 = Inr (JArr [JNum 1, JNum 2]) \<and>
   stringify JSON_model (JObj [(''n'', JNum 1)]) = Inr (Some (CHR ''{'' # quote_string ''n'' @ '':1}'')) \<and>
   parse JSON_model (CHR ''{'' # quote_string ''n'' @ '':1}'') = Inr (JObj [(''n'', JNum 1)]) \<and>
   truncateBody JSON_model (JObj [(''n'', JNum 1)]) 10 = Inr (JObj [(''n'', JNum 1)]) \<and>
   stringify JSON_model (JArr [JUndefined, sample_function]) = Inr (Some ''[null,null]'') \<and>
   parse JSON_model ''[null,null]'' = Inr (JArr [JNull, JNull]) \<and>
   truncateBody JSON_model (JArr [JUndefined, sample_function]) 100 = Inr (JArr [JNull, JNull]) \<and>
   serialize JSON_model (JStr ''hello world'') = Inr (Some ''hello world'') \<and>
   (5::int) < int (length ''hello world'') \<and>
   truncateBody JSON_model (JStr ''hello world'') 5 =
     Inr (JStr ''hello... [TRUNCATED - total: 11 bytes]'') \<and>
   serialize JSON_model (JBigInt 7) = Inl (TypeError ''Do not know how to serialize a BigInt'') \<and>
   truncateBody JSON_model (JBigInt 7) 10000 = Inr (JStr ''[SERIALIZATION_ERROR]'')"
proof -
  have ser: "serialize JSON_model (JStr ''hello world'') = Inr (Some ''hello world'')"
    "serialize JSON_model (JBigInt 7) = Inl (TypeError ''Do not know how to serialize a BigInt'')"
    by (simp_all add: serialize_def sample_stringify)
  have q: "length (quote_string ''n'') = 3"
    by (simp add: quote_string_def quote_char_def)
  have t: "truncated_text ''hello world'' 5 = ''hello... [TRUNCATED - total: 11 bytes]''"
    by (simp add: truncated_text_def dec_nat.simps digit_char_def)
  have f: "typeof (JArr [JUndefined, sample_function]) \<noteq> ''string''" by simp
  show ?thesis
    using truncateBody_cases [where b = JNull and J = JSON_model and maxSize = 10000]
      truncateBody_cases [where b = "JStr ''hello''" and s = "''hello''" and maxSize = 5
        and J = JSON_model]
      truncateBody_cases [where b = "JArr [JNum 1, JNum 2]" and s = "''[1,2]''" and maxSize = 5
        and J = JSON_model and v = "JArr [JNum 1, JNum 2]"]
      truncateBody_cases [where b = "JObj [(''n'', JNum 1)]"
        and s = "CHR ''{'' # quote_string ''n'' @ '':1}''" and maxSize = 10 and J = JSON_model
        and v = "JObj [(''n'', JNum 1)]"]
      truncateBody_cases [where b = "JArr [JUndefined, sample_function]"
        and s = "''[null,null]''" and maxSize = 100 and J = JSON_model
        and v = "JArr [JNull, JNull]"]
      truncateBody_cases [where b = "JStr ''hello world''" and s = "''hello world''"
        and maxSize = 5 and J = JSON_model]
      truncateBody_cases [where b = "JBigInt 7" and maxSize = 10000 and J = JSON_model
        and e = "TypeError ''Do not know how to serialize a BigInt''"]
    by (simp add: sample_stringify sample_parses ser q t f)
qed

text \<open>
  Two values with a serialization under the limit that do not come back unchanged:
  \<^verbatim>\<open>null\<close> comes back as \<^verbatim>\<open>undefined\<close>, and an object with a property holding
  \<^verbatim>\<open>undefined\<close> comes back without it.
\<close>

theorem truncateBody_not_identity:
  "serialize JSON_model JNull = Inr (Some ''null'') \<and> int (length ''null'') \<le> 10000 \<and>
   truncateBody JSON_model JNull 10000 = Inr JUndefined \<and>
   truncateBody JSON_model JNull 10000 \<noteq> Inr JNull \<and>
   serialize JSON_model (JObj [(''u'', JUndefined)]) = Inr (Some ''{}'') \<and>
   int (length ''{}'') \<le> 10000 \<and>
   truncateBody JSON_model (JObj [(''u'', JUndefined)]) 10000 = Inr (JObj []) \<and>
   truncateBody JSON_model (JObj [(''u'', JUndefined)]) 10000 \<noteq> Inr (JObj [(''u'', JUndefined)])"
  by (simp add: truncateBody_def serialize_def sample_stringify sample_parses)

subsection \<open>The publish wrapper\<close>


lemma spans_update_span:
  "spans (update_span i f rt) = (spans rt)[i := f (spans rt ! i)]"
  "active_span (update_span i f rt) = active_span rt"
  "meters (update_span i f rt) = meters rt"
  "logs (update_span i f rt) = logs rt"
  "published (update_span i f rt) = published rt"
  by (simp_all add: update_span_def)

lemma length_spans_ops:
  "length (spans (update_span i f rt)) = length (spans rt)"
  by (simp add: update_span_def)

lemma endSpanError_span:
  assumes "sp < length (spans rt)"
  shows "span_ended (spans (endSpanError sp err rt) ! sp)"
    and "span_status (spans (endSpanError sp err rt) ! sp) =
           ERROR (if instanceof_Error err then get_prop (value_of err) ''message''
                  else JStr (ToString (value_of err)))"
    and "span_exceptions (spans (endSpanError sp err rt) ! sp) =
           span_exceptions (spans rt ! sp) @ (if instanceof_Error err then [err] else [])"
    and "length (spans (endSpanError sp err rt)) = length (spans rt)"
  using assms
  by (simp_all add: endSpanError_def span_end_def setStatus_def recordException_def
      spans_update_span)

lemma endSpanError_other:
  "published (endSpanError sp err rt) = published rt"
  "meters (endSpanError sp err rt) = meters rt"
  "logs (endSpanError sp err rt) = logs rt"
  "active_span (endSpanError sp err rt) = active_span rt"
  by (simp_all add: endSpanError_def span_end_def setStatus_def recordException_def
      spans_update_span)

lemma map_of_foldl_obj_set:
  "map_of (foldl (\<lambda>c (k, v). obj_set c k (JStr v)) c fs) k =
     (case map_of (rev fs) k of Some v \<Rightarrow> Some (JStr v) | None \<Rightarrow> map_of c k)"
proof (induction fs rule: rev_induct)
  case Nil
  then show ?case by simp
next
  case (snoc x fs)
  obtain k' v' where x: "x = (k', v')" by (cases x)
  show ?case by (simp add: x snoc map_of_obj_set)
qed

lemma map_of_inject:
  "map_of (inject propagator sp carrier) k =
     (case map_of (rev (propagator sp)) k of Some v \<Rightarrow> Some (JStr v) | None \<Rightarrow> map_of carrier k)"
  by (simp add: inject_def map_of_foldl_obj_set)

lemma inject_keeps_keys:
  "map_of carrier k \<noteq> None \<Longrightarrow> map_of (inject propagator sp carrier) k \<noteq> None"
  by (simp add: map_of_inject split: option.splits)

lemma inject_adds_keys:
  "k \<in> set (map fst (propagator sp)) \<Longrightarrow> map_of (inject propagator sp carrier) k \<noteq> None"
  by (auto simp: map_of_inject map_of_eq_None_iff split: option.splits)

lemma inject_value:
  assumes "distinct (map fst (propagator sp))" and "(k, v) \<in> set (propagator sp)"
  shows "map_of (inject propagator sp carrier) k = Some (JStr v)"
proof -
  from assms have "map_of (rev (propagator sp)) k = Some v"
    by (simp add: distinct_rev rev_map [symmetric])
  then show ?thesis by (simp add: map_of_inject)
qed

lemma inject_other:
  "k \<notin> set (map fst (propagator sp)) \<Longrightarrow>
     map_of (inject propagator sp carrier) k = map_of carrier k"
proof -
  assume "k \<notin> set (map fst (propagator sp))"
  then have "map_of (rev (propagator sp)) k = None" by (simp add: map_of_eq_None_iff)
  then show ?thesis by (simp add: map_of_inject)
qed

lemma patched_publish_call:
  "published (snd (patched_publish propagator service originalPublish exch routingKey message
      options rt)) =
     published rt @
       [(exch, routingKey, message,
         obj_set (case options of None \<Rightarrow> [] | Some opts \<Rightarrow> opts) ''headers''
           (JObj (inject propagator (length (spans rt)) (publish_headers options))))]"
  by (simp add: patched_publish_def startSpan_def Let_def endSpanError_other span_end_def
      setStatus_def spans_update_span split: sum.splits)

lemma has_prop_JObj: "has_prop k (JObj kvs) \<longleftrightarrow> map_of kvs k \<noteq> None"
  by simp

lemma publish_headers_caller:
  "publish_headers options = entries (caller_headers options)"
proof -
  have "entries (js_or h (JObj [])) = entries h" for h
    by (cases h) (simp_all add: js_or_def)
  then show ?thesis
    by (simp add: publish_headers_def caller_headers_def caller_options_def split: option.splits)
qed

text \<open>
  C4. A call of the wrapped \<^verbatim>\<open>publish\<close> calls the original exactly once. That call receives
  the exchange, the routing key and the message unchanged, and options that agree with the
  caller's on every property but \<^verbatim>\<open>headers\<close>. Its \<^verbatim>\<open>headers\<close> object has every key of the
  headers the caller passed in the options, every key the propagator writes for the
  producer span started for this call, named after the exchange, and no other key; a
  propagated key holds the propagated value, every other key the caller's value. With no
  options the caller's headers are \<^verbatim>\<open>undefined\<close>, and the keys of the outgoing headers are
  the propagated ones.
\<close>

theorem patched_publish_injects_headers:
  assumes "c = last (published (snd (patched_publish propagator service originalPublish exch
      routingKey message options rt)))"
    and "hdrs = get_prop (call_options c) ''headers''"
    and "sp = length (spans rt)"
  shows
    "published (snd (patched_publish propagator service originalPublish exch routingKey message
        options rt)) = published rt @ [c] \<and>
     call_exchange c = exch \<and> call_routingKey c = routingKey \<and> call_message c = message \<and>
     (k \<noteq> ''headers'' \<longrightarrow> get_prop (call_options c) k = get_prop (caller_options options) k) \<and>
     (k \<in> set (own_keys (caller_headers options)) \<longrightarrow> has_prop k hdrs) \<and>
     (k \<in> set (map fst (propagator sp)) \<longrightarrow> has_prop k hdrs) \<and>
     (has_prop k hdrs \<longrightarrow>
        k \<in> set (own_keys (caller_headers options)) \<or> k \<in> set (map fst (propagator sp))) \<and>
     (distinct (map fst (propagator sp)) \<and> (k, v) \<in> set (propagator sp) \<longrightarrow>
        get_prop hdrs k = JStr v) \<and>
     (k \<notin> set (map fst (propagator sp)) \<longrightarrow>
        get_prop hdrs k = get_prop (JObj (entries (caller_headers options))) k) \<and>
     (caller_headers options = JObj kvs \<longrightarrow> JObj (entries (caller_headers options)) = JObj kvs) \<and>
     (options = None \<longrightarrow> caller_headers options = JUndefined \<and>
        (has_prop k hdrs \<longleftrightarrow> k \<in> set (map fst (propagator sp)))) \<and>
     span_name (spans (snd (patched_publish propagator service originalPublish exch routingKey
        message options rt)) ! sp) = exch @ '' publish'' \<and>
     span_kind (spans (snd (patched_publish propagator service originalPublish exch routingKey
        message options rt)) ! sp) = PRODUCER"
proof -
  let ?rt' = "snd (patched_publish propagator service originalPublish exch routingKey message
      options rt)"
  let ?ch = "entries (caller_headers options)"
  let ?h = "inject propagator (length (spans rt)) ?ch"
  have c: "c = (exch, routingKey, message,
      obj_set (case options of None \<Rightarrow> [] | Some opts \<Rightarrow> opts) ''headers'' (JObj ?h))"
    unfolding assms(1) patched_publish_call publish_headers_caller by simp
  have hdrs: "hdrs = JObj ?h"
    unfolding assms(2) c call_options_def by (simp add: map_of_obj_set)
  have sp: "span_name (spans ?rt' ! sp) = exch @ '' publish''"
    "span_kind (spans ?rt' ! sp) = PRODUCER"
    unfolding assms(3)
    by (simp_all add: patched_publish_def startSpan_def Let_def endSpanError_def span_end_def
        setStatus_def recordException_def spans_update_span split: sum.splits)
  have keys: "k \<in> set (own_keys (caller_headers options)) \<longleftrightarrow> map_of ?ch k \<noteq> None"
    by (simp add: own_keys_def map_of_eq_None_iff)
  have none: "options = None \<Longrightarrow> caller_headers options = JUndefined"
    by (simp add: caller_headers_def caller_options_def)
  have other: "has_prop k hdrs \<Longrightarrow>
      k \<in> set (own_keys (caller_headers options)) \<or> k \<in> set (map fst (propagator sp))"
  proof -
    assume "has_prop k hdrs"
    then have m: "map_of ?h k \<noteq> None" unfolding hdrs has_prop_JObj .
    show ?thesis
    proof (cases "k \<in> set (map fst (propagator sp))")
      case True
      then show ?thesis by simp
    next
      case False
      with inject_other [of k propagator "length (spans rt)" ?ch] m
      have "map_of ?ch k \<noteq> None" by (simp add: assms(3))
      then show ?thesis by (simp add: keys)
    qed
  qed
  have c1: "published ?rt' = published rt @ [c]"
    "call_exchange c = exch" "call_routingKey c = routingKey" "call_message c = message"
    "k \<noteq> ''headers'' \<longrightarrow> get_prop (call_options c) k = get_prop (caller_options options) k"
    by (auto simp: patched_publish_call publish_headers_caller c call_exchange_def
        call_routingKey_def call_message_def call_options_def caller_options_def map_of_obj_set
        split: option.splits)
  have c2: "k \<in> set (own_keys (caller_headers options)) \<longrightarrow> has_prop k hdrs"
    "k \<in> set (map fst (propagator sp)) \<longrightarrow> has_prop k hdrs"
    "distinct (map fst (propagator sp)) \<and> (k, v) \<in> set (propagator sp) \<longrightarrow>
        get_prop hdrs k = JStr v"
    "k \<notin> set (map fst (propagator sp)) \<longrightarrow>
        get_prop hdrs k = get_prop (JObj (entries (caller_headers options))) k"
    unfolding hdrs has_prop_JObj keys assms(3)
    using inject_keeps_keys [of ?ch k propagator "length (spans rt)"]
      inject_adds_keys [of k propagator "length (spans rt)" ?ch]
      inject_value [of propagator "length (spans rt)" k v ?ch]
      inject_other [of k propagator "length (spans rt)" ?ch]
    by auto
  have c3: "caller_headers options = JObj kvs \<longrightarrow> JObj (entries (caller_headers options)) = JObj kvs"
    by simp
  have c4: "options = None \<longrightarrow> caller_headers options = JUndefined \<and>
        (has_prop k hdrs \<longleftrightarrow> k \<in> set (map fst (propagator sp)))"
  proof
    assume n: "options = None"
    then have u: "caller_headers options = JUndefined" by (rule none)
    have "own_keys (caller_headers options) = []" unfolding u by (simp add: own_keys_def)
    with other c2(2) u show "caller_headers options = JUndefined \<and>
        (has_prop k hdrs \<longleftrightarrow> k \<in> set (map fst (propagator sp)))"
      by auto
  qed
  from c1 c2 c3 c4 other sp show ?thesis by blast
qed

lemma sample_publish_no_headers:
  "published (snd (patched_publish w3c_sample ''svc'' publish_ok ''orders'' ''order.created''
      (JStr ''m'') None runtime0)) =
   [(''orders'', ''order.created'', JStr ''m'',
     [(''headers'', JObj [(''traceparent'', JStr ''00-0af7651916cd43dd8448eb211c80319c-0-01'')])])]"
  by (simp add: patched_publish_call runtime0_def publish_headers_def js_or_def inject_def
      w3c_sample_def dec_nat.simps digit_char_def)

text \<open>
  The wrapped \<^verbatim>\<open>publish\<close> on the sample propagator, with a caller header and with no options.
\<close>

theorem patched_publish_injects_headers_witness:
  "''x-tenant'' \<in> set (own_keys (caller_headers
      (Some [(''persistent'', JBool True), (''headers'', JObj [(''x-tenant'', JStr ''t1'')])]))) \<and>
   caller_headers (Some [(''persistent'', JBool True),
      (''headers'', JObj [(''x-tenant'', JStr ''t1'')])]) = JObj [(''x-tenant'', JStr ''t1'')] \<and>
   ''traceparent'' \<in> set (map fst (w3c_sample (length (spans runtime0)))) \<and>
   ''x-tenant'' \<notin> set (map fst (w3c_sample (length (spans runtime0)))) \<and>
   distinct (map fst (w3c_sample (length (spans runtime0)))) \<and>
   (''traceparent'', ''00-0af7651916cd43dd8448eb211c80319c-0-01'')
      \<in> set (w3c_sample (length (spans runtime0))) \<and>
   has_prop ''x-tenant'' (get_prop (call_options (last (published (snd (patched_publish w3c_sample
      ''svc'' publish_ok ''orders'' ''order.created'' (JStr ''m'')
      (Some [(''persistent'', JBool True), (''headers'', JObj [(''x-tenant'', JStr ''t1'')])])
      runtime0))))) ''headers'') \<and>
   get_prop (get_prop (call_options (last (published (snd (patched_publish w3c_sample
      ''svc'' publish_ok ''orders'' ''order.created'' (JStr ''m'')
      (Some [(''persistent'', JBool True), (''headers'', JObj [(''x-tenant'', JStr ''t1'')])])
      runtime0))))) ''headers'') ''x-tenant'' = JStr ''t1'' \<and>
   get_prop (get_prop (call_options (last (published (snd (patched_publish w3c_sample
      ''svc'' publish_ok ''orders'' ''order.created'' (JStr ''m'')
      (Some [(''persistent'', JBool True), (''headers'', JObj [(''x-tenant'', JStr ''t1'')])])
      runtime0))))) ''headers'') ''traceparent'' =
     JStr ''00-0af7651916cd43dd8448eb211c80319c-0-01'' \<and>
   get_prop (call_options (last (published (snd (patched_publish w3c_sample
      ''svc'' publish_ok ''orders'' ''order.created'' (JStr ''m'')
      (Some [(''persistent'', JBool True), (''headers'', JObj [(''x-tenant'', JStr ''t1'')])])
      runtime0))))) ''persistent'' = JBool True \<and>
   has_prop ''traceparent'' (get_prop (call_options (last (published (snd (patched_publish
      w3c_sample ''svc'' publish_ok ''orders'' ''order.created'' (JStr ''m'') None runtime0)))))
      ''headers'') \<and>
   get_prop (get_prop (call_options (last (published (snd (patched_publish w3c_sample
      ''svc'' publish_ok ''orders'' ''order.created'' (JStr ''m'') None runtime0)))))
      ''headers'') ''traceparent'' = JStr ''00-0af7651916cd43dd8448eb211c80319c-0-01''"
proof -
  let ?opts = "Some [(''persistent'', JBool True), (''headers'', JObj [(''x-tenant'', JStr ''t1'')])]"
  have ch: "caller_headers ?opts = JObj [(''x-tenant'', JStr ''t1'')]"
    by (simp add: caller_headers_def caller_options_def)
  have h: "''x-tenant'' \<in> set (own_keys (caller_headers ?opts))"
    unfolding ch by (simp add: own_keys_def)
  have p: "''traceparent'' \<in> set (map fst (w3c_sample (length (spans runtime0))))"
    "distinct (map fst (w3c_sample (length (spans runtime0))))"
    "(''traceparent'', ''00-0af7651916cd43dd8448eb211c80319c-0-01'')
      \<in> set (w3c_sample (length (spans runtime0)))"
    "''x-tenant'' \<notin> set (map fst (w3c_sample (length (spans runtime0))))"
    by (simp_all add: w3c_sample_def runtime0_def dec_nat.simps digit_char_def)
  have o: "get_prop (caller_options ?opts) ''persistent'' = JBool True"
    by (simp add: caller_options_def)
  note a = patched_publish_injects_headers [OF refl refl refl, where propagator = w3c_sample
      and service = "''svc''" and originalPublish = publish_ok and exch = "''orders''"
      and routingKey = "''order.created''" and message = "JStr ''m''" and rt = runtime0]
  from a [where options = ?opts and k = "''x-tenant''"] h
  have 1: "has_prop ''x-tenant'' (get_prop (call_options (last (published (snd (patched_publish
      w3c_sample ''svc'' publish_ok ''orders'' ''order.created'' (JStr ''m'') ?opts runtime0)))))
      ''headers'')"
    by blast
  from a [where options = ?opts and k = "''x-tenant''"] p(4)
  have "get_prop (get_prop (call_options (last (published (snd (patched_publish
      w3c_sample ''svc'' publish_ok ''orders'' ''order.created'' (JStr ''m'') ?opts runtime0)))))
      ''headers'') ''x-tenant'' = get_prop (JObj (entries (caller_headers ?opts))) ''x-tenant''"
    by blast
  then have 5: "get_prop (get_prop (call_options (last (published (snd (patched_publish
      w3c_sample ''svc'' publish_ok ''orders'' ''order.created'' (JStr ''m'') ?opts runtime0)))))
      ''headers'') ''x-tenant'' = JStr ''t1''"
    unfolding ch by simp
  from a [where options = ?opts and k = "''traceparent''"
      and v = "''00-0af7651916cd43dd8448eb211c80319c-0-01''"] p
  have 2: "get_prop (get_prop (call_options (last (published (snd (patched_publish
      w3c_sample ''svc'' publish_ok ''orders'' ''order.created'' (JStr ''m'') ?opts runtime0)))))
      ''headers'') ''traceparent'' = JStr ''00-0af7651916cd43dd8448eb211c80319c-0-01''"
    by blast
  from a [where options = ?opts and k = "''persistent''"] o
  have 3: "get_prop (call_options (last (published (snd (patched_publish
      w3c_sample ''svc'' publish_ok ''orders'' ''order.created'' (JStr ''m'') ?opts runtime0)))))
      ''persistent'' = JBool True"
    by simp
  from a [where options = None and k = "''traceparent''"
      and v = "''00-0af7651916cd43dd8448eb211c80319c-0-01''"] p
  have 4: "get_prop (get_prop (call_options (last (published (snd (patched_publish
      w3c_sample ''svc'' publish_ok ''orders'' ''order.created'' (JStr ''m'') None runtime0)))))
      ''headers'') ''traceparent'' = JStr ''00-0af7651916cd43dd8448eb211c80319c-0-01''"
    and 6: "has_prop ''traceparent'' (get_prop (call_options (last (published (snd
      (patched_publish w3c_sample ''svc'' publish_ok ''orders'' ''order.created'' (JStr ''m'')
        None runtime0))))) ''headers'')"
    by blast+
  from h ch p 1 2 3 4 5 6 show ?thesis by blast
qed

subsection \<open>Failures pass through the hooks\<close>


lemma ws_start_span:
  "fst (ws_start service ctx rt) = length (spans rt)"
  "length (spans (snd (ws_start service ctx rt))) = Suc (length (spans rt))"
  "active_span (snd (ws_start service ctx rt)) = Some (length (spans rt))"
  by (simp_all add: ws_start_def startSpan_def Let_def setAttribute_def spans_update_span)

lemma patched_publish_failure:
  assumes "originalPublish (last (published (snd (patched_publish propagator service
      originalPublish exch routingKey message options rt)))) = Inl err"
  shows "patched_publish propagator service originalPublish exch routingKey message options rt =
      (Inl err, snd (patched_publish propagator service originalPublish exch routingKey message
        options rt))"
    and "span_ended (spans (snd (patched_publish propagator service originalPublish exch
        routingKey message options rt)) ! length (spans rt))"
    and "span_status (spans (snd (patched_publish propagator service originalPublish exch
        routingKey message options rt)) ! length (spans rt)) =
          ERROR (if instanceof_Error err then get_prop (value_of err) ''message''
                 else JStr (ToString (value_of err)))"
proof -
  let ?call = "(exch, routingKey, message,
      obj_set (case options of None \<Rightarrow> [] | Some opts \<Rightarrow> opts) ''headers''
        (JObj (inject propagator (length (spans rt)) (publish_headers options))))"
  from assms have f: "originalPublish ?call = Inl err"
    by (simp add: patched_publish_call)
  let ?rt2 = "(snd (startSpan (exch @ '' publish'') PRODUCER
            [(''messaging.system'', JStr ''rabbitmq''),
             (''messaging.operation'', JStr ''publish''),
             (''messaging.destination'', JStr exch),
             (''messaging.rabbitmq.exchange'', JStr exch),
             (''messaging.rabbitmq.routing_key'', JStr routingKey),
             (''service.name'', JStr service)] [] rt))
       \<lparr>published := published rt @ [?call]\<rparr>"
  have r: "patched_publish propagator service originalPublish exch routingKey message options rt =
      (Inl err, endSpanError (length (spans rt)) err ?rt2)"
    using f by (simp add: patched_publish_def startSpan_def Let_def)
  have len: "length (spans rt) < length (spans ?rt2)" by (simp add: startSpan_def)
  show "patched_publish propagator service originalPublish exch routingKey message options rt =
      (Inl err, snd (patched_publish propagator service originalPublish exch routingKey message
        options rt))"
    by (simp add: r)
  show "span_ended (spans (snd (patched_publish propagator service originalPublish exch
      routingKey message options rt)) ! length (spans rt))"
    unfolding r using endSpanError_span(1) [OF len] by simp
  show "span_status (spans (snd (patched_publish propagator service originalPublish exch
        routingKey message options rt)) ! length (spans rt)) =
          ERROR (if instanceof_Error err then get_prop (value_of err) ''message''
                 else JStr (ToString (value_of err)))"
    unfolding r using endSpanError_span(2) [OF len] by simp
qed

lemma ws_intercept_failure:
  assumes "ctx_type ctx = ''ws''"
    and "handle (snd (ws_start service ctx rt)) = (Inl err, rt3)"
    and "length (spans rt) < length (spans rt3)"
  shows "fst (ws_intercept service ctx handle elapsed rt) = Inl err"
    and "span_ended (spans (snd (ws_intercept service ctx handle elapsed rt)) ! length (spans rt))"
    and "span_status (spans (snd (ws_intercept service ctx handle elapsed rt)) ! length (spans rt)) =
          ERROR (if instanceof_Error err then get_prop (value_of err) ''message''
                 else JStr (ToString (value_of err)))"
    and "wsErrorsTotal (meters (snd (ws_intercept service ctx handle elapsed rt))) \<lparr>event = handler_name ctx\<rparr> =
          wsErrorsTotal (meters rt3) \<lparr>event = handler_name ctx\<rparr> + 1"
proof -
  let ?rt4 = "rt3\<lparr>active_span := active_span rt\<rparr>"
  have r: "ws_intercept service ctx handle elapsed rt =
      (Inl err, with_meters (recordWsEvent (handler_name ctx) False (Some elapsed))
                  (endSpanError (length (spans rt)) err ?rt4))"
  proof -
    obtain rt2 where s: "ws_start service ctx rt = (length (spans rt), rt2)"
      using ws_start_span(1) [of service ctx rt] by (cases "ws_start service ctx rt") simp
    with assms(2) have "handle rt2 = (Inl err, rt3)" by simp
    with s assms(1) show ?thesis by (simp add: ws_intercept_def Let_def)
  qed
  have len: "length (spans rt) < length (spans ?rt4)" using assms(3) by simp
  show "fst (ws_intercept service ctx handle elapsed rt) = Inl err" by (simp add: r)
  show "span_ended (spans (snd (ws_intercept service ctx handle elapsed rt)) ! length (spans rt))"
    unfolding r using endSpanError_span(1) [OF len] by (simp add: with_meters_def)
  show "span_status (spans (snd (ws_intercept service ctx handle elapsed rt)) ! length (spans rt)) =
          ERROR (if instanceof_Error err then get_prop (value_of err) ''message''
                 else JStr (ToString (value_of err)))"
    unfolding r using endSpanError_span(2) [OF len] by (simp add: with_meters_def)
  show "wsErrorsTotal (meters (snd (ws_intercept service ctx handle elapsed rt))) \<lparr>event = handler_name ctx\<rparr> =
          wsErrorsTotal (meters rt3) \<lparr>event = handler_name ctx\<rparr> + 1"
    unfolding r
    by (simp add: with_meters_def endSpanError_other recordWsEvent_def Let_def add_def)
qed

lemma recordSpanError_other:
  "meters (snd (recordSpanError err rt)) = meters rt"
  "logs (snd (recordSpanError err rt)) = logs rt"
  "active_span (snd (recordSpanError err rt)) = active_span rt"
  "published (snd (recordSpanError err rt)) = published rt"
  by (simp_all add: recordSpanError_def Let_def setAttribute_def setStatus_def recordException_def
      spans_update_span split: option.splits sum.splits)

lemma recordSpanError_status:
  assumes "active_span rt = Some sp" and "sp < length (spans rt)"
  shows "span_status (spans (snd (recordSpanError err rt)) ! sp) =
          ERROR (if instanceof_Error err then get_prop (value_of err) ''message''
                 else JStr (ToString (value_of err)))"
    and "span_exceptions (spans (snd (recordSpanError err rt)) ! sp) =
          span_exceptions (spans rt ! sp) @
            [if instanceof_Error err then err
             else ErrorObject [(''name'', JStr ''Error''), (''message'', JStr (ToString (value_of err)))]]"
  using assms
  by (simp_all add: recordSpanError_def Let_def setAttribute_def setStatus_def recordException_def
      spans_update_span split: sum.splits)

lemma recordSpanError_no_span:
  "active_span rt = None \<Longrightarrow> recordSpanError err rt = (None, rt)"
  by (simp add: recordSpanError_def)

lemma recordSpanError_not_axios:
  "\<not> isAxiosError (value_of err) \<Longrightarrow> fst (recordSpanError err rt) = None"
  by (simp add: recordSpanError_def Let_def split: option.splits)

text \<open>
  \<^verbatim>\<open>handleError\<close> step by step: a context or an error extraction that throws ends it with
  nothing recorded; a span annotation that throws ends it with the span partly annotated and
  no metric; otherwise the metric is recorded and the outcome is that of the logger.
\<close>

lemma handleError_context_throws:
  "extractContextInfo ctx = Inl e \<Longrightarrow> handleError J ic err ctx now tc rt = (Some e, rt)"
  by (simp add: handleError_def)

lemma handleError_extraction_throws:
  "extractContextInfo ctx = Inr ci \<Longrightarrow> extractErrorInfo J ic err = Inl e \<Longrightarrow>
   handleError J ic err ctx now tc rt = (Some e, rt)"
  by (simp add: handleError_def)

lemma handleError_span_throws:
  "extractContextInfo ctx = Inr ci \<Longrightarrow> extractErrorInfo J ic err = Inr ei \<Longrightarrow>
   fst (recordSpanError err rt) = Some e \<Longrightarrow>
   handleError J ic err ctx now tc rt = (Some e, snd (recordSpanError err rt))"
  by (cases "recordSpanError err rt") (simp add: handleError_def)

lemma handleError_effects:
  assumes "extractContextInfo ctx = Inr ci" and "extractErrorInfo J ic err = Inr ei"
    and "fst (recordSpanError err rt) = None"
  shows "meters (snd (handleError J ic err ctx now tc rt)) =
     recordError (classifyError (value_of err)) (metrics_context (ctx_type ctx))
       (error_code_of (value_of err)) (meters rt)"
    and "spans (snd (handleError J ic err ctx now tc rt)) = spans (snd (recordSpanError err rt))"
    and "logs (snd (handleError J ic err ctx now tc rt)) =
     snd (logger_error J (interceptor_logger ic)
       (''Error in '' @ class_name ctx @ ''/'' @ handler_name ctx) JUndefined
       (error_log_meta ctx ci ei) now tc (logs rt))"
    and "fst (handleError J ic err ctx now tc rt) =
     fst (logger_error J (interceptor_logger ic)
       (''Error in '' @ class_name ctx @ ''/'' @ handler_name ctx) JUndefined
       (error_log_meta ctx ci ei) now tc (logs rt))"
proof -
  obtain rt1 where r: "recordSpanError err rt = (None, rt1)"
    using assms(3) by (cases "recordSpanError err rt") simp
  have o: "meters rt1 = meters rt" "logs rt1 = logs rt"
    using recordSpanError_other(1,2) [of err rt] by (simp_all add: r)
  show "meters (snd (handleError J ic err ctx now tc rt)) =
     recordError (classifyError (value_of err)) (metrics_context (ctx_type ctx))
       (error_code_of (value_of err)) (meters rt)"
    and "spans (snd (handleError J ic err ctx now tc rt)) = spans (snd (recordSpanError err rt))"
    and "logs (snd (handleError J ic err ctx now tc rt)) =
     snd (logger_error J (interceptor_logger ic)
       (''Error in '' @ class_name ctx @ ''/'' @ handler_name ctx) JUndefined
       (error_log_meta ctx ci ei) now tc (logs rt))"
    and "fst (handleError J ic err ctx now tc rt) =
     fst (logger_error J (interceptor_logger ic)
       (''Error in '' @ class_name ctx @ ''/'' @ handler_name ctx) JUndefined
       (error_log_meta ctx ci ei) now tc (logs rt))"
    by (simp_all add: handleError_def assms(1,2) r o Let_def recordErrorMetric_def with_meters_def
        split: prod.splits)
qed

lemma error_intercept_outcome:
  assumes "handle rt = (Inl err, rafter)"
  shows "error_intercept J ic ctx handle now tc rt =
      (case fst (handleError J ic err ctx now tc rafter) of None \<Rightarrow> Inl err | Some e \<Rightarrow> Inl e,
       snd (handleError J ic err ctx now tc rafter))"
proof -
  obtain thrown rt2 where h: "handleError J ic err ctx now tc rafter = (thrown, rt2)"
    by (cases "handleError J ic err ctx now tc rafter") simp
  with assms show ?thesis by (simp add: error_intercept_def split: option.splits)
qed

lemma sample_extractions:
  "extractContextInfo (request_ctx uid) =
     Inr [(''http'', JObj [(''method'', JStr ''GET''), (''url'', JStr ''/users/7''),
        (''path'', JStr ''/users/7''), (''query'', JObj []), (''params'', JObj [(''id'', JStr ''7'')]),
        (''user_id'', js_or uid JUndefined)])]"
  "extractErrorInfo JSON_model sample_interceptor app_error =
     Inr [(''error_type'', JStr ''Error''), (''error_name'', JStr ''Error''),
          (''error_message'', JStr ''boom''), (''stack_trace'', JUndefined)]"
  "fst (recordSpanError app_error runtime0) = None"
  by (simp_all add: extractContextInfo_def request_ctx_def extractHttpContext_def Let_def
      extractErrorInfo_def app_error_def classifyError_def isAxiosError_def
      isPrismaKnownRequestError_def isPrismaUnknownRequestError_def extractGenericErrorInfo_def
      opt_prop_def recordSpanError_def runtime0_def)

lemma sample_meta:
  "obj_set (error_log_meta (request_ctx uid)
      [(''http'', JObj [(''method'', JStr ''GET''), (''url'', JStr ''/users/7''),
        (''path'', JStr ''/users/7''), (''query'', JObj []), (''params'', JObj [(''id'', JStr ''7'')]),
        (''user_id'', js_or uid JUndefined)])]
      [(''error_type'', JStr ''Error''), (''error_name'', JStr ''Error''),
       (''error_message'', JStr ''boom''), (''stack_trace'', JUndefined)])
      ''stack_trace'' JUndefined =
   [(''context_type'', JStr ''http''), (''handler'', JStr ''findOne''),
    (''controller'', JStr ''UsersController''),
    (''http'', JObj [(''method'', JStr ''GET''), (''url'', JStr ''/users/7''),
        (''path'', JStr ''/users/7''), (''query'', JObj []), (''params'', JObj [(''id'', JStr ''7'')]),
        (''user_id'', js_or uid JUndefined)]),
    (''error_type'', JStr ''Error''), (''error_name'', JStr ''Error''),
    (''error_message'', JStr ''boom''), (''stack_trace'', JUndefined)]"
  by (simp add: error_log_meta_def Object_assign_def request_ctx_def)

lemma sample_meta_masked:
  assumes "uid = JBigInt 7 \<or> uid = JStr ''u7''"
  shows "maskSensitiveData DEFAULT_SENSITIVE_FIELDS
     [(''context_type'', JStr ''http''), (''handler'', JStr ''findOne''),
      (''controller'', JStr ''UsersController''),
      (''http'', JObj [(''method'', JStr ''GET''), (''url'', JStr ''/users/7''),
          (''path'', JStr ''/users/7''), (''query'', JObj []), (''params'', JObj [(''id'', JStr ''7'')]),
          (''user_id'', uid)]),
      (''error_type'', JStr ''Error''), (''error_name'', JStr ''Error''),
      (''error_message'', JStr ''boom''), (''stack_trace'', JUndefined)] =
     [(''context_type'', JStr ''http''), (''handler'', JStr ''findOne''),
      (''controller'', JStr ''UsersController''),
      (''http'', JObj [(''method'', JStr ''GET''), (''url'', JStr ''/users/7''),
          (''path'', JStr ''/users/7''), (''query'', JObj []), (''params'', JObj [(''id'', JStr ''7'')]),
          (''user_id'', uid)]),
      (''error_type'', JStr ''Error''), (''error_name'', JStr ''Error''),
      (''error_message'', JStr ''boom''), (''stack_trace'', JUndefined)]"
proof -
  have k: "\<not> isSensitive DEFAULT_SENSITIVE_FIELDS ''context_type''"
    "\<not> isSensitive DEFAULT_SENSITIVE_FIELDS ''handler''"
    "\<not> isSensitive DEFAULT_SENSITIVE_FIELDS ''controller''"
    "\<not> isSensitive DEFAULT_SENSITIVE_FIELDS ''http''"
    "\<not> isSensitive DEFAULT_SENSITIVE_FIELDS ''method''"
    "\<not> isSensitive DEFAULT_SENSITIVE_FIELDS ''url''"
    "\<not> isSensitive DEFAULT_SENSITIVE_FIELDS ''path''"
    "\<not> isSensitive DEFAULT_SENSITIVE_FIELDS ''query''"
    "\<not> isSensitive DEFAULT_SENSITIVE_FIELDS ''params''"
    "\<not> isSensitive DEFAULT_SENSITIVE_FIELDS ''id''"
    "\<not> isSensitive DEFAULT_SENSITIVE_FIELDS ''user_id''"
    "\<not> isSensitive DEFAULT_SENSITIVE_FIELDS ''error_type''"
    "\<not> isSensitive DEFAULT_SENSITIVE_FIELDS ''error_name''"
    "\<not> isSensitive DEFAULT_SENSITIVE_FIELDS ''error_message''"
    "\<not> isSensitive DEFAULT_SENSITIVE_FIELDS ''stack_trace''"
    unfolding isSensitive_default
    by (simp_all add: DEFAULT_SENSITIVE_FIELDS_def toLowerCase_def lower_char_def)
  from assms show ?thesis
    by (auto simp add: k maskSensitiveData.simps mask_entries.simps mask_value.simps)
qed

lemma sample_logger_error:
  "fst (logger_error JSON_model (interceptor_logger sample_interceptor)
      (''Error in UsersController/findOne'') JUndefined
      (error_log_meta (request_ctx (JBigInt 7))
        [(''http'', JObj [(''method'', JStr ''GET''), (''url'', JStr ''/users/7''),
          (''path'', JStr ''/users/7''), (''query'', JObj []), (''params'', JObj [(''id'', JStr ''7'')]),
          (''user_id'', js_or (JBigInt 7) JUndefined)])]
        [(''error_type'', JStr ''Error''), (''error_name'', JStr ''Error''),
         (''error_message'', JStr ''boom''), (''stack_trace'', JUndefined)])
      sample_now no_trace world_idle) =
     Some (TypeError ''Do not know how to serialize a BigInt'')"
  "fst (logger_error JSON_model (interceptor_logger sample_interceptor)
      (''Error in UsersController/findOne'') JUndefined
      (error_log_meta (request_ctx (JStr ''u7''))
        [(''http'', JObj [(''method'', JStr ''GET''), (''url'', JStr ''/users/7''),
          (''path'', JStr ''/users/7''), (''query'', JObj []), (''params'', JObj [(''id'', JStr ''7'')]),
          (''user_id'', js_or (JStr ''u7'') JUndefined)])]
        [(''error_type'', JStr ''Error''), (''error_name'', JStr ''Error''),
         (''error_message'', JStr ''boom''), (''stack_trace'', JUndefined)])
      sample_now no_trace world_idle) = None"
  unfolding logger_error_def sample_meta
  by (simp_all add: writeLog_def createLogEntry_def Let_def dev_logger_def no_trace_def
    world_idle_def sample_interceptor_def js_or_def
    set_if_nonempty_def isOtelLoggerAvailable_def writeToConsole_def formatDevelopment_def
    rest_of_entry_def JSON_model_def quote_string_def quote_char_def write_line_def
    Object_assign_def sample_meta_masked padEnd_def toUpperCase_def upper_char_def)

lemma sample_handleError:
  "fst (handleError JSON_model sample_interceptor app_error (request_ctx (JBigInt 7)) sample_now
      no_trace runtime0) = Some (TypeError ''Do not know how to serialize a BigInt'')"
  "fst (handleError JSON_model sample_interceptor app_error (request_ctx (JStr ''u7'')) sample_now
      no_trace runtime0) = None"
proof -
  have c: "class_name (request_ctx uid) = ''UsersController''"
    "handler_name (request_ctx uid) = ''findOne''" for uid
    by (simp_all add: request_ctx_def)
  have l: "logs runtime0 = world_idle" by (simp add: runtime0_def)
  show "fst (handleError JSON_model sample_interceptor app_error (request_ctx (JBigInt 7))
      sample_now no_trace runtime0) = Some (TypeError ''Do not know how to serialize a BigInt'')"
    using handleError_effects(4) [OF sample_extractions(1) sample_extractions(2)
        sample_extractions(3), of "JBigInt 7" sample_now no_trace]
      sample_logger_error(1)
    by (simp add: c l)
  show "fst (handleError JSON_model sample_interceptor app_error (request_ctx (JStr ''u7''))
      sample_now no_trace runtime0) = None"
    using handleError_effects(4) [OF sample_extractions(1) sample_extractions(2)
        sample_extractions(3), of "JStr ''u7''" sample_now no_trace]
      sample_logger_error(2)
    by (simp add: c l)
qed

text \<open>
  An extraction that throws: for the known-request error without a message,
  \<^verbatim>\<open>sanitizePrismaMessage\<close> reads \<^verbatim>\<open>replace\<close> of \<^verbatim>\<open>undefined\<close>; \<^verbatim>\<open>handleError\<close> throws that
  TypeError before anything is recorded or logged, and the interceptor raises it.
\<close>

lemma handleError_extraction_sample:
  "extractErrorInfo JSON_model sample_interceptor prisma_no_message =
     Inl (cannot_read JUndefined ''replace'')"
  "handleError JSON_model sample_interceptor prisma_no_message (request_ctx (JStr ''u7''))
     sample_now no_trace runtime0 = (Some (cannot_read JUndefined ''replace''), runtime0)"
  "error_intercept JSON_model sample_interceptor (request_ctx (JStr ''u7''))
     (\<lambda>rt. (Inl prisma_no_message, rt)) sample_now no_trace runtime0 =
     (Inl (cannot_read JUndefined ''replace''), runtime0)"
proof -
  show x: "extractErrorInfo JSON_model sample_interceptor prisma_no_message =
     Inl (cannot_read JUndefined ''replace'')"
    by (simp add: extractErrorInfo_def prisma_no_message_def classifyError_def isAxiosError_def
        isPrismaKnownRequestError_def extractPrismaKnownErrorInfo_def sanitizePrismaMessage_def
        Let_def)
  show h: "handleError JSON_model sample_interceptor prisma_no_message (request_ctx (JStr ''u7''))
     sample_now no_trace runtime0 = (Some (cannot_read JUndefined ''replace''), runtime0)"
    using handleError_extraction_throws [OF sample_extractions(1) x] .
  show "error_intercept JSON_model sample_interceptor (request_ctx (JStr ''u7''))
     (\<lambda>rt. (Inl prisma_no_message, rt)) sample_now no_trace runtime0 =
     (Inl (cannot_read JUndefined ''replace''), runtime0)"
    by (simp add: error_intercept_def h)
qed

text \<open>
  What each hook does with a failure. The wrapped \<^verbatim>\<open>publish\<close> and the socket hook raise
  the very value the original \<^verbatim>\<open>publish\<close>, or the handler, threw, after setting the error
  status on their span and ending it; the socket hook also counts the failed event. The
  error interceptor raises the value the handler threw when \<^verbatim>\<open>handleError\<close> returns, and
  the value \<^verbatim>\<open>handleError\<close> threw otherwise; when the two extractions and the span
  annotation do not throw, it has annotated the active span, recorded the metric and called
  the logger, and \<^verbatim>\<open>handleError\<close> throws exactly what the logger throws.
\<close>

theorem failure_rethrown_after_observation:
  "(originalPublish (last (published (snd (patched_publish propagator service originalPublish
        exch routingKey message options prt)))) = Inl perr \<longrightarrow>
      fst (patched_publish propagator service originalPublish exch routingKey message options prt)
        = Inl perr \<and>
      span_ended (spans (snd (patched_publish propagator service originalPublish exch routingKey
        message options prt)) ! length (spans prt)) \<and>
      span_status (spans (snd (patched_publish propagator service originalPublish exch routingKey
        message options prt)) ! length (spans prt)) =
        ERROR (if instanceof_Error perr then get_prop (value_of perr) ''message''
               else JStr (ToString (value_of perr)))) \<and>
   (ctx_type wctx = ''ws'' \<and> whandle (snd (ws_start service wctx wrt)) = (Inl werr, wafter) \<and>
    length (spans wrt) < length (spans wafter) \<longrightarrow>
      fst (ws_intercept service wctx whandle elapsed wrt) = Inl werr \<and>
      span_ended (spans (snd (ws_intercept service wctx whandle elapsed wrt)) ! length (spans wrt)) \<and>
      span_status (spans (snd (ws_intercept service wctx whandle elapsed wrt)) ! length (spans wrt)) =
        ERROR (if instanceof_Error werr then get_prop (value_of werr) ''message''
               else JStr (ToString (value_of werr))) \<and>
      wsErrorsTotal (meters (snd (ws_intercept service wctx whandle elapsed wrt)))
          \<lparr>event = handler_name wctx\<rparr> =
        wsErrorsTotal (meters wafter) \<lparr>event = handler_name wctx\<rparr> + 1) \<and>
   (handle rt = (Inl err, rafter) \<longrightarrow>
      fst (error_intercept J ic ctx handle now tc rt) =
        (case fst (handleError J ic err ctx now tc rafter) of None \<Rightarrow> Inl err | Some e \<Rightarrow> Inl e)) \<and>
   (handle rt = (Inl err, rafter) \<and> extractContextInfo ctx = Inr ci \<and>
    extractErrorInfo J ic err = Inr ei \<and> fst (recordSpanError err rafter) = None \<longrightarrow>
      fst (handleError J ic err ctx now tc rafter) =
        fst (logger_error J (interceptor_logger ic)
          (''Error in '' @ class_name ctx @ ''/'' @ handler_name ctx) JUndefined
          (error_log_meta ctx ci ei) now tc (logs rafter)) \<and>
      meters (snd (error_intercept J ic ctx handle now tc rt)) =
        recordError (classifyError (value_of err)) (metrics_context (ctx_type ctx))
          (error_code_of (value_of err)) (meters rafter) \<and>
      spans (snd (error_intercept J ic ctx handle now tc rt)) =
        spans (snd (recordSpanError err rafter)) \<and>
      logs (snd (error_intercept J ic ctx handle now tc rt)) =
        snd (logger_error J (interceptor_logger ic)
          (''Error in '' @ class_name ctx @ ''/'' @ handler_name ctx) JUndefined
          (error_log_meta ctx ci ei) now tc (logs rafter)))"
proof (intro conjI impI)
  assume a: "originalPublish (last (published (snd (patched_publish propagator service
      originalPublish exch routingKey message options prt)))) = Inl perr"
  note p = patched_publish_failure [where originalPublish = originalPublish
      and propagator = propagator and service = service and exch = exch
      and routingKey = routingKey and message = message and options = options and rt = prt
      and err = perr, OF a]
  from p(1)
  show "fst (patched_publish propagator service originalPublish exch routingKey message options prt)
      = Inl perr"
    by (metis fst_conv)
  from p(2)
  show "span_ended (spans (snd (patched_publish propagator service originalPublish exch routingKey
      message options prt)) ! length (spans prt))" .
  from p(3)
  show "span_status (spans (snd (patched_publish propagator service originalPublish exch routingKey
      message options prt)) ! length (spans prt)) =
      ERROR (if instanceof_Error perr then get_prop (value_of perr) ''message''
             else JStr (ToString (value_of perr)))" .
next
  assume a: "ctx_type wctx = ''ws'' \<and> whandle (snd (ws_start service wctx wrt)) = (Inl werr, wafter) \<and>
    length (spans wrt) < length (spans wafter)"
  then have a1: "ctx_type wctx = ''ws''"
    and a2: "whandle (snd (ws_start service wctx wrt)) = (Inl werr, wafter)"
    and a3: "length (spans wrt) < length (spans wafter)"
    by simp_all
  note r = ws_intercept_failure [where ctx = wctx and handle = whandle and service = service
      and rt = wrt and err = werr and ?rt3.0 = wafter and elapsed = elapsed, OF a1 a2 a3]
  show "fst (ws_intercept service wctx whandle elapsed wrt) = Inl werr" by (rule r(1))
  show "span_ended (spans (snd (ws_intercept service wctx whandle elapsed wrt)) ! length (spans wrt))"
    by (rule r(2))
  show "span_status (spans (snd (ws_intercept service wctx whandle elapsed wrt)) ! length (spans wrt)) =
      ERROR (if instanceof_Error werr then get_prop (value_of werr) ''message''
             else JStr (ToString (value_of werr)))"
    by (rule r(3))
  show "wsErrorsTotal (meters (snd (ws_intercept service wctx whandle elapsed wrt)))
          \<lparr>event = handler_name wctx\<rparr> =
        wsErrorsTotal (meters wafter) \<lparr>event = handler_name wctx\<rparr> + 1"
    by (rule r(4))
next
  assume a: "handle rt = (Inl err, rafter)"
  show "fst (error_intercept J ic ctx handle now tc rt) =
      (case fst (handleError J ic err ctx now tc rafter) of None \<Rightarrow> Inl err | Some e \<Rightarrow> Inl e)"
    using error_intercept_outcome [where handle = handle and rt = rt and err = err
        and rafter = rafter and J = J and ic = ic and ctx = ctx and now = now and tc = tc, OF a]
    by simp
next
  assume a: "handle rt = (Inl err, rafter) \<and> extractContextInfo ctx = Inr ci \<and>
    extractErrorInfo J ic err = Inr ei \<and> fst (recordSpanError err rafter) = None"
  then have h: "handle rt = (Inl err, rafter)" and c: "extractContextInfo ctx = Inr ci"
    and e: "extractErrorInfo J ic err = Inr ei" and sp: "fst (recordSpanError err rafter) = None"
    by simp_all
  note r = error_intercept_outcome [where handle = handle and rt = rt and err = err
      and rafter = rafter and J = J and ic = ic and ctx = ctx and now = now and tc = tc, OF h]
  note f = handleError_effects [OF c e sp, of now tc]
  show "fst (handleError J ic err ctx now tc rafter) =
        fst (logger_error J (interceptor_logger ic)
          (''Error in '' @ class_name ctx @ ''/'' @ handler_name ctx) JUndefined
          (error_log_meta ctx ci ei) now tc (logs rafter))"
    by (rule f(4))
  show "meters (snd (error_intercept J ic ctx handle now tc rt)) =
        recordError (classifyError (value_of err)) (metrics_context (ctx_type ctx))
          (error_code_of (value_of err)) (meters rafter)"
    by (simp add: r f(1))
  show "spans (snd (error_intercept J ic ctx handle now tc rt)) =
        spans (snd (recordSpanError err rafter))"
    by (simp add: r f(2))
  show "logs (snd (error_intercept J ic ctx handle now tc rt)) =
        snd (logger_error J (interceptor_logger ic)
          (''Error in '' @ class_name ctx @ ''/'' @ handler_name ctx) JUndefined
          (error_log_meta ctx ci ei) now tc (logs rafter))"
    by (simp add: r f(3))
qed

lemma sample_ws_start:
  "length (spans (snd (ws_start ''svc'' socket_ctx runtime0))) = 1"
  using ws_start_span(2) [of "''svc''" socket_ctx runtime0] by (simp add: runtime0_def)

text \<open>
  The three hooks on failing samples; the request's user id is a string, and the logger
  writes its line.
\<close>

theorem failure_rethrown_after_observation_witness:
  "publish_fails (last (published (snd (patched_publish w3c_sample ''svc'' publish_fails ''orders''
      ''order.created'' (JStr ''m'') None runtime0)))) = Inl broker_error \<and>
   fst (patched_publish w3c_sample ''svc'' publish_fails ''orders'' ''order.created'' (JStr ''m'')
      None runtime0) = Inl broker_error \<and>
   span_ended (spans (snd (patched_publish w3c_sample ''svc'' publish_fails ''orders''
      ''order.created'' (JStr ''m'') None runtime0)) ! 0) \<and>
   span_status (spans (snd (patched_publish w3c_sample ''svc'' publish_fails ''orders''
      ''order.created'' (JStr ''m'') None runtime0)) ! 0) = ERROR (JStr ''channel closed'') \<and>
   ctx_type socket_ctx = ''ws'' \<and>
   handler_fails (snd (ws_start ''svc'' socket_ctx runtime0)) =
     (Inl app_error, snd (ws_start ''svc'' socket_ctx runtime0)) \<and>
   length (spans runtime0) < length (spans (snd (ws_start ''svc'' socket_ctx runtime0))) \<and>
   fst (ws_intercept ''svc'' socket_ctx handler_fails 5 runtime0) = Inl app_error \<and>
   span_ended (spans (snd (ws_intercept ''svc'' socket_ctx handler_fails 5 runtime0)) ! 0) \<and>
   span_status (spans (snd (ws_intercept ''svc'' socket_ctx handler_fails 5 runtime0)) ! 0) =
     ERROR (JStr ''boom'') \<and>
   wsErrorsTotal (meters (snd (ws_intercept ''svc'' socket_ctx handler_fails 5 runtime0)))
     \<lparr>event = ''onMessage''\<rparr> = 1 \<and>
   handler_fails runtime0 = (Inl app_error, runtime0) \<and>
   extractContextInfo (request_ctx (JStr ''u7'')) =
     Inr [(''http'', JObj [(''method'', JStr ''GET''), (''url'', JStr ''/users/7''),
        (''path'', JStr ''/users/7''), (''query'', JObj []), (''params'', JObj [(''id'', JStr ''7'')]),
        (''user_id'', JStr ''u7'')])] \<and>
   extractErrorInfo JSON_model sample_interceptor app_error =
     Inr [(''error_type'', JStr ''Error''), (''error_name'', JStr ''Error''),
          (''error_message'', JStr ''boom''), (''stack_trace'', JUndefined)] \<and>
   fst (recordSpanError app_error runtime0) = None \<and>
   fst (handleError JSON_model sample_interceptor app_error (request_ctx (JStr ''u7'')) sample_now
      no_trace runtime0) = None \<and>
   fst (error_intercept JSON_model sample_interceptor (request_ctx (JStr ''u7'')) handler_fails
      sample_now no_trace runtime0) = Inl app_error \<and>
   errorsTotal (meters (snd (error_intercept JSON_model sample_interceptor
      (request_ctx (JStr ''u7'')) handler_fails sample_now no_trace runtime0)))
     \<lparr>error_type = GENERIC, error_context = ''http'', error_code = ''unknown''\<rparr> = 1"
proof -
  let ?pub = "patched_publish w3c_sample ''svc'' publish_fails ''orders'' ''order.created''
      (JStr ''m'') None runtime0"
  let ?ws = "ws_intercept ''svc'' socket_ctx handler_fails 5 runtime0"
  let ?ei = "error_intercept JSON_model sample_interceptor (request_ctx (JStr ''u7''))
      handler_fails sample_now no_trace runtime0"
  have p: "publish_fails (last (published (snd ?pub))) = Inl broker_error"
    by (simp add: publish_fails_def)
  have w: "ctx_type socket_ctx = ''ws''"
    "handler_fails (snd (ws_start ''svc'' socket_ctx runtime0)) =
       (Inl app_error, snd (ws_start ''svc'' socket_ctx runtime0))"
    "length (spans runtime0) < length (spans (snd (ws_start ''svc'' socket_ctx runtime0)))"
    using sample_ws_start by (simp_all add: socket_ctx_def handler_fails_def runtime0_def del: One_nat_def)
  have e: "handler_fails runtime0 = (Inl app_error, runtime0)"
    by (simp add: handler_fails_def)
  note inst = failure_rethrown_after_observation [where originalPublish = publish_fails
      and propagator = w3c_sample and service = "''svc''" and exch = "''orders''"
      and routingKey = "''order.created''" and message = "JStr ''m''" and options = None
      and prt = runtime0 and perr = broker_error
      and wctx = socket_ctx and whandle = handler_fails and wrt = runtime0 and werr = app_error
      and wafter = "snd (ws_start ''svc'' socket_ctx runtime0)" and elapsed = 5
      and handle = handler_fails and rt = runtime0 and err = app_error and rafter = runtime0
      and J = JSON_model and ic = sample_interceptor and ctx = "request_ctx (JStr ''u7'')"
      and now = sample_now and tc = no_trace
      and ci = "[(''http'', JObj [(''method'', JStr ''GET''), (''url'', JStr ''/users/7''),
        (''path'', JStr ''/users/7''), (''query'', JObj []), (''params'', JObj [(''id'', JStr ''7'')]),
        (''user_id'', JStr ''u7'')])]"
      and ei = "[(''error_type'', JStr ''Error''), (''error_name'', JStr ''Error''),
          (''error_message'', JStr ''boom''), (''stack_trace'', JUndefined)]"]
  have x: "extractContextInfo (request_ctx (JStr ''u7'')) =
     Inr [(''http'', JObj [(''method'', JStr ''GET''), (''url'', JStr ''/users/7''),
        (''path'', JStr ''/users/7''), (''query'', JObj []), (''params'', JObj [(''id'', JStr ''7'')]),
        (''user_id'', JStr ''u7'')])]"
    using sample_extractions(1) [of "JStr ''u7''"] by (simp add: js_or_def)
  note y = sample_extractions(2,3)
  have l: "length (spans runtime0) = 0" by (simp add: runtime0_def)
  from inst p have c1: "fst ?pub = Inl broker_error" "span_ended (spans (snd ?pub) ! 0)"
    "span_status (spans (snd ?pub) ! 0) = ERROR (JStr ''channel closed'')"
    unfolding l by (simp_all add: broker_error_def)
  from inst w have c2: "fst ?ws = Inl app_error" "span_ended (spans (snd ?ws) ! 0)"
    "span_status (spans (snd ?ws) ! 0) = ERROR (JStr ''boom'')"
    "wsErrorsTotal (meters (snd ?ws)) \<lparr>event = ''onMessage''\<rparr> =
       wsErrorsTotal (meters (snd (ws_start ''svc'' socket_ctx runtime0))) \<lparr>event = ''onMessage''\<rparr> + 1"
    unfolding l by (simp_all add: app_error_def socket_ctx_def)
  have m0: "wsErrorsTotal (meters (snd (ws_start ''svc'' socket_ctx runtime0))) \<lparr>event = ''onMessage''\<rparr> = 0"
    by (simp add: ws_start_def startSpan_def Let_def setAttribute_def update_span_def runtime0_def
        initializeMetrics_def split: prod.splits)
  from inst e x y sample_handleError(2)
  have c3: "fst ?ei = Inl app_error"
    "meters (snd ?ei) = recordError (classifyError (value_of app_error))
        (metrics_context (ctx_type (request_ctx (JStr ''u7''))))
        (error_code_of (value_of app_error)) (meters runtime0)"
    by simp_all
  have c4: "errorsTotal (meters (snd ?ei))
     \<lparr>error_type = GENERIC, error_context = ''http'', error_code = ''unknown''\<rparr> = 1"
    unfolding c3(2)
    by (simp add: recordError_def app_error_def classifyError_def isAxiosError_def
        isPrismaKnownRequestError_def isPrismaUnknownRequestError_def isPrismaValidationError_def
        metrics_context_def
        request_ctx_def error_code_of_def runtime0_def initializeMetrics_def Let_def add_def)
  from p c1 w c2 m0 e x y sample_handleError(2) c3(1) c4 show ?thesis by simp
qed

text \<open>
  C9. Every failure the error interceptor observes is raised again unchanged: this fails on
  the request above once its user id is a \<^verbatim>\<open>BigInt\<close>. The handler throws an error; the
  interceptor logs it with the user id among the metadata; serializing the log entry for
  the console throws a \<^verbatim>\<open>TypeError\<close> inside \<^verbatim>\<open>handleError\<close>, which nothing encloses; and the
  interceptor raises that \<^verbatim>\<open>TypeError\<close> in place of the handler's error.
\<close>

theorem error_intercept_raises_other_value:
  "handler_fails runtime0 = (Inl app_error, runtime0) \<and>
   fst (error_intercept JSON_model sample_interceptor (request_ctx (JBigInt 7)) handler_fails
      sample_now no_trace runtime0) = Inl (TypeError ''Do not know how to serialize a BigInt'') \<and>
   TypeError ''Do not know how to serialize a BigInt'' \<noteq> app_error"
proof -
  obtain rt2 where h: "handleError JSON_model sample_interceptor app_error (request_ctx (JBigInt 7))
      sample_now no_trace runtime0 = (Some (TypeError ''Do not know how to serialize a BigInt''), rt2)"
    using sample_handleError(1)
    by (cases "handleError JSON_model sample_interceptor app_error (request_ctx (JBigInt 7))
      sample_now no_trace runtime0") simp
  have f: "handler_fails runtime0 = (Inl app_error, runtime0)"
    by (simp add: handler_fails_def)
  have "fst (error_intercept JSON_model sample_interceptor (request_ctx (JBigInt 7)) handler_fails
      sample_now no_trace runtime0) = Inl (TypeError ''Do not know how to serialize a BigInt'')"
    by (simp add: error_intercept_def f h)
  moreover have "TypeError ''Do not know how to serialize a BigInt'' \<noteq> app_error"
    by (simp add: TypeError_def app_error_def)
  ultimately show ?thesis using f by simp
qed

end
